theory Spec2Isabelle
  imports Main "HOL-Library.Word" "HOL-Library.List_Lexorder" "HOL-Library.Char_ord"
begin

section \<open>The JNI glue of \<^verbatim>\<open>edu.mines.jves.opengl.Gl\<close>\<close>

text \<open>
  \<^verbatim>\<open>Gl.cpp\<close> is a flat sequence of 346 exported functions. Each one is written
  with the macros at the top of the file,
  \<^verbatim>\<open>JNI_GL_DECLAREk(name) parameters JNI_GL_BEGINk body JNI_GL_END\<close>,
  and its body is a (possibly empty) run of marshaling-helper declarations
  \<^verbatim>\<open>Jhelper local(env,jparam);\<close> followed by exactly one statement that calls the
  graphics library. The model below has one datatype for what such a function consists
  of, one row per function of the source (in source order), and one interpreter that
  gives the macros and the statements their meaning.
\<close>

subsection \<open>Values\<close>

text \<open>
  Managed (JNI) values. The integral JNI types are two's complement machine integers
  (\<^verbatim>\<open>jbyte\<close> 8 bits, \<^verbatim>\<open>jshort\<close> 16, \<^verbatim>\<open>jint\<close> 32, \<^verbatim>\<open>jlong\<close> 64, read with \<^const>\<open>sint\<close>);
  \<^verbatim>\<open>jboolean\<close> is an unsigned 8-bit value. The glue never computes with a
  \<^verbatim>\<open>jfloat\<close> or a \<^verbatim>\<open>jdouble\<close>, it only hands them on, so they are carried as their
  32 and 64 bits. An array is its element list, a direct buffer is the address of its
  storage, \<open>J_null\<close> is the null reference.
\<close>

datatype jvalue =
    J_byte "8 word"
  | J_short "16 word"
  | J_int "32 word"
  | J_long "64 word"
  | J_float "32 word"
  | J_double "64 word"
  | J_boolean "8 word"
  | J_byteArray "8 word list"
  | J_shortArray "16 word list"
  | J_intArray "32 word list"
  | J_floatArray "32 word list"
  | J_doubleArray "64 word list"
  | J_buffer "64 word"
  | J_string string
  | J_null

text \<open>
  Native values: what the graphics library receives and returns. A scalar is its bits
  at its width; a pointer argument is the typed view of the storage it points to
  (\<^verbatim>\<open>GLbyte*\<close>, \<^verbatim>\<open>GLubyte*\<close>, ...), \<open>P_void\<close> is the untyped view of a managed array,
  \<open>P_addr\<close> the address of a direct buffer, and \<open>P_chars\<close> a C string
  (\<open>None\<close> is the null pointer).
\<close>

datatype cvalue =
    C_8 "8 word"
  | C_16 "16 word"
  | C_32 "32 word"
  | C_64 "64 word"
  | C_f32 "32 word"
  | C_f64 "64 word"
  | P_byte "8 word list"
  | P_ubyte "8 word list"
  | P_short "16 word list"
  | P_ushort "16 word list"
  | P_int "32 word list"
  | P_uint "32 word list"
  | P_float "32 word list"
  | P_double "64 word list"
  | P_void jvalue
  | P_addr "64 word"
  | P_chars "string option"

text \<open>Constants of \<^verbatim>\<open>GL/gl.h\<close> and \<^verbatim>\<open>jni.h\<close> that the source names.\<close>

definition GL_TRUE :: "8 word" where "GL_TRUE = 1"
definition GL_FALSE :: "8 word" where "GL_FALSE = 0"
definition JNI_TRUE :: "8 word" where "JNI_TRUE = 1"
definition JNI_FALSE :: "8 word" where "JNI_FALSE = 0"

subsection \<open>The shape of an exported function\<close>

text \<open>The parameter and return types that occur in the source (\<open>c_int\<close> is C's \<^verbatim>\<open>int\<close>).\<close>

datatype jtype =
    jbyte | jshort | jint | c_int | jlong | jfloat | jdouble | jboolean | jstring
  | jbyteArray | jshortArray | jintArray | jfloatArray | jdoubleArray | jarray | jobject

text \<open>The marshaling helper classes of \<^verbatim>\<open>../util/jniglue.h\<close> that the source uses.\<close>

datatype helper =
    JbyteArray | JubyteArray | JshortArray | JushortArray | JintArray | JuintArray
  | JfloatArray | JdoubleArray | JvoidArray | JvoidBuffer | JfloatBuffer | JuintBuffer

text \<open>
  The declaring macro. \<^verbatim>\<open>JNI_GL_DECLARE2\<close> exports
  \<^verbatim>\<open>Java_edu_mines_jves_opengl_Gl_n##name\<close> and puts \<^verbatim>\<open>jlong pfunc\<close> in front of the
  written parameters; the others export \<^verbatim>\<open>Java_edu_mines_jves_opengl_Gl_##name\<close>.
\<close>

datatype macro =
    JNI_GL_DECLARE0
  | JNI_GL_DECLARE1
  | JNI_GL_DECLARE2
  | JNI_GL_DECLARE_RETURN0 jtype
  | JNI_GL_DECLARE_RETURN1 jtype

text \<open>
  The call expression: \<^verbatim>\<open>glAccum(op,value)\<close> is \<open>Linked ''glAccum'' [''op'', ''value'']\<close>,
  and \<^verbatim>\<open>(*(PFNGLBLENDEQUATIONPROC)toPointer(pfunc))(mode)\<close> is
  \<open>Through_pointer ''PFNGLBLENDEQUATIONPROC'' ''pfunc'' [''mode'']\<close>.
\<close>

datatype call =
    Linked string "string list"
  | Through_pointer string string "string list"

text \<open>
  The statement that holds the call:
  \<^item> \<open>Plain\<close>: \<^verbatim>\<open>f(...);\<close>
  \<^item> \<open>Return\<close>: \<^verbatim>\<open>return f(...);\<close>
  \<^item> \<open>Return_boolean\<close>: \<^verbatim>\<open>return (f(...)==GL_TRUE)?JNI_TRUE:JNI_FALSE;\<close>
  \<^item> \<open>Return_NewStringUTF\<close>: \<^verbatim>\<open>return env->NewStringUTF((const char*)f(...));\<close>
\<close>

datatype form = Plain | Return | Return_boolean | Return_NewStringUTF

text \<open>
  One exported function: its macro and name, the parameters as written after the macro,
  the helper declarations \<^verbatim>\<open>Jhelper local(env,jparam);\<close> as \<open>(Jhelper, local, jparam)\<close>,
  and the statement with the call.
\<close>

datatype entry = Entry
  (macro: macro) (name: string)
  (params: "(jtype \<times> string) list")
  (locals: "(helper \<times> string \<times> string) list")
  (form: form) (call: call)

subsection \<open>The exported functions, in source order\<close>

text \<open>Source lines 43 onwards: \<^verbatim>\<open>glAccum\<close> to \<^verbatim>\<open>glColor3b\<close>.\<close>

definition entry_points_01 :: "entry list" where
  "entry_points_01 = [
    Entry JNI_GL_DECLARE1 ''glAccum''
      [(jint, ''op''), (jfloat, ''value'')]
      []
      Plain (Linked ''glAccum'' [''op'', ''value'']),
    Entry JNI_GL_DECLARE1 ''glAlphaFunc''
      [(jint, ''func''), (jfloat, ''ref'')]
      []
      Plain (Linked ''glAlphaFunc'' [''func'', ''ref'']),
    Entry (JNI_GL_DECLARE_RETURN1 jboolean) ''glAreTexturesResident''
      [(jint, ''n''), (jintArray, ''jtextures''), (jbyteArray, ''jresidences'')]
      [(JuintArray, ''textures'', ''jtextures''), (JubyteArray, ''residences'', ''jresidences'')]
      Return_boolean (Linked ''glAreTexturesResident'' [''n'', ''textures'', ''residences'']),
    Entry JNI_GL_DECLARE1 ''glArrayElement''
      [(jint, ''i'')]
      []
      Plain (Linked ''glArrayElement'' [''i'']),
    Entry JNI_GL_DECLARE1 ''glBegin''
      [(jint, ''mode'')]
      []
      Plain (Linked ''glBegin'' [''mode'']),
    Entry JNI_GL_DECLARE1 ''glBindTexture''
      [(jint, ''target''), (jint, ''texture'')]
      []
      Plain (Linked ''glBindTexture'' [''target'', ''texture'']),
    Entry JNI_GL_DECLARE1 ''glBitmap''
      [(jint, ''width''), (jint, ''height''), (jfloat, ''xorig''), (jfloat, ''yorig''), (jfloat, ''xmove''), (jfloat, ''ymove''), (jbyteArray, ''jbitmap'')]
      [(JubyteArray, ''bitmap'', ''jbitmap'')]
      Plain (Linked ''glBitmap'' [''width'', ''height'', ''xorig'', ''yorig'', ''xmove'', ''ymove'', ''bitmap'']),
    Entry JNI_GL_DECLARE1 ''glBlendFunc''
      [(jint, ''sfactor''), (jint, ''dfactor'')]
      []
      Plain (Linked ''glBlendFunc'' [''sfactor'', ''dfactor'']),
    Entry JNI_GL_DECLARE1 ''glCallList''
      [(jint, ''list'')]
      []
      Plain (Linked ''glCallList'' [''list'']),
    Entry JNI_GL_DECLARE1 ''glCallLists__II_3B''
      [(jint, ''n''), (jint, ''type''), (jbyteArray, ''jlists'')]
      [(JvoidArray, ''lists'', ''jlists'')]
      Plain (Linked ''glCallLists'' [''n'', ''type'', ''lists'']),
    Entry JNI_GL_DECLARE1 ''glCallLists__II_3I''
      [(jint, ''n''), (jint, ''type''), (jintArray, ''jlists'')]
      [(JvoidArray, ''lists'', ''jlists'')]
      Plain (Linked ''glCallLists'' [''n'', ''type'', ''lists'']),
    Entry JNI_GL_DECLARE1 ''glCallLists__II_3S''
      [(jint, ''n''), (jint, ''type''), (jshortArray, ''jlists'')]
      [(JvoidArray, ''lists'', ''jlists'')]
      Plain (Linked ''glCallLists'' [''n'', ''type'', ''lists'']),
    Entry JNI_GL_DECLARE1 ''glClear''
      [(jint, ''mask'')]
      []
      Plain (Linked ''glClear'' [''mask'']),
    Entry JNI_GL_DECLARE1 ''glClearAccum''
      [(jfloat, ''red''), (jfloat, ''green''), (jfloat, ''blue''), (jfloat, ''alpha'')]
      []
      Plain (Linked ''glClearAccum'' [''red'', ''green'', ''blue'', ''alpha'']),
    Entry JNI_GL_DECLARE1 ''glClearColor''
      [(jfloat, ''red''), (jfloat, ''green''), (jfloat, ''blue''), (jfloat, ''alpha'')]
      []
      Plain (Linked ''glClearColor'' [''red'', ''green'', ''blue'', ''alpha'']),
    Entry JNI_GL_DECLARE1 ''glClearDepth''
      [(jdouble, ''depth'')]
      []
      Plain (Linked ''glClearDepth'' [''depth'']),
    Entry JNI_GL_DECLARE1 ''glClearIndex''
      [(jfloat, ''c'')]
      []
      Plain (Linked ''glClearIndex'' [''c'']),
    Entry JNI_GL_DECLARE1 ''glClearStencil''
      [(jint, ''s'')]
      []
      Plain (Linked ''glClearStencil'' [''s'']),
    Entry JNI_GL_DECLARE1 ''glClipPlane''
      [(jint, ''plane''), (jdoubleArray, ''jequation'')]
      [(JdoubleArray, ''equation'', ''jequation'')]
      Plain (Linked ''glClipPlane'' [''plane'', ''equation'']),
    Entry JNI_GL_DECLARE1 ''glColor3b''
      [(jbyte, ''red''), (jbyte, ''green''), (jbyte, ''blue'')]
      []
      Plain (Linked ''glColor3b'' [''red'', ''green'', ''blue''])]"

text \<open>Source lines 187 onwards: \<^verbatim>\<open>glColor3bv\<close> to \<^verbatim>\<open>glColorMask\<close>.\<close>

definition entry_points_02 :: "entry list" where
  "entry_points_02 = [
    Entry JNI_GL_DECLARE1 ''glColor3bv''
      [(jbyteArray, ''jv'')]
      [(JbyteArray, ''v'', ''jv'')]
      Plain (Linked ''glColor3bv'' [''v'']),
    Entry JNI_GL_DECLARE1 ''glColor3d''
      [(jdouble, ''red''), (jdouble, ''green''), (jdouble, ''blue'')]
      []
      Plain (Linked ''glColor3d'' [''red'', ''green'', ''blue'']),
    Entry JNI_GL_DECLARE1 ''glColor3dv''
      [(jdoubleArray, ''jv'')]
      [(JdoubleArray, ''v'', ''jv'')]
      Plain (Linked ''glColor3dv'' [''v'']),
    Entry JNI_GL_DECLARE1 ''glColor3f''
      [(jfloat, ''red''), (jfloat, ''green''), (jfloat, ''blue'')]
      []
      Plain (Linked ''glColor3f'' [''red'', ''green'', ''blue'']),
    Entry JNI_GL_DECLARE1 ''glColor3fv''
      [(jfloatArray, ''jv'')]
      [(JfloatArray, ''v'', ''jv'')]
      Plain (Linked ''glColor3fv'' [''v'']),
    Entry JNI_GL_DECLARE1 ''glColor3i''
      [(jint, ''red''), (jint, ''green''), (jint, ''blue'')]
      []
      Plain (Linked ''glColor3i'' [''red'', ''green'', ''blue'']),
    Entry JNI_GL_DECLARE1 ''glColor3iv''
      [(jintArray, ''jv'')]
      [(JintArray, ''v'', ''jv'')]
      Plain (Linked ''glColor3iv'' [''v'']),
    Entry JNI_GL_DECLARE1 ''glColor3s''
      [(jshort, ''red''), (jshort, ''green''), (jshort, ''blue'')]
      []
      Plain (Linked ''glColor3s'' [''red'', ''green'', ''blue'']),
    Entry JNI_GL_DECLARE1 ''glColor3sv''
      [(jshortArray, ''jv'')]
      [(JshortArray, ''v'', ''jv'')]
      Plain (Linked ''glColor3sv'' [''v'']),
    Entry JNI_GL_DECLARE1 ''glColor4b''
      [(jbyte, ''red''), (jbyte, ''green''), (jbyte, ''blue''), (jbyte, ''alpha'')]
      []
      Plain (Linked ''glColor4b'' [''red'', ''green'', ''blue'', ''alpha'']),
    Entry JNI_GL_DECLARE1 ''glColor4bv''
      [(jbyteArray, ''jv'')]
      [(JbyteArray, ''v'', ''jv'')]
      Plain (Linked ''glColor4bv'' [''v'']),
    Entry JNI_GL_DECLARE1 ''glColor4d''
      [(jdouble, ''red''), (jdouble, ''green''), (jdouble, ''blue''), (jdouble, ''alpha'')]
      []
      Plain (Linked ''glColor4d'' [''red'', ''green'', ''blue'', ''alpha'']),
    Entry JNI_GL_DECLARE1 ''glColor4dv''
      [(jdoubleArray, ''jv'')]
      [(JdoubleArray, ''v'', ''jv'')]
      Plain (Linked ''glColor4dv'' [''v'']),
    Entry JNI_GL_DECLARE1 ''glColor4f''
      [(jfloat, ''red''), (jfloat, ''green''), (jfloat, ''blue''), (jfloat, ''alpha'')]
      []
      Plain (Linked ''glColor4f'' [''red'', ''green'', ''blue'', ''alpha'']),
    Entry JNI_GL_DECLARE1 ''glColor4fv''
      [(jfloatArray, ''jv'')]
      [(JfloatArray, ''v'', ''jv'')]
      Plain (Linked ''glColor4fv'' [''v'']),
    Entry JNI_GL_DECLARE1 ''glColor4i''
      [(jint, ''red''), (jint, ''green''), (jint, ''blue''), (jint, ''alpha'')]
      []
      Plain (Linked ''glColor4i'' [''red'', ''green'', ''blue'', ''alpha'']),
    Entry JNI_GL_DECLARE1 ''glColor4iv''
      [(jintArray, ''jv'')]
      [(JintArray, ''v'', ''jv'')]
      Plain (Linked ''glColor4iv'' [''v'']),
    Entry JNI_GL_DECLARE1 ''glColor4s''
      [(jshort, ''red''), (jshort, ''green''), (jshort, ''blue''), (jshort, ''alpha'')]
      []
      Plain (Linked ''glColor4s'' [''red'', ''green'', ''blue'', ''alpha'']),
    Entry JNI_GL_DECLARE1 ''glColor4sv''
      [(jshortArray, ''jv'')]
      [(JshortArray, ''v'', ''jv'')]
      Plain (Linked ''glColor4sv'' [''v'']),
    Entry JNI_GL_DECLARE1 ''glColorMask''
      [(jbyte, ''red''), (jbyte, ''green''), (jbyte, ''blue''), (jbyte, ''alpha'')]
      []
      Plain (Linked ''glColorMask'' [''red'', ''green'', ''blue'', ''alpha''])]"

text \<open>Source lines 317 onwards: \<^verbatim>\<open>glColorMaterial\<close> to \<^verbatim>\<open>glDrawElements__III_3S\<close>.\<close>

definition entry_points_03 :: "entry list" where
  "entry_points_03 = [
    Entry JNI_GL_DECLARE1 ''glColorMaterial''
      [(jint, ''face''), (jint, ''mode'')]
      []
      Plain (Linked ''glColorMaterial'' [''face'', ''mode'']),
    Entry JNI_GL_DECLARE1 ''glColorPointer''
      [(jint, ''size''), (jint, ''type''), (jint, ''stride''), (jobject, ''jpointer'')]
      [(JvoidBuffer, ''pointer'', ''jpointer'')]
      Plain (Linked ''glColorPointer'' [''size'', ''type'', ''stride'', ''pointer'']),
    Entry JNI_GL_DECLARE1 ''glCopyPixels''
      [(jint, ''x''), (jint, ''y''), (jint, ''width''), (jint, ''height''), (jint, ''type'')]
      []
      Plain (Linked ''glCopyPixels'' [''x'', ''y'', ''width'', ''height'', ''type'']),
    Entry JNI_GL_DECLARE1 ''glCopyTexImage1D''
      [(jint, ''target''), (jint, ''level''), (jint, ''internalFormat''), (jint, ''x''), (jint, ''y''), (jint, ''width''), (jint, ''border'')]
      []
      Plain (Linked ''glCopyTexImage1D'' [''target'', ''level'', ''internalFormat'', ''x'', ''y'', ''width'', ''border'']),
    Entry JNI_GL_DECLARE1 ''glCopyTexImage2D''
      [(jint, ''target''), (jint, ''level''), (jint, ''internalFormat''), (jint, ''x''), (jint, ''y''), (jint, ''width''), (jint, ''height''), (jint, ''border'')]
      []
      Plain (Linked ''glCopyTexImage2D'' [''target'', ''level'', ''internalFormat'', ''x'', ''y'', ''width'', ''height'', ''border'']),
    Entry JNI_GL_DECLARE1 ''glCopyTexSubImage1D''
      [(jint, ''target''), (jint, ''level''), (jint, ''xoffset''), (jint, ''x''), (jint, ''y''), (jint, ''width'')]
      []
      Plain (Linked ''glCopyTexSubImage1D'' [''target'', ''level'', ''xoffset'', ''x'', ''y'', ''width'']),
    Entry JNI_GL_DECLARE1 ''glCopyTexSubImage2D''
      [(jint, ''target''), (jint, ''level''), (jint, ''xoffset''), (jint, ''yoffset''), (jint, ''x''), (jint, ''y''), (jint, ''width''), (jint, ''height'')]
      []
      Plain (Linked ''glCopyTexSubImage2D'' [''target'', ''level'', ''xoffset'', ''yoffset'', ''x'', ''y'', ''width'', ''height'']),
    Entry JNI_GL_DECLARE1 ''glCullFace''
      [(jint, ''mode'')]
      []
      Plain (Linked ''glCullFace'' [''mode'']),
    Entry JNI_GL_DECLARE1 ''glDeleteLists''
      [(jint, ''list''), (jint, ''range'')]
      []
      Plain (Linked ''glDeleteLists'' [''list'', ''range'']),
    Entry JNI_GL_DECLARE1 ''glDeleteTextures''
      [(jint, ''n''), (jintArray, ''jtextures'')]
      [(JuintArray, ''textures'', ''jtextures'')]
      Plain (Linked ''glDeleteTextures'' [''n'', ''textures'']),
    Entry JNI_GL_DECLARE1 ''glDepthFunc''
      [(jint, ''func'')]
      []
      Plain (Linked ''glDepthFunc'' [''func'']),
    Entry JNI_GL_DECLARE1 ''glDepthMask''
      [(jbyte, ''flag'')]
      []
      Plain (Linked ''glDepthMask'' [''flag'']),
    Entry JNI_GL_DECLARE1 ''glDepthRange''
      [(jdouble, ''zNear''), (jdouble, ''zFar'')]
      []
      Plain (Linked ''glDepthRange'' [''zNear'', ''zFar'']),
    Entry JNI_GL_DECLARE1 ''glDisable''
      [(jint, ''cap'')]
      []
      Plain (Linked ''glDisable'' [''cap'']),
    Entry JNI_GL_DECLARE1 ''glDisableClientState''
      [(jint, ''array'')]
      []
      Plain (Linked ''glDisableClientState'' [''array'']),
    Entry JNI_GL_DECLARE1 ''glDrawArrays''
      [(jint, ''mode''), (jint, ''first''), (jint, ''count'')]
      []
      Plain (Linked ''glDrawArrays'' [''mode'', ''first'', ''count'']),
    Entry JNI_GL_DECLARE1 ''glDrawBuffer''
      [(jint, ''mode'')]
      []
      Plain (Linked ''glDrawBuffer'' [''mode'']),
    Entry JNI_GL_DECLARE1 ''glDrawElements__III_3B''
      [(jint, ''mode''), (jint, ''count''), (jint, ''type''), (jarray, ''jindices'')]
      [(JvoidArray, ''indices'', ''jindices'')]
      Plain (Linked ''glDrawElements'' [''mode'', ''count'', ''type'', ''indices'']),
    Entry JNI_GL_DECLARE1 ''glDrawElements__III_3I''
      [(jint, ''mode''), (jint, ''count''), (jint, ''type''), (jarray, ''jindices'')]
      [(JvoidArray, ''indices'', ''jindices'')]
      Plain (Linked ''glDrawElements'' [''mode'', ''count'', ''type'', ''indices'']),
    Entry JNI_GL_DECLARE1 ''glDrawElements__III_3S''
      [(jint, ''mode''), (jint, ''count''), (jint, ''type''), (jarray, ''jindices'')]
      [(JvoidArray, ''indices'', ''jindices'')]
      Plain (Linked ''glDrawElements'' [''mode'', ''count'', ''type'', ''indices''])]"

text \<open>Source lines 445 onwards: \<^verbatim>\<open>glDrawPixels__IIII_3B\<close> to \<^verbatim>\<open>glEvalMesh2\<close>.\<close>

definition entry_points_04 :: "entry list" where
  "entry_points_04 = [
    Entry JNI_GL_DECLARE1 ''glDrawPixels__IIII_3B''
      [(jint, ''width''), (jint, ''height''), (jint, ''format''), (jint, ''type''), (jarray, ''jpixels'')]
      [(JvoidArray, ''pixels'', ''jpixels'')]
      Plain (Linked ''glDrawPixels'' [''width'', ''height'', ''format'', ''type'', ''pixels'']),
    Entry JNI_GL_DECLARE1 ''glDrawPixels__IIII_3I''
      [(jint, ''width''), (jint, ''height''), (jint, ''format''), (jint, ''type''), (jarray, ''jpixels'')]
      [(JvoidArray, ''pixels'', ''jpixels'')]
      Plain (Linked ''glDrawPixels'' [''width'', ''height'', ''format'', ''type'', ''pixels'']),
    Entry JNI_GL_DECLARE1 ''glDrawPixels__IIII_3S''
      [(jint, ''width''), (jint, ''height''), (jint, ''format''), (jint, ''type''), (jarray, ''jpixels'')]
      [(JvoidArray, ''pixels'', ''jpixels'')]
      Plain (Linked ''glDrawPixels'' [''width'', ''height'', ''format'', ''type'', ''pixels'']),
    Entry JNI_GL_DECLARE1 ''glEdgeFlag''
      [(jbyte, ''flag'')]
      []
      Plain (Linked ''glEdgeFlag'' [''flag'']),
    Entry JNI_GL_DECLARE1 ''glEdgeFlagPointer''
      [(jint, ''stride''), (jobject, ''jpointer'')]
      [(JvoidBuffer, ''pointer'', ''jpointer'')]
      Plain (Linked ''glEdgeFlagPointer'' [''stride'', ''pointer'']),
    Entry JNI_GL_DECLARE1 ''glEdgeFlagv''
      [(jbyteArray, ''jflag'')]
      [(JubyteArray, ''flag'', ''jflag'')]
      Plain (Linked ''glEdgeFlagv'' [''flag'']),
    Entry JNI_GL_DECLARE1 ''glEnable''
      [(jint, ''cap'')]
      []
      Plain (Linked ''glEnable'' [''cap'']),
    Entry JNI_GL_DECLARE1 ''glEnableClientState''
      [(jint, ''array'')]
      []
      Plain (Linked ''glEnableClientState'' [''array'']),
    Entry JNI_GL_DECLARE0 ''glEnd''
      []
      []
      Plain (Linked ''glEnd'' []),
    Entry JNI_GL_DECLARE0 ''glEndList''
      []
      []
      Plain (Linked ''glEndList'' []),
    Entry JNI_GL_DECLARE1 ''glEvalCoord1d''
      [(jdouble, ''u'')]
      []
      Plain (Linked ''glEvalCoord1d'' [''u'']),
    Entry JNI_GL_DECLARE1 ''glEvalCoord1dv''
      [(jdoubleArray, ''ju'')]
      [(JdoubleArray, ''u'', ''ju'')]
      Plain (Linked ''glEvalCoord1dv'' [''u'']),
    Entry JNI_GL_DECLARE1 ''glEvalCoord1f''
      [(jfloat, ''u'')]
      []
      Plain (Linked ''glEvalCoord1f'' [''u'']),
    Entry JNI_GL_DECLARE1 ''glEvalCoord1fv''
      [(jfloatArray, ''ju'')]
      [(JfloatArray, ''u'', ''ju'')]
      Plain (Linked ''glEvalCoord1fv'' [''u'']),
    Entry JNI_GL_DECLARE1 ''glEvalCoord2d''
      [(jdouble, ''u''), (jdouble, ''v'')]
      []
      Plain (Linked ''glEvalCoord2d'' [''u'', ''v'']),
    Entry JNI_GL_DECLARE1 ''glEvalCoord2dv''
      [(jdoubleArray, ''ju'')]
      [(JdoubleArray, ''u'', ''ju'')]
      Plain (Linked ''glEvalCoord2dv'' [''u'']),
    Entry JNI_GL_DECLARE1 ''glEvalCoord2f''
      [(jfloat, ''u''), (jfloat, ''v'')]
      []
      Plain (Linked ''glEvalCoord2f'' [''u'', ''v'']),
    Entry JNI_GL_DECLARE1 ''glEvalCoord2fv''
      [(jfloatArray, ''ju'')]
      [(JfloatArray, ''u'', ''ju'')]
      Plain (Linked ''glEvalCoord2fv'' [''u'']),
    Entry JNI_GL_DECLARE1 ''glEvalMesh1''
      [(jint, ''mode''), (jint, ''i1''), (jint, ''i2'')]
      []
      Plain (Linked ''glEvalMesh1'' [''mode'', ''i1'', ''i2'']),
    Entry JNI_GL_DECLARE1 ''glEvalMesh2''
      [(jint, ''mode''), (jint, ''i1''), (jint, ''i2''), (jint, ''j1''), (jint, ''j2'')]
      []
      Plain (Linked ''glEvalMesh2'' [''mode'', ''i1'', ''i2'', ''j1'', ''j2''])]"

text \<open>Source lines 572 onwards: \<^verbatim>\<open>glEvalPoint1\<close> to \<^verbatim>\<open>glGetLightfv\<close>.\<close>

definition entry_points_05 :: "entry list" where
  "entry_points_05 = [
    Entry JNI_GL_DECLARE1 ''glEvalPoint1''
      [(jint, ''i'')]
      []
      Plain (Linked ''glEvalPoint1'' [''i'']),
    Entry JNI_GL_DECLARE1 ''glEvalPoint2''
      [(jint, ''i''), (jint, ''j'')]
      []
      Plain (Linked ''glEvalPoint2'' [''i'', ''j'']),
    Entry JNI_GL_DECLARE1 ''glFeedbackBuffer''
      [(jint, ''size''), (jint, ''type''), (jobject, ''jbuffer'')]
      [(JfloatBuffer, ''buffer'', ''jbuffer'')]
      Plain (Linked ''glFeedbackBuffer'' [''size'', ''type'', ''buffer'']),
    Entry JNI_GL_DECLARE0 ''glFinish''
      []
      []
      Plain (Linked ''glFinish'' []),
    Entry JNI_GL_DECLARE0 ''glFlush''
      []
      []
      Plain (Linked ''glFlush'' []),
    Entry JNI_GL_DECLARE1 ''glFogf''
      [(jint, ''pname''), (jfloat, ''param'')]
      []
      Plain (Linked ''glFogf'' [''pname'', ''param'']),
    Entry JNI_GL_DECLARE1 ''glFogfv''
      [(jint, ''pname''), (jfloatArray, ''jparams'')]
      [(JfloatArray, ''params'', ''jparams'')]
      Plain (Linked ''glFogfv'' [''pname'', ''params'']),
    Entry JNI_GL_DECLARE1 ''glFogi''
      [(jint, ''pname''), (jint, ''param'')]
      []
      Plain (Linked ''glFogi'' [''pname'', ''param'']),
    Entry JNI_GL_DECLARE1 ''glFogiv''
      [(jint, ''pname''), (jintArray, ''jparams'')]
      [(JintArray, ''params'', ''jparams'')]
      Plain (Linked ''glFogiv'' [''pname'', ''params'']),
    Entry JNI_GL_DECLARE1 ''glFrontFace''
      [(jint, ''mode'')]
      []
      Plain (Linked ''glFrontFace'' [''mode'']),
    Entry JNI_GL_DECLARE1 ''glFrustum''
      [(jdouble, ''left''), (jdouble, ''right''), (jdouble, ''bottom''), (jdouble, ''top''), (jdouble, ''zNear''), (jdouble, ''zFar'')]
      []
      Plain (Linked ''glFrustum'' [''left'', ''right'', ''bottom'', ''top'', ''zNear'', ''zFar'']),
    Entry (JNI_GL_DECLARE_RETURN1 jint) ''glGenLists''
      [(jint, ''range'')]
      []
      Return (Linked ''glGenLists'' [''range'']),
    Entry JNI_GL_DECLARE1 ''glGenTextures''
      [(jint, ''n''), (jintArray, ''jtextures'')]
      [(JuintArray, ''textures'', ''jtextures'')]
      Plain (Linked ''glGenTextures'' [''n'', ''textures'']),
    Entry JNI_GL_DECLARE1 ''glGetBooleanv''
      [(jint, ''pname''), (jbyteArray, ''jparams'')]
      [(JubyteArray, ''params'', ''jparams'')]
      Plain (Linked ''glGetBooleanv'' [''pname'', ''params'']),
    Entry JNI_GL_DECLARE1 ''glGetClipPlane''
      [(jint, ''plane''), (jdoubleArray, ''jequation'')]
      [(JdoubleArray, ''equation'', ''jequation'')]
      Plain (Linked ''glGetClipPlane'' [''plane'', ''equation'']),
    Entry JNI_GL_DECLARE1 ''glGetDoublev''
      [(jint, ''pname''), (jdoubleArray, ''jparams'')]
      [(JdoubleArray, ''params'', ''jparams'')]
      Plain (Linked ''glGetDoublev'' [''pname'', ''params'']),
    Entry (JNI_GL_DECLARE_RETURN0 jint) ''glGetError''
      []
      []
      Return (Linked ''glGetError'' []),
    Entry JNI_GL_DECLARE1 ''glGetFloatv''
      [(jint, ''pname''), (jfloatArray, ''jparams'')]
      [(JfloatArray, ''params'', ''jparams'')]
      Plain (Linked ''glGetFloatv'' [''pname'', ''params'']),
    Entry JNI_GL_DECLARE1 ''glGetIntegerv''
      [(jint, ''pname''), (jintArray, ''jparams'')]
      [(JintArray, ''params'', ''jparams'')]
      Plain (Linked ''glGetIntegerv'' [''pname'', ''params'']),
    Entry JNI_GL_DECLARE1 ''glGetLightfv''
      [(jint, ''light''), (jint, ''pname''), (jfloatArray, ''jparams'')]
      [(JfloatArray, ''params'', ''jparams'')]
      Plain (Linked ''glGetLightfv'' [''light'', ''pname'', ''params''])]"

text \<open>Source lines 701 onwards: \<^verbatim>\<open>glGetLightiv\<close> to \<^verbatim>\<open>glGetTexLevelParameterfv\<close>.\<close>

definition entry_points_06 :: "entry list" where
  "entry_points_06 = [
    Entry JNI_GL_DECLARE1 ''glGetLightiv''
      [(jint, ''light''), (jint, ''pname''), (jintArray, ''jparams'')]
      [(JintArray, ''params'', ''jparams'')]
      Plain (Linked ''glGetLightiv'' [''light'', ''pname'', ''params'']),
    Entry JNI_GL_DECLARE1 ''glGetMapdv''
      [(jint, ''target''), (jint, ''query''), (jdoubleArray, ''jv'')]
      [(JdoubleArray, ''v'', ''jv'')]
      Plain (Linked ''glGetMapdv'' [''target'', ''query'', ''v'']),
    Entry JNI_GL_DECLARE1 ''glGetMapfv''
      [(jint, ''target''), (jint, ''query''), (jfloatArray, ''jv'')]
      [(JfloatArray, ''v'', ''jv'')]
      Plain (Linked ''glGetMapfv'' [''target'', ''query'', ''v'']),
    Entry JNI_GL_DECLARE1 ''glGetMapiv''
      [(jint, ''target''), (jint, ''query''), (jintArray, ''jv'')]
      [(JintArray, ''v'', ''jv'')]
      Plain (Linked ''glGetMapiv'' [''target'', ''query'', ''v'']),
    Entry JNI_GL_DECLARE1 ''glGetMaterialfv''
      [(jint, ''face''), (jint, ''pname''), (jfloatArray, ''jparams'')]
      [(JfloatArray, ''params'', ''jparams'')]
      Plain (Linked ''glGetMaterialfv'' [''face'', ''pname'', ''params'']),
    Entry JNI_GL_DECLARE1 ''glGetMaterialiv''
      [(jint, ''face''), (jint, ''pname''), (jintArray, ''jparams'')]
      [(JintArray, ''params'', ''jparams'')]
      Plain (Linked ''glGetMaterialiv'' [''face'', ''pname'', ''params'']),
    Entry JNI_GL_DECLARE1 ''glGetPixelMapfv''
      [(jint, ''map''), (jfloatArray, ''jvalues'')]
      [(JfloatArray, ''values'', ''jvalues'')]
      Plain (Linked ''glGetPixelMapfv'' [''map'', ''values'']),
    Entry JNI_GL_DECLARE1 ''glGetPixelMapuiv''
      [(jint, ''map''), (jintArray, ''jvalues'')]
      [(JuintArray, ''values'', ''jvalues'')]
      Plain (Linked ''glGetPixelMapuiv'' [''map'', ''values'']),
    Entry JNI_GL_DECLARE1 ''glGetPixelMapusv''
      [(jint, ''map''), (jshortArray, ''jvalues'')]
      [(JushortArray, ''values'', ''jvalues'')]
      Plain (Linked ''glGetPixelMapusv'' [''map'', ''values'']),
    Entry JNI_GL_DECLARE1 ''glGetPolygonStipple''
      [(jbyteArray, ''jmask'')]
      [(JubyteArray, ''mask'', ''jmask'')]
      Plain (Linked ''glGetPolygonStipple'' [''mask'']),
    Entry (JNI_GL_DECLARE_RETURN1 jstring) ''glGetString''
      [(c_int, ''name'')]
      []
      Return_NewStringUTF (Linked ''glGetString'' [''name'']),
    Entry JNI_GL_DECLARE1 ''glGetTexEnvfv''
      [(jint, ''target''), (jint, ''pname''), (jfloatArray, ''jparams'')]
      [(JfloatArray, ''params'', ''jparams'')]
      Plain (Linked ''glGetTexEnvfv'' [''target'', ''pname'', ''params'']),
    Entry JNI_GL_DECLARE1 ''glGetTexEnviv''
      [(jint, ''target''), (jint, ''pname''), (jintArray, ''jparams'')]
      [(JintArray, ''params'', ''jparams'')]
      Plain (Linked ''glGetTexEnviv'' [''target'', ''pname'', ''params'']),
    Entry JNI_GL_DECLARE1 ''glGetTexGendv''
      [(jint, ''coord''), (jint, ''pname''), (jdoubleArray, ''jparams'')]
      [(JdoubleArray, ''params'', ''jparams'')]
      Plain (Linked ''glGetTexGendv'' [''coord'', ''pname'', ''params'']),
    Entry JNI_GL_DECLARE1 ''glGetTexGenfv''
      [(jint, ''coord''), (jint, ''pname''), (jfloatArray, ''jparams'')]
      [(JfloatArray, ''params'', ''jparams'')]
      Plain (Linked ''glGetTexGenfv'' [''coord'', ''pname'', ''params'']),
    Entry JNI_GL_DECLARE1 ''glGetTexGeniv''
      [(jint, ''coord''), (jint, ''pname''), (jintArray, ''jparams'')]
      [(JintArray, ''params'', ''jparams'')]
      Plain (Linked ''glGetTexGeniv'' [''coord'', ''pname'', ''params'']),
    Entry JNI_GL_DECLARE1 ''glGetTexImage__IIII_3B''
      [(jint, ''target''), (jint, ''level''), (jint, ''format''), (jint, ''type''), (jarray, ''jpixels'')]
      [(JvoidArray, ''pixels'', ''jpixels'')]
      Plain (Linked ''glGetTexImage'' [''target'', ''level'', ''format'', ''type'', ''pixels'']),
    Entry JNI_GL_DECLARE1 ''glGetTexImage__IIII_3I''
      [(jint, ''target''), (jint, ''level''), (jint, ''format''), (jint, ''type''), (jarray, ''jpixels'')]
      [(JvoidArray, ''pixels'', ''jpixels'')]
      Plain (Linked ''glGetTexImage'' [''target'', ''level'', ''format'', ''type'', ''pixels'']),
    Entry JNI_GL_DECLARE1 ''glGetTexImage__IIII_3S''
      [(jint, ''target''), (jint, ''level''), (jint, ''format''), (jint, ''type''), (jarray, ''jpixels'')]
      [(JvoidArray, ''pixels'', ''jpixels'')]
      Plain (Linked ''glGetTexImage'' [''target'', ''level'', ''format'', ''type'', ''pixels'']),
    Entry JNI_GL_DECLARE1 ''glGetTexLevelParameterfv''
      [(jint, ''target''), (jint, ''level''), (jint, ''pname''), (jfloatArray, ''jparams'')]
      [(JfloatArray, ''params'', ''jparams'')]
      Plain (Linked ''glGetTexLevelParameterfv'' [''target'', ''level'', ''pname'', ''params''])]"

text \<open>Source lines 840 onwards: \<^verbatim>\<open>glGetTexLevelParameteriv\<close> to \<^verbatim>\<open>glIsList\<close>.\<close>

definition entry_points_07 :: "entry list" where
  "entry_points_07 = [
    Entry JNI_GL_DECLARE1 ''glGetTexLevelParameteriv''
      [(jint, ''target''), (jint, ''level''), (jint, ''pname''), (jintArray, ''jparams'')]
      [(JintArray, ''params'', ''jparams'')]
      Plain (Linked ''glGetTexLevelParameteriv'' [''target'', ''level'', ''pname'', ''params'']),
    Entry JNI_GL_DECLARE1 ''glGetTexParameterfv''
      [(jint, ''target''), (jint, ''pname''), (jfloatArray, ''jparams'')]
      [(JfloatArray, ''params'', ''jparams'')]
      Plain (Linked ''glGetTexParameterfv'' [''target'', ''pname'', ''params'']),
    Entry JNI_GL_DECLARE1 ''glGetTexParameteriv''
      [(jint, ''target''), (jint, ''pname''), (jintArray, ''jparams'')]
      [(JintArray, ''params'', ''jparams'')]
      Plain (Linked ''glGetTexParameteriv'' [''target'', ''pname'', ''params'']),
    Entry JNI_GL_DECLARE1 ''glHint''
      [(jint, ''target''), (jint, ''mode'')]
      []
      Plain (Linked ''glHint'' [''target'', ''mode'']),
    Entry JNI_GL_DECLARE1 ''glIndexMask''
      [(jint, ''mask'')]
      []
      Plain (Linked ''glIndexMask'' [''mask'']),
    Entry JNI_GL_DECLARE1 ''glIndexPointer''
      [(jint, ''type''), (jint, ''stride''), (jobject, ''jpointer'')]
      [(JvoidBuffer, ''pointer'', ''jpointer'')]
      Plain (Linked ''glIndexPointer'' [''type'', ''stride'', ''pointer'']),
    Entry JNI_GL_DECLARE1 ''glIndexd''
      [(jdouble, ''c'')]
      []
      Plain (Linked ''glIndexd'' [''c'']),
    Entry JNI_GL_DECLARE1 ''glIndexdv''
      [(jdoubleArray, ''jc'')]
      [(JdoubleArray, ''c'', ''jc'')]
      Plain (Linked ''glIndexdv'' [''c'']),
    Entry JNI_GL_DECLARE1 ''glIndexf''
      [(jfloat, ''c'')]
      []
      Plain (Linked ''glIndexf'' [''c'']),
    Entry JNI_GL_DECLARE1 ''glIndexfv''
      [(jfloatArray, ''jc'')]
      [(JfloatArray, ''c'', ''jc'')]
      Plain (Linked ''glIndexfv'' [''c'']),
    Entry JNI_GL_DECLARE1 ''glIndexi''
      [(jint, ''c'')]
      []
      Plain (Linked ''glIndexi'' [''c'']),
    Entry JNI_GL_DECLARE1 ''glIndexiv''
      [(jintArray, ''jc'')]
      [(JintArray, ''c'', ''jc'')]
      Plain (Linked ''glIndexiv'' [''c'']),
    Entry JNI_GL_DECLARE1 ''glIndexs''
      [(jshort, ''c'')]
      []
      Plain (Linked ''glIndexs'' [''c'']),
    Entry JNI_GL_DECLARE1 ''glIndexsv''
      [(jshortArray, ''jc'')]
      [(JshortArray, ''c'', ''jc'')]
      Plain (Linked ''glIndexsv'' [''c'']),
    Entry JNI_GL_DECLARE1 ''glIndexub''
      [(jbyte, ''c'')]
      []
      Plain (Linked ''glIndexub'' [''c'']),
    Entry JNI_GL_DECLARE1 ''glIndexubv''
      [(jbyteArray, ''jc'')]
      [(JubyteArray, ''c'', ''jc'')]
      Plain (Linked ''glIndexubv'' [''c'']),
    Entry JNI_GL_DECLARE0 ''glInitNames''
      []
      []
      Plain (Linked ''glInitNames'' []),
    Entry JNI_GL_DECLARE1 ''glInterleavedArrays''
      [(jint, ''format''), (jint, ''stride''), (jobject, ''jpointer'')]
      [(JvoidBuffer, ''pointer'', ''jpointer'')]
      Plain (Linked ''glInterleavedArrays'' [''format'', ''stride'', ''pointer'']),
    Entry (JNI_GL_DECLARE_RETURN1 jboolean) ''glIsEnabled''
      [(jint, ''cap'')]
      []
      Return_boolean (Linked ''glIsEnabled'' [''cap'']),
    Entry (JNI_GL_DECLARE_RETURN1 jboolean) ''glIsList''
      [(jint, ''list'')]
      []
      Return_boolean (Linked ''glIsList'' [''list''])]"

text \<open>Source lines 969 onwards: \<^verbatim>\<open>glIsTexture\<close> to \<^verbatim>\<open>glMap2d\<close>.\<close>

definition entry_points_08 :: "entry list" where
  "entry_points_08 = [
    Entry (JNI_GL_DECLARE_RETURN1 jboolean) ''glIsTexture''
      [(jint, ''texture'')]
      []
      Return_boolean (Linked ''glIsTexture'' [''texture'']),
    Entry JNI_GL_DECLARE1 ''glLightModelf''
      [(jint, ''pname''), (jfloat, ''param'')]
      []
      Plain (Linked ''glLightModelf'' [''pname'', ''param'']),
    Entry JNI_GL_DECLARE1 ''glLightModelfv''
      [(jint, ''pname''), (jfloatArray, ''jparams'')]
      [(JfloatArray, ''params'', ''jparams'')]
      Plain (Linked ''glLightModelfv'' [''pname'', ''params'']),
    Entry JNI_GL_DECLARE1 ''glLightModeli''
      [(jint, ''pname''), (jint, ''param'')]
      []
      Plain (Linked ''glLightModeli'' [''pname'', ''param'']),
    Entry JNI_GL_DECLARE1 ''glLightModeliv''
      [(jint, ''pname''), (jintArray, ''jparams'')]
      [(JintArray, ''params'', ''jparams'')]
      Plain (Linked ''glLightModeliv'' [''pname'', ''params'']),
    Entry JNI_GL_DECLARE1 ''glLightf''
      [(jint, ''light''), (jint, ''pname''), (jfloat, ''param'')]
      []
      Plain (Linked ''glLightf'' [''light'', ''pname'', ''param'']),
    Entry JNI_GL_DECLARE1 ''glLightfv''
      [(jint, ''light''), (jint, ''pname''), (jfloatArray, ''jparams'')]
      [(JfloatArray, ''params'', ''jparams'')]
      Plain (Linked ''glLightfv'' [''light'', ''pname'', ''params'']),
    Entry JNI_GL_DECLARE1 ''glLighti''
      [(jint, ''light''), (jint, ''pname''), (jint, ''param'')]
      []
      Plain (Linked ''glLighti'' [''light'', ''pname'', ''param'']),
    Entry JNI_GL_DECLARE1 ''glLightiv''
      [(jint, ''light''), (jint, ''pname''), (jintArray, ''jparams'')]
      [(JintArray, ''params'', ''jparams'')]
      Plain (Linked ''glLightiv'' [''light'', ''pname'', ''params'']),
    Entry JNI_GL_DECLARE1 ''glLineStipple''
      [(jint, ''factor''), (jshort, ''pattern'')]
      []
      Plain (Linked ''glLineStipple'' [''factor'', ''pattern'']),
    Entry JNI_GL_DECLARE1 ''glLineWidth''
      [(jfloat, ''width'')]
      []
      Plain (Linked ''glLineWidth'' [''width'']),
    Entry JNI_GL_DECLARE1 ''glListBase''
      [(jint, ''base'')]
      []
      Plain (Linked ''glListBase'' [''base'']),
    Entry JNI_GL_DECLARE0 ''glLoadIdentity''
      []
      []
      Plain (Linked ''glLoadIdentity'' []),
    Entry JNI_GL_DECLARE1 ''glLoadMatrixd''
      [(jdoubleArray, ''jm'')]
      [(JdoubleArray, ''m'', ''jm'')]
      Plain (Linked ''glLoadMatrixd'' [''m'']),
    Entry JNI_GL_DECLARE1 ''glLoadMatrixf''
      [(jfloatArray, ''jm'')]
      [(JfloatArray, ''m'', ''jm'')]
      Plain (Linked ''glLoadMatrixf'' [''m'']),
    Entry JNI_GL_DECLARE1 ''glLoadName''
      [(jint, ''name'')]
      []
      Plain (Linked ''glLoadName'' [''name'']),
    Entry JNI_GL_DECLARE1 ''glLogicOp''
      [(jint, ''opcode'')]
      []
      Plain (Linked ''glLogicOp'' [''opcode'']),
    Entry JNI_GL_DECLARE1 ''glMap1d''
      [(jint, ''target''), (jdouble, ''u1''), (jdouble, ''u2''), (jint, ''stride''), (jint, ''order''), (jdoubleArray, ''jpoints'')]
      [(JdoubleArray, ''points'', ''jpoints'')]
      Plain (Linked ''glMap1d'' [''target'', ''u1'', ''u2'', ''stride'', ''order'', ''points'']),
    Entry JNI_GL_DECLARE1 ''glMap1f''
      [(jint, ''target''), (jfloat, ''u1''), (jfloat, ''u2''), (jint, ''stride''), (jint, ''order''), (jfloatArray, ''jpoints'')]
      [(JfloatArray, ''points'', ''jpoints'')]
      Plain (Linked ''glMap1f'' [''target'', ''u1'', ''u2'', ''stride'', ''order'', ''points'']),
    Entry JNI_GL_DECLARE1 ''glMap2d''
      [(jint, ''target''), (jdouble, ''u1''), (jdouble, ''u2''), (jint, ''ustride''), (jint, ''uorder''), (jdouble, ''v1''), (jdouble, ''v2''), (jint, ''vstride''), (jint, ''vorder''), (jdoubleArray, ''jpoints'')]
      [(JdoubleArray, ''points'', ''jpoints'')]
      Plain (Linked ''glMap2d'' [''target'', ''u1'', ''u2'', ''ustride'', ''uorder'', ''v1'', ''v2'', ''vstride'', ''vorder'', ''points''])]"

text \<open>Source lines 1104 onwards: \<^verbatim>\<open>glMap2f\<close> to \<^verbatim>\<open>glNormal3i\<close>.\<close>

definition entry_points_09 :: "entry list" where
  "entry_points_09 = [
    Entry JNI_GL_DECLARE1 ''glMap2f''
      [(jint, ''target''), (jfloat, ''u1''), (jfloat, ''u2''), (jint, ''ustride''), (jint, ''uorder''), (jfloat, ''v1''), (jfloat, ''v2''), (jint, ''vstride''), (jint, ''vorder''), (jfloatArray, ''jpoints'')]
      [(JfloatArray, ''points'', ''jpoints'')]
      Plain (Linked ''glMap2f'' [''target'', ''u1'', ''u2'', ''ustride'', ''uorder'', ''v1'', ''v2'', ''vstride'', ''vorder'', ''points'']),
    Entry JNI_GL_DECLARE1 ''glMapGrid1d''
      [(jint, ''un''), (jdouble, ''u1''), (jdouble, ''u2'')]
      []
      Plain (Linked ''glMapGrid1d'' [''un'', ''u1'', ''u2'']),
    Entry JNI_GL_DECLARE1 ''glMapGrid1f''
      [(jint, ''un''), (jfloat, ''u1''), (jfloat, ''u2'')]
      []
      Plain (Linked ''glMapGrid1f'' [''un'', ''u1'', ''u2'']),
    Entry JNI_GL_DECLARE1 ''glMapGrid2d''
      [(jint, ''un''), (jdouble, ''u1''), (jdouble, ''u2''), (jint, ''vn''), (jdouble, ''v1''), (jdouble, ''v2'')]
      []
      Plain (Linked ''glMapGrid2d'' [''un'', ''u1'', ''u2'', ''vn'', ''v1'', ''v2'']),
    Entry JNI_GL_DECLARE1 ''glMapGrid2f''
      [(jint, ''un''), (jfloat, ''u1''), (jfloat, ''u2''), (jint, ''vn''), (jfloat, ''v1''), (jfloat, ''v2'')]
      []
      Plain (Linked ''glMapGrid2f'' [''un'', ''u1'', ''u2'', ''vn'', ''v1'', ''v2'']),
    Entry JNI_GL_DECLARE1 ''glMaterialf''
      [(jint, ''face''), (jint, ''pname''), (jfloat, ''param'')]
      []
      Plain (Linked ''glMaterialf'' [''face'', ''pname'', ''param'']),
    Entry JNI_GL_DECLARE1 ''glMaterialfv''
      [(jint, ''face''), (jint, ''pname''), (jfloatArray, ''jparams'')]
      [(JfloatArray, ''params'', ''jparams'')]
      Plain (Linked ''glMaterialfv'' [''face'', ''pname'', ''params'']),
    Entry JNI_GL_DECLARE1 ''glMateriali''
      [(jint, ''face''), (jint, ''pname''), (jint, ''param'')]
      []
      Plain (Linked ''glMateriali'' [''face'', ''pname'', ''param'']),
    Entry JNI_GL_DECLARE1 ''glMaterialiv''
      [(jint, ''face''), (jint, ''pname''), (jintArray, ''jparams'')]
      [(JintArray, ''params'', ''jparams'')]
      Plain (Linked ''glMaterialiv'' [''face'', ''pname'', ''params'']),
    Entry JNI_GL_DECLARE1 ''glMatrixMode''
      [(jint, ''mode'')]
      []
      Plain (Linked ''glMatrixMode'' [''mode'']),
    Entry JNI_GL_DECLARE1 ''glMultMatrixd''
      [(jdoubleArray, ''jm'')]
      [(JdoubleArray, ''m'', ''jm'')]
      Plain (Linked ''glMultMatrixd'' [''m'']),
    Entry JNI_GL_DECLARE1 ''glMultMatrixf''
      [(jfloatArray, ''jm'')]
      [(JfloatArray, ''m'', ''jm'')]
      Plain (Linked ''glMultMatrixf'' [''m'']),
    Entry JNI_GL_DECLARE1 ''glNewList''
      [(jint, ''list''), (jint, ''mode'')]
      []
      Plain (Linked ''glNewList'' [''list'', ''mode'']),
    Entry JNI_GL_DECLARE1 ''glNormal3b''
      [(jbyte, ''nx''), (jbyte, ''ny''), (jbyte, ''nz'')]
      []
      Plain (Linked ''glNormal3b'' [''nx'', ''ny'', ''nz'']),
    Entry JNI_GL_DECLARE1 ''glNormal3bv''
      [(jbyteArray, ''jv'')]
      [(JbyteArray, ''v'', ''jv'')]
      Plain (Linked ''glNormal3bv'' [''v'']),
    Entry JNI_GL_DECLARE1 ''glNormal3d''
      [(jdouble, ''nx''), (jdouble, ''ny''), (jdouble, ''nz'')]
      []
      Plain (Linked ''glNormal3d'' [''nx'', ''ny'', ''nz'']),
    Entry JNI_GL_DECLARE1 ''glNormal3dv''
      [(jdoubleArray, ''jv'')]
      [(JdoubleArray, ''v'', ''jv'')]
      Plain (Linked ''glNormal3dv'' [''v'']),
    Entry JNI_GL_DECLARE1 ''glNormal3f''
      [(jfloat, ''nx''), (jfloat, ''ny''), (jfloat, ''nz'')]
      []
      Plain (Linked ''glNormal3f'' [''nx'', ''ny'', ''nz'']),
    Entry JNI_GL_DECLARE1 ''glNormal3fv''
      [(jfloatArray, ''jv'')]
      [(JfloatArray, ''v'', ''jv'')]
      Plain (Linked ''glNormal3fv'' [''v'']),
    Entry JNI_GL_DECLARE1 ''glNormal3i''
      [(jint, ''nx''), (jint, ''ny''), (jint, ''nz'')]
      []
      Plain (Linked ''glNormal3i'' [''nx'', ''ny'', ''nz''])]"

text \<open>Source lines 1237 onwards: \<^verbatim>\<open>glNormal3iv\<close> to \<^verbatim>\<open>glPopClientAttrib\<close>.\<close>

definition entry_points_10 :: "entry list" where
  "entry_points_10 = [
    Entry JNI_GL_DECLARE1 ''glNormal3iv''
      [(jintArray, ''jv'')]
      [(JintArray, ''v'', ''jv'')]
      Plain (Linked ''glNormal3iv'' [''v'']),
    Entry JNI_GL_DECLARE1 ''glNormal3s''
      [(jshort, ''nx''), (jshort, ''ny''), (jshort, ''nz'')]
      []
      Plain (Linked ''glNormal3s'' [''nx'', ''ny'', ''nz'']),
    Entry JNI_GL_DECLARE1 ''glNormal3sv''
      [(jshortArray, ''jv'')]
      [(JshortArray, ''v'', ''jv'')]
      Plain (Linked ''glNormal3sv'' [''v'']),
    Entry JNI_GL_DECLARE1 ''glNormalPointer''
      [(jint, ''type''), (jint, ''stride''), (jobject, ''jpointer'')]
      [(JvoidBuffer, ''pointer'', ''jpointer'')]
      Plain (Linked ''glNormalPointer'' [''type'', ''stride'', ''pointer'']),
    Entry JNI_GL_DECLARE1 ''glOrtho''
      [(jdouble, ''left''), (jdouble, ''right''), (jdouble, ''bottom''), (jdouble, ''top''), (jdouble, ''zNear''), (jdouble, ''zFar'')]
      []
      Plain (Linked ''glOrtho'' [''left'', ''right'', ''bottom'', ''top'', ''zNear'', ''zFar'']),
    Entry JNI_GL_DECLARE1 ''glPassThrough''
      [(jfloat, ''token'')]
      []
      Plain (Linked ''glPassThrough'' [''token'']),
    Entry JNI_GL_DECLARE1 ''glPixelMapfv''
      [(jint, ''map''), (jint, ''mapsize''), (jfloatArray, ''jvalues'')]
      [(JfloatArray, ''values'', ''jvalues'')]
      Plain (Linked ''glPixelMapfv'' [''map'', ''mapsize'', ''values'']),
    Entry JNI_GL_DECLARE1 ''glPixelMapuiv''
      [(jint, ''map''), (jint, ''mapsize''), (jintArray, ''jvalues'')]
      [(JuintArray, ''values'', ''jvalues'')]
      Plain (Linked ''glPixelMapuiv'' [''map'', ''mapsize'', ''values'']),
    Entry JNI_GL_DECLARE1 ''glPixelMapusv''
      [(jint, ''map''), (jint, ''mapsize''), (jshortArray, ''jvalues'')]
      [(JushortArray, ''values'', ''jvalues'')]
      Plain (Linked ''glPixelMapusv'' [''map'', ''mapsize'', ''values'']),
    Entry JNI_GL_DECLARE1 ''glPixelStoref''
      [(jint, ''pname''), (jfloat, ''param'')]
      []
      Plain (Linked ''glPixelStoref'' [''pname'', ''param'']),
    Entry JNI_GL_DECLARE1 ''glPixelStorei''
      [(jint, ''pname''), (jint, ''param'')]
      []
      Plain (Linked ''glPixelStorei'' [''pname'', ''param'']),
    Entry JNI_GL_DECLARE1 ''glPixelTransferf''
      [(jint, ''pname''), (jfloat, ''param'')]
      []
      Plain (Linked ''glPixelTransferf'' [''pname'', ''param'']),
    Entry JNI_GL_DECLARE1 ''glPixelTransferi''
      [(jint, ''pname''), (jint, ''param'')]
      []
      Plain (Linked ''glPixelTransferi'' [''pname'', ''param'']),
    Entry JNI_GL_DECLARE1 ''glPixelZoom''
      [(jfloat, ''xfactor''), (jfloat, ''yfactor'')]
      []
      Plain (Linked ''glPixelZoom'' [''xfactor'', ''yfactor'']),
    Entry JNI_GL_DECLARE1 ''glPointSize''
      [(jfloat, ''size'')]
      []
      Plain (Linked ''glPointSize'' [''size'']),
    Entry JNI_GL_DECLARE1 ''glPolygonMode''
      [(jint, ''face''), (jint, ''mode'')]
      []
      Plain (Linked ''glPolygonMode'' [''face'', ''mode'']),
    Entry JNI_GL_DECLARE1 ''glPolygonOffset''
      [(jfloat, ''factor''), (jfloat, ''units'')]
      []
      Plain (Linked ''glPolygonOffset'' [''factor'', ''units'']),
    Entry JNI_GL_DECLARE1 ''glPolygonStipple''
      [(jbyteArray, ''jmask'')]
      [(JubyteArray, ''mask'', ''jmask'')]
      Plain (Linked ''glPolygonStipple'' [''mask'']),
    Entry JNI_GL_DECLARE0 ''glPopAttrib''
      []
      []
      Plain (Linked ''glPopAttrib'' []),
    Entry JNI_GL_DECLARE0 ''glPopClientAttrib''
      []
      []
      Plain (Linked ''glPopClientAttrib'' [])]"

text \<open>Source lines 1364 onwards: \<^verbatim>\<open>glPopMatrix\<close> to \<^verbatim>\<open>glRasterPos3i\<close>.\<close>

definition entry_points_11 :: "entry list" where
  "entry_points_11 = [
    Entry JNI_GL_DECLARE0 ''glPopMatrix''
      []
      []
      Plain (Linked ''glPopMatrix'' []),
    Entry JNI_GL_DECLARE0 ''glPopName''
      []
      []
      Plain (Linked ''glPopName'' []),
    Entry JNI_GL_DECLARE1 ''glPrioritizeTextures''
      [(jint, ''n''), (jintArray, ''jtextures''), (jfloatArray, ''jpriorities'')]
      [(JuintArray, ''textures'', ''jtextures''), (JfloatArray, ''priorities'', ''jpriorities'')]
      Plain (Linked ''glPrioritizeTextures'' [''n'', ''textures'', ''priorities'']),
    Entry JNI_GL_DECLARE1 ''glPushAttrib''
      [(jint, ''mask'')]
      []
      Plain (Linked ''glPushAttrib'' [''mask'']),
    Entry JNI_GL_DECLARE1 ''glPushClientAttrib''
      [(jint, ''mask'')]
      []
      Plain (Linked ''glPushClientAttrib'' [''mask'']),
    Entry JNI_GL_DECLARE0 ''glPushMatrix''
      []
      []
      Plain (Linked ''glPushMatrix'' []),
    Entry JNI_GL_DECLARE1 ''glPushName''
      [(jint, ''name'')]
      []
      Plain (Linked ''glPushName'' [''name'']),
    Entry JNI_GL_DECLARE1 ''glRasterPos2d''
      [(jdouble, ''x''), (jdouble, ''y'')]
      []
      Plain (Linked ''glRasterPos2d'' [''x'', ''y'']),
    Entry JNI_GL_DECLARE1 ''glRasterPos2dv''
      [(jdoubleArray, ''jv'')]
      [(JdoubleArray, ''v'', ''jv'')]
      Plain (Linked ''glRasterPos2dv'' [''v'']),
    Entry JNI_GL_DECLARE1 ''glRasterPos2f''
      [(jfloat, ''x''), (jfloat, ''y'')]
      []
      Plain (Linked ''glRasterPos2f'' [''x'', ''y'']),
    Entry JNI_GL_DECLARE1 ''glRasterPos2fv''
      [(jfloatArray, ''jv'')]
      [(JfloatArray, ''v'', ''jv'')]
      Plain (Linked ''glRasterPos2fv'' [''v'']),
    Entry JNI_GL_DECLARE1 ''glRasterPos2i''
      [(jint, ''x''), (jint, ''y'')]
      []
      Plain (Linked ''glRasterPos2i'' [''x'', ''y'']),
    Entry JNI_GL_DECLARE1 ''glRasterPos2iv''
      [(jintArray, ''jv'')]
      [(JintArray, ''v'', ''jv'')]
      Plain (Linked ''glRasterPos2iv'' [''v'']),
    Entry JNI_GL_DECLARE1 ''glRasterPos2s''
      [(jshort, ''x''), (jshort, ''y'')]
      []
      Plain (Linked ''glRasterPos2s'' [''x'', ''y'']),
    Entry JNI_GL_DECLARE1 ''glRasterPos2sv''
      [(jshortArray, ''jv'')]
      [(JshortArray, ''v'', ''jv'')]
      Plain (Linked ''glRasterPos2sv'' [''v'']),
    Entry JNI_GL_DECLARE1 ''glRasterPos3d''
      [(jdouble, ''x''), (jdouble, ''y''), (jdouble, ''z'')]
      []
      Plain (Linked ''glRasterPos3d'' [''x'', ''y'', ''z'']),
    Entry JNI_GL_DECLARE1 ''glRasterPos3dv''
      [(jdoubleArray, ''jv'')]
      [(JdoubleArray, ''v'', ''jv'')]
      Plain (Linked ''glRasterPos3dv'' [''v'']),
    Entry JNI_GL_DECLARE1 ''glRasterPos3f''
      [(jfloat, ''x''), (jfloat, ''y''), (jfloat, ''z'')]
      []
      Plain (Linked ''glRasterPos3f'' [''x'', ''y'', ''z'']),
    Entry JNI_GL_DECLARE1 ''glRasterPos3fv''
      [(jfloatArray, ''jv'')]
      [(JfloatArray, ''v'', ''jv'')]
      Plain (Linked ''glRasterPos3fv'' [''v'']),
    Entry JNI_GL_DECLARE1 ''glRasterPos3i''
      [(jint, ''x''), (jint, ''y''), (jint, ''z'')]
      []
      Plain (Linked ''glRasterPos3i'' [''x'', ''y'', ''z''])]"

text \<open>Source lines 1489 onwards: \<^verbatim>\<open>glRasterPos3iv\<close> to \<^verbatim>\<open>glRecti\<close>.\<close>

definition entry_points_12 :: "entry list" where
  "entry_points_12 = [
    Entry JNI_GL_DECLARE1 ''glRasterPos3iv''
      [(jintArray, ''jv'')]
      [(JintArray, ''v'', ''jv'')]
      Plain (Linked ''glRasterPos3iv'' [''v'']),
    Entry JNI_GL_DECLARE1 ''glRasterPos3s''
      [(jshort, ''x''), (jshort, ''y''), (jshort, ''z'')]
      []
      Plain (Linked ''glRasterPos3s'' [''x'', ''y'', ''z'']),
    Entry JNI_GL_DECLARE1 ''glRasterPos3sv''
      [(jshortArray, ''jv'')]
      [(JshortArray, ''v'', ''jv'')]
      Plain (Linked ''glRasterPos3sv'' [''v'']),
    Entry JNI_GL_DECLARE1 ''glRasterPos4d''
      [(jdouble, ''x''), (jdouble, ''y''), (jdouble, ''z''), (jdouble, ''w'')]
      []
      Plain (Linked ''glRasterPos4d'' [''x'', ''y'', ''z'', ''w'']),
    Entry JNI_GL_DECLARE1 ''glRasterPos4dv''
      [(jdoubleArray, ''jv'')]
      [(JdoubleArray, ''v'', ''jv'')]
      Plain (Linked ''glRasterPos4dv'' [''v'']),
    Entry JNI_GL_DECLARE1 ''glRasterPos4f''
      [(jfloat, ''x''), (jfloat, ''y''), (jfloat, ''z''), (jfloat, ''w'')]
      []
      Plain (Linked ''glRasterPos4f'' [''x'', ''y'', ''z'', ''w'']),
    Entry JNI_GL_DECLARE1 ''glRasterPos4fv''
      [(jfloatArray, ''jv'')]
      [(JfloatArray, ''v'', ''jv'')]
      Plain (Linked ''glRasterPos4fv'' [''v'']),
    Entry JNI_GL_DECLARE1 ''glRasterPos4i''
      [(jint, ''x''), (jint, ''y''), (jint, ''z''), (jint, ''w'')]
      []
      Plain (Linked ''glRasterPos4i'' [''x'', ''y'', ''z'', ''w'']),
    Entry JNI_GL_DECLARE1 ''glRasterPos4iv''
      [(jintArray, ''jv'')]
      [(JintArray, ''v'', ''jv'')]
      Plain (Linked ''glRasterPos4iv'' [''v'']),
    Entry JNI_GL_DECLARE1 ''glRasterPos4s''
      [(jshort, ''x''), (jshort, ''y''), (jshort, ''z''), (jshort, ''w'')]
      []
      Plain (Linked ''glRasterPos4s'' [''x'', ''y'', ''z'', ''w'']),
    Entry JNI_GL_DECLARE1 ''glRasterPos4sv''
      [(jshortArray, ''jv'')]
      [(JshortArray, ''v'', ''jv'')]
      Plain (Linked ''glRasterPos4sv'' [''v'']),
    Entry JNI_GL_DECLARE1 ''glReadBuffer''
      [(jint, ''mode'')]
      []
      Plain (Linked ''glReadBuffer'' [''mode'']),
    Entry JNI_GL_DECLARE1 ''glReadPixels__IIIIII_3B''
      [(jint, ''x''), (jint, ''y''), (jint, ''width''), (jint, ''height''), (jint, ''format''), (jint, ''type''), (jarray, ''jpixels'')]
      [(JvoidArray, ''pixels'', ''jpixels'')]
      Plain (Linked ''glReadPixels'' [''x'', ''y'', ''width'', ''height'', ''format'', ''type'', ''pixels'']),
    Entry JNI_GL_DECLARE1 ''glReadPixels__IIIIII_3I''
      [(jint, ''x''), (jint, ''y''), (jint, ''width''), (jint, ''height''), (jint, ''format''), (jint, ''type''), (jarray, ''jpixels'')]
      [(JvoidArray, ''pixels'', ''jpixels'')]
      Plain (Linked ''glReadPixels'' [''x'', ''y'', ''width'', ''height'', ''format'', ''type'', ''pixels'']),
    Entry JNI_GL_DECLARE1 ''glReadPixels__IIIIII_3S''
      [(jint, ''x''), (jint, ''y''), (jint, ''width''), (jint, ''height''), (jint, ''format''), (jint, ''type''), (jarray, ''jpixels'')]
      [(JvoidArray, ''pixels'', ''jpixels'')]
      Plain (Linked ''glReadPixels'' [''x'', ''y'', ''width'', ''height'', ''format'', ''type'', ''pixels'']),
    Entry JNI_GL_DECLARE1 ''glRectd''
      [(jdouble, ''x1''), (jdouble, ''y1''), (jdouble, ''x2''), (jdouble, ''y2'')]
      []
      Plain (Linked ''glRectd'' [''x1'', ''y1'', ''x2'', ''y2'']),
    Entry JNI_GL_DECLARE1 ''glRectdv''
      [(jdoubleArray, ''jv1''), (jdoubleArray, ''jv2'')]
      [(JdoubleArray, ''v1'', ''jv1''), (JdoubleArray, ''v2'', ''jv2'')]
      Plain (Linked ''glRectdv'' [''v1'', ''v2'']),
    Entry JNI_GL_DECLARE1 ''glRectf''
      [(jfloat, ''x1''), (jfloat, ''y1''), (jfloat, ''x2''), (jfloat, ''y2'')]
      []
      Plain (Linked ''glRectf'' [''x1'', ''y1'', ''x2'', ''y2'']),
    Entry JNI_GL_DECLARE1 ''glRectfv''
      [(jfloatArray, ''jv1''), (jfloatArray, ''jv2'')]
      [(JfloatArray, ''v1'', ''jv1''), (JfloatArray, ''v2'', ''jv2'')]
      Plain (Linked ''glRectfv'' [''v1'', ''v2'']),
    Entry JNI_GL_DECLARE1 ''glRecti''
      [(jint, ''x1''), (jint, ''y1''), (jint, ''x2''), (jint, ''y2'')]
      []
      Plain (Linked ''glRecti'' [''x1'', ''y1'', ''x2'', ''y2''])]"

text \<open>Source lines 1625 onwards: \<^verbatim>\<open>glRectiv\<close> to \<^verbatim>\<open>glTexCoord1iv\<close>.\<close>

definition entry_points_13 :: "entry list" where
  "entry_points_13 = [
    Entry JNI_GL_DECLARE1 ''glRectiv''
      [(jintArray, ''jv1''), (jintArray, ''jv2'')]
      [(JintArray, ''v1'', ''jv1''), (JintArray, ''v2'', ''jv2'')]
      Plain (Linked ''glRectiv'' [''v1'', ''v2'']),
    Entry JNI_GL_DECLARE1 ''glRects''
      [(jshort, ''x1''), (jshort, ''y1''), (jshort, ''x2''), (jshort, ''y2'')]
      []
      Plain (Linked ''glRects'' [''x1'', ''y1'', ''x2'', ''y2'']),
    Entry JNI_GL_DECLARE1 ''glRectsv''
      [(jshortArray, ''jv1''), (jshortArray, ''jv2'')]
      [(JshortArray, ''v1'', ''jv1''), (JshortArray, ''v2'', ''jv2'')]
      Plain (Linked ''glRectsv'' [''v1'', ''v2'']),
    Entry (JNI_GL_DECLARE_RETURN1 jint) ''glRenderMode''
      [(jint, ''mode'')]
      []
      Return (Linked ''glRenderMode'' [''mode'']),
    Entry JNI_GL_DECLARE1 ''glRotated''
      [(jdouble, ''angle''), (jdouble, ''x''), (jdouble, ''y''), (jdouble, ''z'')]
      []
      Plain (Linked ''glRotated'' [''angle'', ''x'', ''y'', ''z'']),
    Entry JNI_GL_DECLARE1 ''glRotatef''
      [(jfloat, ''angle''), (jfloat, ''x''), (jfloat, ''y''), (jfloat, ''z'')]
      []
      Plain (Linked ''glRotatef'' [''angle'', ''x'', ''y'', ''z'']),
    Entry JNI_GL_DECLARE1 ''glScaled''
      [(jdouble, ''x''), (jdouble, ''y''), (jdouble, ''z'')]
      []
      Plain (Linked ''glScaled'' [''x'', ''y'', ''z'']),
    Entry JNI_GL_DECLARE1 ''glScalef''
      [(jfloat, ''x''), (jfloat, ''y''), (jfloat, ''z'')]
      []
      Plain (Linked ''glScalef'' [''x'', ''y'', ''z'']),
    Entry JNI_GL_DECLARE1 ''glScissor''
      [(jint, ''x''), (jint, ''y''), (jint, ''width''), (jint, ''height'')]
      []
      Plain (Linked ''glScissor'' [''x'', ''y'', ''width'', ''height'']),
    Entry JNI_GL_DECLARE1 ''glSelectBuffer''
      [(jint, ''size''), (jobject, ''jbuffer'')]
      [(JuintBuffer, ''buffer'', ''jbuffer'')]
      Plain (Linked ''glSelectBuffer'' [''size'', ''buffer'']),
    Entry JNI_GL_DECLARE1 ''glShadeModel''
      [(jint, ''mode'')]
      []
      Plain (Linked ''glShadeModel'' [''mode'']),
    Entry JNI_GL_DECLARE1 ''glStencilFunc''
      [(jint, ''func''), (jint, ''ref''), (jint, ''mask'')]
      []
      Plain (Linked ''glStencilFunc'' [''func'', ''ref'', ''mask'']),
    Entry JNI_GL_DECLARE1 ''glStencilMask''
      [(jint, ''mask'')]
      []
      Plain (Linked ''glStencilMask'' [''mask'']),
    Entry JNI_GL_DECLARE1 ''glStencilOp''
      [(jint, ''fail''), (jint, ''zfail''), (jint, ''zpass'')]
      []
      Plain (Linked ''glStencilOp'' [''fail'', ''zfail'', ''zpass'']),
    Entry JNI_GL_DECLARE1 ''glTexCoord1d''
      [(jdouble, ''s'')]
      []
      Plain (Linked ''glTexCoord1d'' [''s'']),
    Entry JNI_GL_DECLARE1 ''glTexCoord1dv''
      [(jdoubleArray, ''jv'')]
      [(JdoubleArray, ''v'', ''jv'')]
      Plain (Linked ''glTexCoord1dv'' [''v'']),
    Entry JNI_GL_DECLARE1 ''glTexCoord1f''
      [(jfloat, ''s'')]
      []
      Plain (Linked ''glTexCoord1f'' [''s'']),
    Entry JNI_GL_DECLARE1 ''glTexCoord1fv''
      [(jfloatArray, ''jv'')]
      [(JfloatArray, ''v'', ''jv'')]
      Plain (Linked ''glTexCoord1fv'' [''v'']),
    Entry JNI_GL_DECLARE1 ''glTexCoord1i''
      [(jint, ''s'')]
      []
      Plain (Linked ''glTexCoord1i'' [''s'']),
    Entry JNI_GL_DECLARE1 ''glTexCoord1iv''
      [(jintArray, ''jv'')]
      [(JintArray, ''v'', ''jv'')]
      Plain (Linked ''glTexCoord1iv'' [''v''])]"

text \<open>Source lines 1753 onwards: \<^verbatim>\<open>glTexCoord1s\<close> to \<^verbatim>\<open>glTexCoord4dv\<close>.\<close>

definition entry_points_14 :: "entry list" where
  "entry_points_14 = [
    Entry JNI_GL_DECLARE1 ''glTexCoord1s''
      [(jshort, ''s'')]
      []
      Plain (Linked ''glTexCoord1s'' [''s'']),
    Entry JNI_GL_DECLARE1 ''glTexCoord1sv''
      [(jshortArray, ''jv'')]
      [(JshortArray, ''v'', ''jv'')]
      Plain (Linked ''glTexCoord1sv'' [''v'']),
    Entry JNI_GL_DECLARE1 ''glTexCoord2d''
      [(jdouble, ''s''), (jdouble, ''t'')]
      []
      Plain (Linked ''glTexCoord2d'' [''s'', ''t'']),
    Entry JNI_GL_DECLARE1 ''glTexCoord2dv''
      [(jdoubleArray, ''jv'')]
      [(JdoubleArray, ''v'', ''jv'')]
      Plain (Linked ''glTexCoord2dv'' [''v'']),
    Entry JNI_GL_DECLARE1 ''glTexCoord2f''
      [(jfloat, ''s''), (jfloat, ''t'')]
      []
      Plain (Linked ''glTexCoord2f'' [''s'', ''t'']),
    Entry JNI_GL_DECLARE1 ''glTexCoord2fv''
      [(jfloatArray, ''jv'')]
      [(JfloatArray, ''v'', ''jv'')]
      Plain (Linked ''glTexCoord2fv'' [''v'']),
    Entry JNI_GL_DECLARE1 ''glTexCoord2i''
      [(jint, ''s''), (jint, ''t'')]
      []
      Plain (Linked ''glTexCoord2i'' [''s'', ''t'']),
    Entry JNI_GL_DECLARE1 ''glTexCoord2iv''
      [(jintArray, ''jv'')]
      [(JintArray, ''v'', ''jv'')]
      Plain (Linked ''glTexCoord2iv'' [''v'']),
    Entry JNI_GL_DECLARE1 ''glTexCoord2s''
      [(jshort, ''s''), (jshort, ''t'')]
      []
      Plain (Linked ''glTexCoord2s'' [''s'', ''t'']),
    Entry JNI_GL_DECLARE1 ''glTexCoord2sv''
      [(jshortArray, ''jv'')]
      [(JshortArray, ''v'', ''jv'')]
      Plain (Linked ''glTexCoord2sv'' [''v'']),
    Entry JNI_GL_DECLARE1 ''glTexCoord3d''
      [(jdouble, ''s''), (jdouble, ''t''), (jdouble, ''r'')]
      []
      Plain (Linked ''glTexCoord3d'' [''s'', ''t'', ''r'']),
    Entry JNI_GL_DECLARE1 ''glTexCoord3dv''
      [(jdoubleArray, ''jv'')]
      [(JdoubleArray, ''v'', ''jv'')]
      Plain (Linked ''glTexCoord3dv'' [''v'']),
    Entry JNI_GL_DECLARE1 ''glTexCoord3f''
      [(jfloat, ''s''), (jfloat, ''t''), (jfloat, ''r'')]
      []
      Plain (Linked ''glTexCoord3f'' [''s'', ''t'', ''r'']),
    Entry JNI_GL_DECLARE1 ''glTexCoord3fv''
      [(jfloatArray, ''jv'')]
      [(JfloatArray, ''v'', ''jv'')]
      Plain (Linked ''glTexCoord3fv'' [''v'']),
    Entry JNI_GL_DECLARE1 ''glTexCoord3i''
      [(jint, ''s''), (jint, ''t''), (jint, ''r'')]
      []
      Plain (Linked ''glTexCoord3i'' [''s'', ''t'', ''r'']),
    Entry JNI_GL_DECLARE1 ''glTexCoord3iv''
      [(jintArray, ''jv'')]
      [(JintArray, ''v'', ''jv'')]
      Plain (Linked ''glTexCoord3iv'' [''v'']),
    Entry JNI_GL_DECLARE1 ''glTexCoord3s''
      [(jshort, ''s''), (jshort, ''t''), (jshort, ''r'')]
      []
      Plain (Linked ''glTexCoord3s'' [''s'', ''t'', ''r'']),
    Entry JNI_GL_DECLARE1 ''glTexCoord3sv''
      [(jshortArray, ''jv'')]
      [(JshortArray, ''v'', ''jv'')]
      Plain (Linked ''glTexCoord3sv'' [''v'']),
    Entry JNI_GL_DECLARE1 ''glTexCoord4d''
      [(jdouble, ''s''), (jdouble, ''t''), (jdouble, ''r''), (jdouble, ''q'')]
      []
      Plain (Linked ''glTexCoord4d'' [''s'', ''t'', ''r'', ''q'']),
    Entry JNI_GL_DECLARE1 ''glTexCoord4dv''
      [(jdoubleArray, ''jv'')]
      [(JdoubleArray, ''v'', ''jv'')]
      Plain (Linked ''glTexCoord4dv'' [''v''])]"

text \<open>Source lines 1883 onwards: \<^verbatim>\<open>glTexCoord4f\<close> to \<^verbatim>\<open>glTexImage1D__IIIIIII_3S\<close>.\<close>

definition entry_points_15 :: "entry list" where
  "entry_points_15 = [
    Entry JNI_GL_DECLARE1 ''glTexCoord4f''
      [(jfloat, ''s''), (jfloat, ''t''), (jfloat, ''r''), (jfloat, ''q'')]
      []
      Plain (Linked ''glTexCoord4f'' [''s'', ''t'', ''r'', ''q'']),
    Entry JNI_GL_DECLARE1 ''glTexCoord4fv''
      [(jfloatArray, ''jv'')]
      [(JfloatArray, ''v'', ''jv'')]
      Plain (Linked ''glTexCoord4fv'' [''v'']),
    Entry JNI_GL_DECLARE1 ''glTexCoord4i''
      [(jint, ''s''), (jint, ''t''), (jint, ''r''), (jint, ''q'')]
      []
      Plain (Linked ''glTexCoord4i'' [''s'', ''t'', ''r'', ''q'']),
    Entry JNI_GL_DECLARE1 ''glTexCoord4iv''
      [(jintArray, ''jv'')]
      [(JintArray, ''v'', ''jv'')]
      Plain (Linked ''glTexCoord4iv'' [''v'']),
    Entry JNI_GL_DECLARE1 ''glTexCoord4s''
      [(jshort, ''s''), (jshort, ''t''), (jshort, ''r''), (jshort, ''q'')]
      []
      Plain (Linked ''glTexCoord4s'' [''s'', ''t'', ''r'', ''q'']),
    Entry JNI_GL_DECLARE1 ''glTexCoord4sv''
      [(jshortArray, ''jv'')]
      [(JshortArray, ''v'', ''jv'')]
      Plain (Linked ''glTexCoord4sv'' [''v'']),
    Entry JNI_GL_DECLARE1 ''glTexCoordPointer''
      [(jint, ''size''), (jint, ''type''), (jint, ''stride''), (jobject, ''jpointer'')]
      [(JvoidBuffer, ''pointer'', ''jpointer'')]
      Plain (Linked ''glTexCoordPointer'' [''size'', ''type'', ''stride'', ''pointer'']),
    Entry JNI_GL_DECLARE1 ''glTexEnvf''
      [(jint, ''target''), (jint, ''pname''), (jfloat, ''param'')]
      []
      Plain (Linked ''glTexEnvf'' [''target'', ''pname'', ''param'']),
    Entry JNI_GL_DECLARE1 ''glTexEnvfv''
      [(jint, ''target''), (jint, ''pname''), (jfloatArray, ''jparams'')]
      [(JfloatArray, ''params'', ''jparams'')]
      Plain (Linked ''glTexEnvfv'' [''target'', ''pname'', ''params'']),
    Entry JNI_GL_DECLARE1 ''glTexEnvi''
      [(jint, ''target''), (jint, ''pname''), (jint, ''param'')]
      []
      Plain (Linked ''glTexEnvi'' [''target'', ''pname'', ''param'']),
    Entry JNI_GL_DECLARE1 ''glTexEnviv''
      [(jint, ''target''), (jint, ''pname''), (jintArray, ''jparams'')]
      [(JintArray, ''params'', ''jparams'')]
      Plain (Linked ''glTexEnviv'' [''target'', ''pname'', ''params'']),
    Entry JNI_GL_DECLARE1 ''glTexGend''
      [(jint, ''coord''), (jint, ''pname''), (jdouble, ''param'')]
      []
      Plain (Linked ''glTexGend'' [''coord'', ''pname'', ''param'']),
    Entry JNI_GL_DECLARE1 ''glTexGendv''
      [(jint, ''coord''), (jint, ''pname''), (jdoubleArray, ''jparams'')]
      [(JdoubleArray, ''params'', ''jparams'')]
      Plain (Linked ''glTexGendv'' [''coord'', ''pname'', ''params'']),
    Entry JNI_GL_DECLARE1 ''glTexGenf''
      [(jint, ''coord''), (jint, ''pname''), (jfloat, ''param'')]
      []
      Plain (Linked ''glTexGenf'' [''coord'', ''pname'', ''param'']),
    Entry JNI_GL_DECLARE1 ''glTexGenfv''
      [(jint, ''coord''), (jint, ''pname''), (jfloatArray, ''jparams'')]
      [(JfloatArray, ''params'', ''jparams'')]
      Plain (Linked ''glTexGenfv'' [''coord'', ''pname'', ''params'']),
    Entry JNI_GL_DECLARE1 ''glTexGeni''
      [(jint, ''coord''), (jint, ''pname''), (jint, ''param'')]
      []
      Plain (Linked ''glTexGeni'' [''coord'', ''pname'', ''param'']),
    Entry JNI_GL_DECLARE1 ''glTexGeniv''
      [(jint, ''coord''), (jint, ''pname''), (jintArray, ''jparams'')]
      [(JintArray, ''params'', ''jparams'')]
      Plain (Linked ''glTexGeniv'' [''coord'', ''pname'', ''params'']),
    Entry JNI_GL_DECLARE1 ''glTexImage1D__IIIIIII_3B''
      [(jint, ''target''), (jint, ''level''), (jint, ''internalformat''), (jint, ''width''), (jint, ''border''), (jint, ''format''), (jint, ''type''), (jarray, ''jpixels'')]
      [(JvoidArray, ''pixels'', ''jpixels'')]
      Plain (Linked ''glTexImage1D'' [''target'', ''level'', ''internalformat'', ''width'', ''border'', ''format'', ''type'', ''pixels'']),
    Entry JNI_GL_DECLARE1 ''glTexImage1D__IIIIIII_3I''
      [(jint, ''target''), (jint, ''level''), (jint, ''internalformat''), (jint, ''width''), (jint, ''border''), (jint, ''format''), (jint, ''type''), (jarray, ''jpixels'')]
      [(JvoidArray, ''pixels'', ''jpixels'')]
      Plain (Linked ''glTexImage1D'' [''target'', ''level'', ''internalformat'', ''width'', ''border'', ''format'', ''type'', ''pixels'']),
    Entry JNI_GL_DECLARE1 ''glTexImage1D__IIIIIII_3S''
      [(jint, ''target''), (jint, ''level''), (jint, ''internalformat''), (jint, ''width''), (jint, ''border''), (jint, ''format''), (jint, ''type''), (jarray, ''jpixels'')]
      [(JvoidArray, ''pixels'', ''jpixels'')]
      Plain (Linked ''glTexImage1D'' [''target'', ''level'', ''internalformat'', ''width'', ''border'', ''format'', ''type'', ''pixels''])]"

text \<open>Source lines 2018 onwards: \<^verbatim>\<open>glTexImage2D__IIIIIIII_3B\<close> to \<^verbatim>\<open>glVertex2i\<close>.\<close>

definition entry_points_16 :: "entry list" where
  "entry_points_16 = [
    Entry JNI_GL_DECLARE1 ''glTexImage2D__IIIIIIII_3B''
      [(jint, ''target''), (jint, ''level''), (jint, ''internalformat''), (jint, ''width''), (jint, ''height''), (jint, ''border''), (jint, ''format''), (jint, ''type''), (jarray, ''jpixels'')]
      [(JvoidArray, ''pixels'', ''jpixels'')]
      Plain (Linked ''glTexImage2D'' [''target'', ''level'', ''internalformat'', ''width'', ''height'', ''border'', ''format'', ''type'', ''pixels'']),
    Entry JNI_GL_DECLARE1 ''glTexImage2D__IIIIIIII_3I''
      [(jint, ''target''), (jint, ''level''), (jint, ''internalformat''), (jint, ''width''), (jint, ''height''), (jint, ''border''), (jint, ''format''), (jint, ''type''), (jarray, ''jpixels'')]
      [(JvoidArray, ''pixels'', ''jpixels'')]
      Plain (Linked ''glTexImage2D'' [''target'', ''level'', ''internalformat'', ''width'', ''height'', ''border'', ''format'', ''type'', ''pixels'']),
    Entry JNI_GL_DECLARE1 ''glTexImage2D__IIIIIIII_3S''
      [(jint, ''target''), (jint, ''level''), (jint, ''internalformat''), (jint, ''width''), (jint, ''height''), (jint, ''border''), (jint, ''format''), (jint, ''type''), (jarray, ''jpixels'')]
      [(JvoidArray, ''pixels'', ''jpixels'')]
      Plain (Linked ''glTexImage2D'' [''target'', ''level'', ''internalformat'', ''width'', ''height'', ''border'', ''format'', ''type'', ''pixels'']),
    Entry JNI_GL_DECLARE1 ''glTexParameterf''
      [(jint, ''target''), (jint, ''pname''), (jfloat, ''param'')]
      []
      Plain (Linked ''glTexParameterf'' [''target'', ''pname'', ''param'']),
    Entry JNI_GL_DECLARE1 ''glTexParameterfv''
      [(jint, ''target''), (jint, ''pname''), (jfloatArray, ''jparams'')]
      [(JfloatArray, ''params'', ''jparams'')]
      Plain (Linked ''glTexParameterfv'' [''target'', ''pname'', ''params'']),
    Entry JNI_GL_DECLARE1 ''glTexParameteri''
      [(jint, ''target''), (jint, ''pname''), (jint, ''param'')]
      []
      Plain (Linked ''glTexParameteri'' [''target'', ''pname'', ''param'']),
    Entry JNI_GL_DECLARE1 ''glTexParameteriv''
      [(jint, ''target''), (jint, ''pname''), (jintArray, ''jparams'')]
      [(JintArray, ''params'', ''jparams'')]
      Plain (Linked ''glTexParameteriv'' [''target'', ''pname'', ''params'']),
    Entry JNI_GL_DECLARE1 ''glTexSubImage1D__IIIIII_3B''
      [(jint, ''target''), (jint, ''level''), (jint, ''xoffset''), (jint, ''width''), (jint, ''format''), (jint, ''type''), (jarray, ''jpixels'')]
      [(JvoidArray, ''pixels'', ''jpixels'')]
      Plain (Linked ''glTexSubImage1D'' [''target'', ''level'', ''xoffset'', ''width'', ''format'', ''type'', ''pixels'']),
    Entry JNI_GL_DECLARE1 ''glTexSubImage1D__IIIIII_3I''
      [(jint, ''target''), (jint, ''level''), (jint, ''xoffset''), (jint, ''width''), (jint, ''format''), (jint, ''type''), (jarray, ''jpixels'')]
      [(JvoidArray, ''pixels'', ''jpixels'')]
      Plain (Linked ''glTexSubImage1D'' [''target'', ''level'', ''xoffset'', ''width'', ''format'', ''type'', ''pixels'']),
    Entry JNI_GL_DECLARE1 ''glTexSubImage1D__IIIIII_3S''
      [(jint, ''target''), (jint, ''level''), (jint, ''xoffset''), (jint, ''width''), (jint, ''format''), (jint, ''type''), (jarray, ''jpixels'')]
      [(JvoidArray, ''pixels'', ''jpixels'')]
      Plain (Linked ''glTexSubImage1D'' [''target'', ''level'', ''xoffset'', ''width'', ''format'', ''type'', ''pixels'']),
    Entry JNI_GL_DECLARE1 ''glTexSubImage2D__IIIIIIII_3B''
      [(jint, ''target''), (jint, ''level''), (jint, ''xoffset''), (jint, ''yoffset''), (jint, ''width''), (jint, ''height''), (jint, ''format''), (jint, ''type''), (jarray, ''jpixels'')]
      [(JvoidArray, ''pixels'', ''jpixels'')]
      Plain (Linked ''glTexSubImage2D'' [''target'', ''level'', ''xoffset'', ''yoffset'', ''width'', ''height'', ''format'', ''type'', ''pixels'']),
    Entry JNI_GL_DECLARE1 ''glTexSubImage2D__IIIIIIII_3I''
      [(jint, ''target''), (jint, ''level''), (jint, ''xoffset''), (jint, ''yoffset''), (jint, ''width''), (jint, ''height''), (jint, ''format''), (jint, ''type''), (jarray, ''jpixels'')]
      [(JvoidArray, ''pixels'', ''jpixels'')]
      Plain (Linked ''glTexSubImage2D'' [''target'', ''level'', ''xoffset'', ''yoffset'', ''width'', ''height'', ''format'', ''type'', ''pixels'']),
    Entry JNI_GL_DECLARE1 ''glTexSubImage2D__IIIIIIII_3S''
      [(jint, ''target''), (jint, ''level''), (jint, ''xoffset''), (jint, ''yoffset''), (jint, ''width''), (jint, ''height''), (jint, ''format''), (jint, ''type''), (jarray, ''jpixels'')]
      [(JvoidArray, ''pixels'', ''jpixels'')]
      Plain (Linked ''glTexSubImage2D'' [''target'', ''level'', ''xoffset'', ''yoffset'', ''width'', ''height'', ''format'', ''type'', ''pixels'']),
    Entry JNI_GL_DECLARE1 ''glTranslated''
      [(jdouble, ''x''), (jdouble, ''y''), (jdouble, ''z'')]
      []
      Plain (Linked ''glTranslated'' [''x'', ''y'', ''z'']),
    Entry JNI_GL_DECLARE1 ''glTranslatef''
      [(jfloat, ''x''), (jfloat, ''y''), (jfloat, ''z'')]
      []
      Plain (Linked ''glTranslatef'' [''x'', ''y'', ''z'']),
    Entry JNI_GL_DECLARE1 ''glVertex2d''
      [(jdouble, ''x''), (jdouble, ''y'')]
      []
      Plain (Linked ''glVertex2d'' [''x'', ''y'']),
    Entry JNI_GL_DECLARE1 ''glVertex2dv''
      [(jdoubleArray, ''jv'')]
      [(JdoubleArray, ''v'', ''jv'')]
      Plain (Linked ''glVertex2dv'' [''v'']),
    Entry JNI_GL_DECLARE1 ''glVertex2f''
      [(jfloat, ''x''), (jfloat, ''y'')]
      []
      Plain (Linked ''glVertex2f'' [''x'', ''y'']),
    Entry JNI_GL_DECLARE1 ''glVertex2fv''
      [(jfloatArray, ''jv'')]
      [(JfloatArray, ''v'', ''jv'')]
      Plain (Linked ''glVertex2fv'' [''v'']),
    Entry JNI_GL_DECLARE1 ''glVertex2i''
      [(jint, ''x''), (jint, ''y'')]
      []
      Plain (Linked ''glVertex2i'' [''x'', ''y''])]"

text \<open>Source lines 2172 onwards: \<^verbatim>\<open>glVertex2iv\<close> to \<^verbatim>\<open>glVertexPointer\<close>.\<close>

definition entry_points_17 :: "entry list" where
  "entry_points_17 = [
    Entry JNI_GL_DECLARE1 ''glVertex2iv''
      [(jintArray, ''jv'')]
      [(JintArray, ''v'', ''jv'')]
      Plain (Linked ''glVertex2iv'' [''v'']),
    Entry JNI_GL_DECLARE1 ''glVertex2s''
      [(jshort, ''x''), (jshort, ''y'')]
      []
      Plain (Linked ''glVertex2s'' [''x'', ''y'']),
    Entry JNI_GL_DECLARE1 ''glVertex2sv''
      [(jshortArray, ''jv'')]
      [(JshortArray, ''v'', ''jv'')]
      Plain (Linked ''glVertex2sv'' [''v'']),
    Entry JNI_GL_DECLARE1 ''glVertex3d''
      [(jdouble, ''x''), (jdouble, ''y''), (jdouble, ''z'')]
      []
      Plain (Linked ''glVertex3d'' [''x'', ''y'', ''z'']),
    Entry JNI_GL_DECLARE1 ''glVertex3dv''
      [(jdoubleArray, ''jv'')]
      [(JdoubleArray, ''v'', ''jv'')]
      Plain (Linked ''glVertex3dv'' [''v'']),
    Entry JNI_GL_DECLARE1 ''glVertex3f''
      [(jfloat, ''x''), (jfloat, ''y''), (jfloat, ''z'')]
      []
      Plain (Linked ''glVertex3f'' [''x'', ''y'', ''z'']),
    Entry JNI_GL_DECLARE1 ''glVertex3fv''
      [(jfloatArray, ''jv'')]
      [(JfloatArray, ''v'', ''jv'')]
      Plain (Linked ''glVertex3fv'' [''v'']),
    Entry JNI_GL_DECLARE1 ''glVertex3i''
      [(jint, ''x''), (jint, ''y''), (jint, ''z'')]
      []
      Plain (Linked ''glVertex3i'' [''x'', ''y'', ''z'']),
    Entry JNI_GL_DECLARE1 ''glVertex3iv''
      [(jintArray, ''jv'')]
      [(JintArray, ''v'', ''jv'')]
      Plain (Linked ''glVertex3iv'' [''v'']),
    Entry JNI_GL_DECLARE1 ''glVertex3s''
      [(jshort, ''x''), (jshort, ''y''), (jshort, ''z'')]
      []
      Plain (Linked ''glVertex3s'' [''x'', ''y'', ''z'']),
    Entry JNI_GL_DECLARE1 ''glVertex3sv''
      [(jshortArray, ''jv'')]
      [(JshortArray, ''v'', ''jv'')]
      Plain (Linked ''glVertex3sv'' [''v'']),
    Entry JNI_GL_DECLARE1 ''glVertex4d''
      [(jdouble, ''x''), (jdouble, ''y''), (jdouble, ''z''), (jdouble, ''w'')]
      []
      Plain (Linked ''glVertex4d'' [''x'', ''y'', ''z'', ''w'']),
    Entry JNI_GL_DECLARE1 ''glVertex4dv''
      [(jdoubleArray, ''jv'')]
      [(JdoubleArray, ''v'', ''jv'')]
      Plain (Linked ''glVertex4dv'' [''v'']),
    Entry JNI_GL_DECLARE1 ''glVertex4f''
      [(jfloat, ''x''), (jfloat, ''y''), (jfloat, ''z''), (jfloat, ''w'')]
      []
      Plain (Linked ''glVertex4f'' [''x'', ''y'', ''z'', ''w'']),
    Entry JNI_GL_DECLARE1 ''glVertex4fv''
      [(jfloatArray, ''jv'')]
      [(JfloatArray, ''v'', ''jv'')]
      Plain (Linked ''glVertex4fv'' [''v'']),
    Entry JNI_GL_DECLARE1 ''glVertex4i''
      [(jint, ''x''), (jint, ''y''), (jint, ''z''), (jint, ''w'')]
      []
      Plain (Linked ''glVertex4i'' [''x'', ''y'', ''z'', ''w'']),
    Entry JNI_GL_DECLARE1 ''glVertex4iv''
      [(jintArray, ''jv'')]
      [(JintArray, ''v'', ''jv'')]
      Plain (Linked ''glVertex4iv'' [''v'']),
    Entry JNI_GL_DECLARE1 ''glVertex4s''
      [(jshort, ''x''), (jshort, ''y''), (jshort, ''z''), (jshort, ''w'')]
      []
      Plain (Linked ''glVertex4s'' [''x'', ''y'', ''z'', ''w'']),
    Entry JNI_GL_DECLARE1 ''glVertex4sv''
      [(jshortArray, ''jv'')]
      [(JshortArray, ''v'', ''jv'')]
      Plain (Linked ''glVertex4sv'' [''v'']),
    Entry JNI_GL_DECLARE1 ''glVertexPointer''
      [(jint, ''size''), (jint, ''type''), (jint, ''stride''), (jobject, ''jpointer'')]
      [(JvoidBuffer, ''pointer'', ''jpointer'')]
      Plain (Linked ''glVertexPointer'' [''size'', ''type'', ''stride'', ''pointer''])]"

text \<open>Source lines 2303 onwards: \<^verbatim>\<open>glViewport\<close> to \<^verbatim>\<open>glDrawRangeElements__IIIII_3S\<close>.\<close>

definition entry_points_18 :: "entry list" where
  "entry_points_18 = [
    Entry JNI_GL_DECLARE1 ''glViewport''
      [(jint, ''x''), (jint, ''y''), (jint, ''width''), (jint, ''height'')]
      []
      Plain (Linked ''glViewport'' [''x'', ''y'', ''width'', ''height'']),
    Entry JNI_GL_DECLARE2 ''glBlendColor''
      [(jfloat, ''red''), (jfloat, ''green''), (jfloat, ''blue''), (jfloat, ''alpha'')]
      []
      Plain (Through_pointer ''PFNGLBLENDCOLORPROC'' ''pfunc'' [''red'', ''green'', ''blue'', ''alpha'']),
    Entry JNI_GL_DECLARE2 ''glBlendEquation''
      [(jint, ''mode'')]
      []
      Plain (Through_pointer ''PFNGLBLENDEQUATIONPROC'' ''pfunc'' [''mode'']),
    Entry JNI_GL_DECLARE2 ''glDrawRangeElements__IIIII_3B''
      [(jint, ''mode''), (jint, ''start''), (jint, ''end''), (jint, ''count''), (jint, ''type''), (jarray, ''jindices'')]
      [(JvoidArray, ''indices'', ''jindices'')]
      Plain (Through_pointer ''PFNGLDRAWRANGEELEMENTSPROC'' ''pfunc'' [''mode'', ''start'', ''end'', ''count'', ''type'', ''indices'']),
    Entry JNI_GL_DECLARE2 ''glDrawRangeElements__IIIII_3I''
      [(jint, ''mode''), (jint, ''start''), (jint, ''end''), (jint, ''count''), (jint, ''type''), (jarray, ''jindices'')]
      [(JvoidArray, ''indices'', ''jindices'')]
      Plain (Through_pointer ''PFNGLDRAWRANGEELEMENTSPROC'' ''pfunc'' [''mode'', ''start'', ''end'', ''count'', ''type'', ''indices'']),
    Entry JNI_GL_DECLARE2 ''glDrawRangeElements__IIIII_3S''
      [(jint, ''mode''), (jint, ''start''), (jint, ''end''), (jint, ''count''), (jint, ''type''), (jarray, ''jindices'')]
      [(JvoidArray, ''indices'', ''jindices'')]
      Plain (Through_pointer ''PFNGLDRAWRANGEELEMENTSPROC'' ''pfunc'' [''mode'', ''start'', ''end'', ''count'', ''type'', ''indices''])]"

definition entry_points :: "entry list" where
  "entry_points =
    entry_points_01 @ entry_points_02 @ entry_points_03 @ entry_points_04 @
    entry_points_05 @ entry_points_06 @ entry_points_07 @ entry_points_08 @
    entry_points_09 @ entry_points_10 @ entry_points_11 @ entry_points_12 @
    entry_points_13 @ entry_points_14 @ entry_points_15 @ entry_points_16 @
    entry_points_17 @ entry_points_18"

subsection \<open>What the macros and helpers mean\<close>


text \<open>
  The parameters after \<^verbatim>\<open>JNIEnv* env, jclass cls\<close>, as the macro expands:
  \<^verbatim>\<open>JNI_GL_DECLARE2\<close> inserts \<^verbatim>\<open>jlong pfunc\<close> before the written ones.
\<close>

definition signature :: "entry \<Rightarrow> (jtype \<times> string) list" where
  "signature e =
     (case macro e of
        JNI_GL_DECLARE2 \<Rightarrow> (jlong, ''pfunc'') # params e
      | _ \<Rightarrow> params e)"

text \<open>
  A scalar passed by value to the graphics library. The GL parameter it lands in has
  the width of the JNI type (\<^verbatim>\<open>GLenum\<close>, \<^verbatim>\<open>GLbitfield\<close>, \<^verbatim>\<open>GLuint\<close>, \<^verbatim>\<open>GLint\<close> and
  \<^verbatim>\<open>GLsizei\<close> for \<^verbatim>\<open>jint\<close>; \<^verbatim>\<open>GLboolean\<close>, \<^verbatim>\<open>GLbyte\<close> and \<^verbatim>\<open>GLubyte\<close> for \<^verbatim>\<open>jbyte\<close>; ...),
  so C's implicit conversion keeps the bits. An array or buffer handle has no
  conversion to a native argument: it has to go through a helper.
\<close>

fun pass :: "jvalue \<Rightarrow> cvalue option" where
  "pass (J_byte b) = Some (C_8 b)"
| "pass (J_short s) = Some (C_16 s)"
| "pass (J_int i) = Some (C_32 i)"
| "pass (J_long l) = Some (C_64 l)"
| "pass (J_float f) = Some (C_f32 f)"
| "pass (J_double d) = Some (C_f64 d)"
| "pass (J_boolean b) = Some (C_8 b)"
| "pass _ = None"

text \<open>
  Modelled from the spec: the marshaling helpers of \<^verbatim>\<open>../util/jniglue.h\<close>, which is not
  among the sources. A helper built from a managed array or buffer gives the native
  call a raw view of the caller's storage for the duration of the call, at the native
  element type of the helper's name; the unsigned helpers reinterpret the signed managed
  elements (same bits) and do not convert them numerically. \<open>marshal\<close> is the view a
  helper gives (\<open>None\<close>: the helper has no constructor for that value).
\<close>

fun bytes_of :: "jvalue \<Rightarrow> 8 word list option" where
  "bytes_of (J_byteArray xs) = Some xs"
| "bytes_of _ = None"

fun shorts_of :: "jvalue \<Rightarrow> 16 word list option" where
  "shorts_of (J_shortArray xs) = Some xs"
| "shorts_of _ = None"

fun ints_of :: "jvalue \<Rightarrow> 32 word list option" where
  "ints_of (J_intArray xs) = Some xs"
| "ints_of _ = None"

fun floats_of :: "jvalue \<Rightarrow> 32 word list option" where
  "floats_of (J_floatArray xs) = Some xs"
| "floats_of _ = None"

fun doubles_of :: "jvalue \<Rightarrow> 64 word list option" where
  "doubles_of (J_doubleArray xs) = Some xs"
| "doubles_of _ = None"

fun is_array :: "jvalue \<Rightarrow> bool" where
  "is_array (J_byteArray xs) = True"
| "is_array (J_shortArray xs) = True"
| "is_array (J_intArray xs) = True"
| "is_array (J_floatArray xs) = True"
| "is_array (J_doubleArray xs) = True"
| "is_array _ = False"

fun address_of :: "jvalue \<Rightarrow> 64 word option" where
  "address_of (J_buffer a) = Some a"
| "address_of _ = None"

fun marshal :: "helper \<Rightarrow> jvalue \<Rightarrow> cvalue option" where
  "marshal JbyteArray v = map_option P_byte (bytes_of v)"
| "marshal JubyteArray v = map_option P_ubyte (bytes_of v)"
| "marshal JshortArray v = map_option P_short (shorts_of v)"
| "marshal JushortArray v = map_option P_ushort (shorts_of v)"
| "marshal JintArray v = map_option P_int (ints_of v)"
| "marshal JuintArray v = map_option P_uint (ints_of v)"
| "marshal JfloatArray v = map_option P_float (floats_of v)"
| "marshal JdoubleArray v = map_option P_double (doubles_of v)"
| "marshal JvoidArray v = (if is_array v then Some (P_void v) else None)"
| "marshal JvoidBuffer v = map_option P_addr (address_of v)"
| "marshal JfloatBuffer v = map_option P_addr (address_of v)"
| "marshal JuintBuffer v = map_option P_addr (address_of v)"

text \<open>
  Modelled from the spec: what the caller holds once a view is released (the helper's
  destructor), and how a native scalar reads as a managed one: the same bits again.
\<close>

fun managed :: "cvalue \<Rightarrow> jvalue" where
  "managed (C_8 b) = J_byte b"
| "managed (C_16 s) = J_short s"
| "managed (C_32 i) = J_int i"
| "managed (C_64 l) = J_long l"
| "managed (C_f32 f) = J_float f"
| "managed (C_f64 d) = J_double d"
| "managed (P_byte xs) = J_byteArray xs"
| "managed (P_ubyte xs) = J_byteArray xs"
| "managed (P_short xs) = J_shortArray xs"
| "managed (P_ushort xs) = J_shortArray xs"
| "managed (P_int xs) = J_intArray xs"
| "managed (P_uint xs) = J_intArray xs"
| "managed (P_float xs) = J_floatArray xs"
| "managed (P_double xs) = J_doubleArray xs"
| "managed (P_void v) = v"
| "managed (P_addr a) = J_buffer a"
| "managed (P_chars p) = J_string (case p of None \<Rightarrow> [] | Some s \<Rightarrow> s)"

text \<open>
  Modelled from the spec: \<^verbatim>\<open>toPointer\<close> of \<^verbatim>\<open>../util/jniglue.h\<close> turns the
  integer-sized handle into the address it holds.
\<close>

definition toPointer :: "64 word \<Rightarrow> 64 word" where
  "toPointer pfunc = pfunc"

text \<open>
  The graphics library and the JNI runtime are not part of the repository: they are
  parameters. A native call is made on a target (a function linked by name, or whatever
  stands at an address, called at the signature of a \<^verbatim>\<open>PFN...PROC\<close> type) with its
  arguments, in a state \<open>'w\<close> of the native world. It returns a value (if any), the
  storage behind its pointer arguments as it leaves it, and the new state; or it faults
  with a description.
\<close>

datatype target = Symbol string | Address "64 word" string

datatype 'w outcome =
    Returned "cvalue option" "cvalue list" 'w
  | Faulted string "cvalue list" 'w

record 'w platform =
  native :: "target \<Rightarrow> cvalue list \<Rightarrow> 'w \<Rightarrow> 'w outcome"
  NewStringUTF :: "string option \<Rightarrow> jvalue"

text \<open>
  What the Java caller observes: a return (the value, the arrays it passed as they are
  after the call, the native state) or a thrown \<^verbatim>\<open>RuntimeException\<close> with its message.
\<close>

datatype 'w jresult =
    Returns "jvalue option" "jvalue list" 'w
  | Throws_RuntimeException string "jvalue list" 'w

text \<open>The value of the statement, from what the call expression returned.\<close>

fun returned :: "'w platform \<Rightarrow> form \<Rightarrow> cvalue option \<Rightarrow> jvalue option" where
  "returned P Plain r = None"
| "returned P Return r = map_option managed r"
| "returned P Return_boolean r =
     Some (J_boolean (if r = Some (C_8 GL_TRUE) then JNI_TRUE else JNI_FALSE))"
| "returned P Return_NewStringUTF r =
     Some (NewStringUTF P (case r of Some (P_chars p) \<Rightarrow> p | _ \<Rightarrow> None))"

text \<open>
  Modelled from the spec: \<^verbatim>\<open>JNI_TRY\<close> and \<^verbatim>\<open>JNI_CATCH\<close> of \<^verbatim>\<open>../util/jniglue.h\<close>,
  which \<^verbatim>\<open>JNI_GL_BEGINk\<close> and \<^verbatim>\<open>JNI_GL_END\<close> put around every body: a fault raised
  inside is caught at the boundary and re-signaled to the caller as one runtime fault
  that carries the fault's description. The first argument is what the body does with
  the value of the call when nothing is raised.
\<close>

fun JNI_TRY_CATCH :: "(cvalue option \<Rightarrow> jvalue option) \<Rightarrow> 'w outcome \<Rightarrow> 'w jresult" where
  "JNI_TRY_CATCH k (Returned r bufs w) = Returns (k r) (map managed bufs) w"
| "JNI_TRY_CATCH k (Faulted msg bufs w) = Throws_RuntimeException msg (map managed bufs) w"

text \<open>
  The helper declarations, run in order on the bound parameters: each binds its local
  name to the view of the parameter it names.
\<close>

definition construct :: "(string \<times> jvalue) list \<Rightarrow> helper \<times> string \<times> string \<Rightarrow> (string \<times> cvalue) option" where
  "construct pars d =
     (case d of (h, l, j) \<Rightarrow>
        (case map_of pars j of
           None \<Rightarrow> None
         | Some v \<Rightarrow> map_option (Pair l) (marshal h v)))"

text \<open>
  An argument expression is a name: a helper local stands for its view, a parameter is
  passed by value.
\<close>

definition argument :: "(string \<times> jvalue) list \<Rightarrow> (string \<times> cvalue) list \<Rightarrow> string \<Rightarrow> cvalue option" where
  "argument pars locs x =
     (case map_of locs x of
        Some p \<Rightarrow> Some p
      | None \<Rightarrow> (case map_of pars x of Some v \<Rightarrow> pass v | None \<Rightarrow> None))"

fun evaluate :: "'w platform \<Rightarrow> (string \<times> jvalue) list \<Rightarrow> (string \<times> cvalue) list \<Rightarrow> call \<Rightarrow> 'w \<Rightarrow> 'w outcome option" where
  "evaluate P pars locs (Linked f xs) w =
     map_option (\<lambda>cs. native P (Symbol f) cs w) (those (map (argument pars locs) xs))"
| "evaluate P pars locs (Through_pointer pfn h xs) w =
     (case map_of pars h of
        Some (J_long a) \<Rightarrow>
          map_option (\<lambda>cs. native P (Address (toPointer a) pfn) cs w)
            (those (map (argument pars locs) xs))
      | _ \<Rightarrow> None)"

text \<open>
  One call of an exported function by the Java runtime with the values \<open>vals\<close> for its
  parameters, in the native state \<open>w\<close>. \<open>None\<close> stands for what C++ would not have
  compiled or the runtime would not have called: a wrong number of values, a name that
  is not in scope, a value a helper or the call cannot take.
\<close>

definition invoke :: "'w platform \<Rightarrow> entry \<Rightarrow> jvalue list \<Rightarrow> 'w \<Rightarrow> 'w jresult option" where
  "invoke P e vals w =
     (if length vals \<noteq> length (signature e) then None
      else
        (let pars = zip (map snd (signature e)) vals in
         case those (map (construct pars) (locals e)) of
           None \<Rightarrow> None
         | Some locs \<Rightarrow>
             map_option (JNI_TRY_CATCH (returned P (form e)))
               (evaluate P pars locs (call e) w)))"

subsection \<open>Calls the Java runtime can make\<close>

text \<open>
  The runtime calls an exported function with one value per parameter, of the
  parameter's declared type (\<^verbatim>\<open>jarray\<close> is any primitive array, \<^verbatim>\<open>jobject\<close> is here
  always a direct buffer).
\<close>

fun has_type :: "jvalue \<Rightarrow> jtype \<Rightarrow> bool" where
  "has_type (J_byte b) t = (t = jbyte)"
| "has_type (J_short s) t = (t = jshort)"
| "has_type (J_int i) t = (t = jint \<or> t = c_int)"
| "has_type (J_long l) t = (t = jlong)"
| "has_type (J_float f) t = (t = jfloat)"
| "has_type (J_double d) t = (t = jdouble)"
| "has_type (J_boolean b) t = (t = jboolean)"
| "has_type (J_byteArray xs) t = (t = jbyteArray \<or> t = jarray)"
| "has_type (J_shortArray xs) t = (t = jshortArray \<or> t = jarray)"
| "has_type (J_intArray xs) t = (t = jintArray \<or> t = jarray)"
| "has_type (J_floatArray xs) t = (t = jfloatArray \<or> t = jarray)"
| "has_type (J_doubleArray xs) t = (t = jdoubleArray \<or> t = jarray)"
| "has_type (J_buffer a) t = (t = jobject)"
| "has_type (J_string s) t = (t = jstring)"
| "has_type J_null t = False"

definition well_typed :: "entry \<Rightarrow> jvalue list \<Rightarrow> bool" where
  "well_typed e vals = list_all2 has_type vals (map fst (signature e))"

text \<open>The types passed by value, and the parameter types a helper is built from.\<close>

definition scalar :: "jtype \<Rightarrow> bool" where
  "scalar t = (t \<in> set [jbyte, jshort, jint, c_int, jlong, jfloat, jdouble])"

fun accepts :: "helper \<Rightarrow> jtype \<Rightarrow> bool" where
  "accepts JbyteArray t = (t = jbyteArray)"
| "accepts JubyteArray t = (t = jbyteArray)"
| "accepts JshortArray t = (t = jshortArray)"
| "accepts JushortArray t = (t = jshortArray)"
| "accepts JintArray t = (t = jintArray)"
| "accepts JuintArray t = (t = jintArray)"
| "accepts JfloatArray t = (t = jfloatArray)"
| "accepts JdoubleArray t = (t = jdoubleArray)"
| "accepts JvoidArray t = (t \<in> set [jbyteArray, jshortArray, jintArray, jfloatArray, jdoubleArray, jarray])"
| "accepts JvoidBuffer t = (t = jobject)"
| "accepts JfloatBuffer t = (t = jobject)"
| "accepts JuintBuffer t = (t = jobject)"

subsection \<open>Forwarding, stated position by position\<close>

text \<open>
  The helper declared for a parameter, if any, with the local it declares; and the
  native argument that stands for the parameter: its view through that helper, or the
  value itself.
\<close>

definition wrapping :: "entry \<Rightarrow> (string \<times> helper \<times> string) list" where
  "wrapping e = map (\<lambda>(h, l, j). (j, h, l)) (locals e)"

definition native_view :: "entry \<Rightarrow> jtype \<times> string \<Rightarrow> jvalue \<Rightarrow> cvalue option" where
  "native_view e p v =
     (case map_of (wrapping e) (snd p) of
        Some (h, l) \<Rightarrow> marshal h v
      | None \<Rightarrow> pass v)"

definition native_arguments :: "entry \<Rightarrow> jvalue list \<Rightarrow> cvalue list option" where
  "native_arguments e vals = those (map2 (native_view e) (params e) vals)"

text \<open>The name a parameter is forwarded under, and the argument names of a call.\<close>

definition forwarded :: "entry \<Rightarrow> jtype \<times> string \<Rightarrow> string" where
  "forwarded e p =
     (case map_of (wrapping e) (snd p) of
        Some (h, l) \<Rightarrow> l
      | None \<Rightarrow> snd p)"

fun arguments :: "call \<Rightarrow> string list" where
  "arguments (Linked f xs) = xs"
| "arguments (Through_pointer pfn h xs) = xs"

text \<open>
  What can be read off a row without running it: the names in scope are distinct,
  every helper is built from a parameter of a type it accepts, every parameter that is
  not passed by value has a helper, the call names the parameters (or their helper
  locals) in the order of the parameter list, and only a \<^verbatim>\<open>JNI_GL_DECLARE2\<close> function
  calls through \<^verbatim>\<open>pfunc\<close>.
\<close>

definition well_formed :: "entry \<Rightarrow> bool" where
  "well_formed e =
     (distinct (map snd (signature e) @ map (fst \<circ> snd) (locals e)) \<and>
      list_all (\<lambda>(h, l, j). case map_of (map (\<lambda>(t, p). (p, t)) (params e)) j of
                  Some t \<Rightarrow> accepts h t | None \<Rightarrow> False) (locals e) \<and>
      list_all (\<lambda>(t, p). scalar t \<or> map_of (wrapping e) p \<noteq> None) (params e) \<and>
      arguments (call e) = map (forwarded e) (params e) \<and>
      (case call e of
         Linked f xs \<Rightarrow> macro e \<noteq> JNI_GL_DECLARE2
       | Through_pointer pfn h xs \<Rightarrow> macro e = JNI_GL_DECLARE2 \<and> h = ''pfunc''))"

subsection \<open>The native call an exported function stands for\<close>

text \<open>
  The values that belong to the native function's own parameters (all of them, or all
  but the leading handle), and the target the call goes to: the linked function the
  call names, or the address the handle holds, called at the \<^verbatim>\<open>PFN...PROC\<close> signature the
  source casts it to.
\<close>

definition own :: "entry \<Rightarrow> jvalue list \<Rightarrow> jvalue list" where
  "own e vals = (case macro e of JNI_GL_DECLARE2 \<Rightarrow> tl vals | _ \<Rightarrow> vals)"

definition destination :: "entry \<Rightarrow> jvalue list \<Rightarrow> target option" where
  "destination e vals =
     (case call e of
        Linked f xs \<Rightarrow> Some (Symbol f)
      | Through_pointer pfn h xs \<Rightarrow>
          (case vals of
             J_long a # rest \<Rightarrow> Some (Address (toPointer a) pfn)
           | _ \<Rightarrow> None))"

text \<open>
  The spec's point of comparison, in its words: "calling the underlying native function
  directly with the same arguments", array and buffer parameters being given as raw
  views.
\<close>

definition direct_native_call :: "'w platform \<Rightarrow> entry \<Rightarrow> jvalue list \<Rightarrow> 'w \<Rightarrow> 'w outcome option" where
  "direct_native_call P e vals w =
     (case destination e vals of
        None \<Rightarrow> None
      | Some t \<Rightarrow> map_option (\<lambda>cs. native P t cs w) (native_arguments e (own e vals)))"

subsection \<open>Observing the native calls\<close>

text \<open>
  The same platform, with every native call written to a log that travels with the
  native state: the target and the arguments, in the order the calls are made.
\<close>

definition logged :: "'w platform \<Rightarrow> ('w \<times> (target \<times> cvalue list) list) platform" where
  "logged P =
     \<lparr>native = (\<lambda>t cs s.
        case native P t cs (fst s) of
          Returned r bufs w' \<Rightarrow> Returned r bufs (w', snd s @ [(t, cs)])
        | Faulted msg bufs w' \<Rightarrow> Faulted msg bufs (w', snd s @ [(t, cs)])),
      NewStringUTF = NewStringUTF P\<rparr>"

fun final_state :: "'w jresult \<Rightarrow> 'w" where
  "final_state (Returns r js w) = w"
| "final_state (Throws_RuntimeException msg js w) = w"

text \<open>
  A result the prototype of the called function allows: nothing from a \<^verbatim>\<open>void\<close>
  function, a 32-bit value from one that returns \<^verbatim>\<open>GLuint\<close>, \<^verbatim>\<open>GLenum\<close> or \<^verbatim>\<open>GLint\<close>,
  \<^verbatim>\<open>GL_TRUE\<close> or \<^verbatim>\<open>GL_FALSE\<close> from one that returns \<^verbatim>\<open>GLboolean\<close>, and from
  \<^verbatim>\<open>glGetString\<close> a string, of which the runtime then makes a Java string with the same
  characters.
\<close>

definition proper :: "'w platform \<Rightarrow> form \<Rightarrow> cvalue option \<Rightarrow> bool" where
  "proper P f r =
     (case f of
        Plain \<Rightarrow> r = None
      | Return \<Rightarrow> (case r of Some (C_32 i) \<Rightarrow> True | _ \<Rightarrow> False)
      | Return_boolean \<Rightarrow> r = Some (C_8 GL_TRUE) \<or> r = Some (C_8 GL_FALSE)
      | Return_NewStringUTF \<Rightarrow>
          (case r of
             Some (P_chars (Some s)) \<Rightarrow> NewStringUTF P (Some s) = J_string s
           | _ \<Rightarrow> False))"

text \<open>A managed value and a native value that are the same value.\<close>

definition same :: "jvalue \<Rightarrow> cvalue \<Rightarrow> bool" where
  "same v c =
     (case v of
        J_int i \<Rightarrow> c = C_32 i
      | J_boolean b \<Rightarrow> c = C_8 b
      | J_string s \<Rightarrow> c = P_chars (Some s)
      | _ \<Rightarrow> False)"

subsection \<open>Names\<close>

text \<open>
  The name of a function without the JNI overload suffix \<^verbatim>\<open>__descriptor\<close>; upper case,
  as in the \<^verbatim>\<open>PFN...PROC\<close> type names of \<^verbatim>\<open>GL/glext.h\<close>; and the part of the exported
  symbol after \<^verbatim>\<open>Java_edu_mines_jves_opengl_Gl_\<close>.
\<close>

fun base :: "string \<Rightarrow> string" where
  "base (c # d # cs) = (if c = CHR ''_'' \<and> d = CHR ''_'' then [] else c # base (d # cs))"
| "base cs = cs"

definition upper :: "char \<Rightarrow> char" where
  "upper c =
     (let n = (of_char c :: nat) in if 97 \<le> n \<and> n \<le> 122 then char_of (n - 32) else c)"


subsection \<open>Overloads\<close>







subsection \<open>Elements as numbers\<close>

text \<open>
  The helpers with an unsigned native element type, with its width; the elements of a
  managed array as Java reads them (signed); the elements behind a native view as the
  graphics library reads them (signed or unsigned, as the pointer type says); and the
  helper declarations of a list of rows that use an unsigned helper, as (function,
  helper, parameter).
\<close>

fun unsigned_width :: "helper \<Rightarrow> nat option" where
  "unsigned_width JubyteArray = Some 8"
| "unsigned_width JushortArray = Some 16"
| "unsigned_width JuintArray = Some 32"
| "unsigned_width h = None"

fun managed_elements :: "jvalue \<Rightarrow> int list" where
  "managed_elements (J_byteArray xs) = map sint xs"
| "managed_elements (J_shortArray xs) = map sint xs"
| "managed_elements (J_intArray xs) = map sint xs"
| "managed_elements v = []"

fun native_elements :: "cvalue \<Rightarrow> int list" where
  "native_elements (P_byte xs) = map sint xs"
| "native_elements (P_ubyte xs) = map uint xs"
| "native_elements (P_short xs) = map sint xs"
| "native_elements (P_ushort xs) = map uint xs"
| "native_elements (P_int xs) = map sint xs"
| "native_elements (P_uint xs) = map uint xs"
| "native_elements c = []"

definition unsigned_declarations :: "entry list \<Rightarrow> (string \<times> helper \<times> string) list" where
  "unsigned_declarations es =
     concat (map (\<lambda>e. map (\<lambda>(h, l, j). (name e, h, j))
       (filter (\<lambda>(h, l, j). unsigned_width h \<noteq> None) (locals e))) es)"

subsection \<open>Truth of a native boolean\<close>

text \<open>A \<^verbatim>\<open>GLboolean\<close> argument counts as true, as any C integer does, when it is not zero.\<close>

definition native_true :: "cvalue \<Rightarrow> bool" where
  "native_true c = (case c of C_8 b \<Rightarrow> b \<noteq> 0 | _ \<Rightarrow> False)"

subsection \<open>A small native world to run the functions in\<close>

text \<open>
  A graphics library with a clear colour, a one-pixel framebuffer and a few fixed
  answers; it faults on \<^verbatim>\<open>glReadPixels\<close>. The runtime beside it makes a Java string of
  a C string and the null reference of a null pointer.
\<close>

record world =
  clear_color :: "cvalue list"
  framebuffer :: "cvalue list"

fun is_view :: "cvalue \<Rightarrow> bool" where
  "is_view (C_8 b) = False"
| "is_view (C_16 s) = False"
| "is_view (C_32 i) = False"
| "is_view (C_64 l) = False"
| "is_view (C_f32 f) = False"
| "is_view (C_f64 d) = False"
| "is_view (P_addr a) = False"
| "is_view c = True"

definition sample_native :: "target \<Rightarrow> cvalue list \<Rightarrow> world \<Rightarrow> world outcome" where
  "sample_native t cs w =
     (if t = Symbol ''glClearColor'' then Returned None [] (w\<lparr>clear_color := cs\<rparr>)
      else if t = Symbol ''glClear'' then
        Returned None [] (if cs = [C_32 0x4000] then w\<lparr>framebuffer := clear_color w\<rparr> else w)
      else if t = Symbol ''glIsEnabled'' then
        Returned (Some (C_8 (if cs = [C_32 0x0B71] then GL_TRUE else GL_FALSE))) [] w
      else if t = Symbol ''glGenLists'' then Returned (Some (C_32 7)) [] w
      else if t = Symbol ''glGetString'' then
        Returned (Some (P_chars (if cs = [C_32 0x1F00] then Some ''Sample'' else None))) [] w
      else if t = Symbol ''glGenTextures'' then Returned None [P_uint [0x80000001, 2, 3]] w
      else if t = Symbol ''glReadPixels'' then Faulted ''access violation'' (filter is_view cs) w
      else Returned None (filter is_view cs) w)"

definition sample_NewStringUTF :: "string option \<Rightarrow> jvalue" where
  "sample_NewStringUTF p = (case p of None \<Rightarrow> J_null | Some s \<Rightarrow> J_string s)"

definition sample :: "world platform" where
  "sample = \<lparr>native = sample_native, NewStringUTF = sample_NewStringUTF\<rparr>"

definition black :: world where
  "black = \<lparr>clear_color = [C_f32 0, C_f32 0, C_f32 0, C_f32 0],
            framebuffer = [C_f32 0, C_f32 0, C_f32 0, C_f32 0]\<rparr>"

section \<open>Properties\<close>

subsection \<open>Every row runs as the direct native call it names\<close>

lemma those_map_Some:
  "(\<And>x. x \<in> set xs \<Longrightarrow> f x = Some (g x)) \<Longrightarrow> those (map f xs) = Some (map g xs)"
  by (induction xs) auto

lemma marshal_accepts:
  "accepts h t \<Longrightarrow> has_type v t \<Longrightarrow> \<exists>c. marshal h v = Some c"
  by (cases h; cases v) auto

lemma pass_scalar:
  "scalar t \<Longrightarrow> has_type v t \<Longrightarrow> \<exists>c. pass v = Some c"
  by (cases v) (auto simp: scalar_def)

lemma map_of_keys_distinct:
  "distinct (map k ds) \<Longrightarrow> d \<in> set ds \<Longrightarrow> map_of (map (\<lambda>d. (k d, g d)) ds) (k d) = Some (g d)"
  by (induction ds) (auto simp: rev_image_eqI)

lemma map_of_keys_None:
  "x \<notin> set (map k ds) \<Longrightarrow> map_of (map (\<lambda>d. (k d, g d)) ds) x = None"
  by (induction ds) auto

lemma wrapping_mem:
  "map_of (wrapping e) p = Some (h, l) \<Longrightarrow> (h, l, p) \<in> set (locals e)"
  by (drule map_of_SomeD) (auto simp: wrapping_def)

lemma forwarding_core:
  assumes len: "length ovals = length (params e)"
    and bound: "\<And>i. i < length (params e) \<Longrightarrow> map_of pars (snd (params e ! i)) = Some (ovals ! i)"
    and typed: "list_all2 has_type ovals (map fst (params e))"
    and d1: "distinct (map (fst \<circ> snd) (locals e))"
    and d2: "set (map snd (params e)) \<inter> set (map (fst \<circ> snd) (locals e)) = {}"
    and acc: "list_all (\<lambda>(h, l, j). case map_of (map (\<lambda>(t, p). (p, t)) (params e)) j of
                  Some t \<Rightarrow> accepts h t | None \<Rightarrow> False) (locals e)"
    and sc: "list_all (\<lambda>(t, p). scalar t \<or> map_of (wrapping e) p \<noteq> None) (params e)"
  shows "\<exists>locs cs. those (map (construct pars) (locals e)) = Some locs \<and>
           native_arguments e ovals = Some cs \<and>
           those (map (argument pars locs) (map (forwarded e) (params e))) = Some cs"
proof -
  let ?ps = "params e" and ?ds = "locals e"
  define g where "g = (\<lambda>d :: helper \<times> string \<times> string.
     the (marshal (fst d) (the (map_of pars (snd (snd d))))))"
  have view: "\<exists>i c. i < length ?ps \<and> snd (?ps ! i) = j \<and> marshal h (ovals ! i) = Some c"
    if "(h, l, j) \<in> set ?ds" for h l j
  proof -
    from acc that obtain t where t: "map_of (map (\<lambda>(t, p). (p, t)) ?ps) j = Some t" "accepts h t"
      by (auto simp: list_all_iff split: option.splits)
    from map_of_SomeD [OF t(1)] have "(t, j) \<in> set ?ps" by auto
    then obtain i where i: "i < length ?ps" "?ps ! i = (t, j)"
      by (auto simp: in_set_conv_nth)
    with typed have "has_type (ovals ! i) t"
      by (auto simp: list_all2_conv_all_nth)
    with t(2) obtain c where "marshal h (ovals ! i) = Some c"
      using marshal_accepts by blast
    with i show ?thesis by auto
  qed
  have built: "construct pars d = Some (fst (snd d), g d)" if "d \<in> set ?ds" for d
  proof -
    obtain h l j where d: "d = (h, l, j)" by (cases d)
    from view [of h l j] that d obtain i c where
      i: "i < length ?ps" "snd (?ps ! i) = j" "marshal h (ovals ! i) = Some c" by auto
    from bound [OF i(1)] i(2) have "map_of pars j = Some (ovals ! i)" by simp
    with i(3) d show ?thesis by (simp add: construct_def g_def)
  qed
  define locs where "locs = map (\<lambda>d. ((fst \<circ> snd) d, g d)) ?ds"
  have locs: "those (map (construct pars) ?ds) = Some locs"
    unfolding locs_def by (rule those_map_Some) (simp add: built)
  have arg: "argument pars locs (forwarded e (?ps ! i)) = native_view e (?ps ! i) (ovals ! i) \<and>
             native_view e (?ps ! i) (ovals ! i) \<noteq> None"
    if i: "i < length ?ps" for i
  proof (cases "map_of (wrapping e) (snd (?ps ! i))")
    case None
    have "snd (?ps ! i) \<in> set (map snd ?ps)" using i by simp
    with d2 have "snd (?ps ! i) \<notin> set (map (fst \<circ> snd) ?ds)" by blast
    then have nl: "map_of locs (snd (?ps ! i)) = None"
      unfolding locs_def by (rule map_of_keys_None)
    have "scalar (fst (?ps ! i))"
    proof -
      obtain t p where tp: "?ps ! i = (t, p)" by (cases "?ps ! i")
      with i have "(t, p) \<in> set ?ps" by (metis nth_mem)
      with sc have "scalar t \<or> map_of (wrapping e) p \<noteq> None"
        by (auto simp: list_all_iff)
      with None tp show ?thesis by simp
    qed
    moreover from typed i have "has_type (ovals ! i) (fst (?ps ! i))"
      by (auto simp: list_all2_conv_all_nth)
    ultimately obtain c where "pass (ovals ! i) = Some c"
      using pass_scalar by blast
    with None nl bound [OF i] show ?thesis
      by (simp add: argument_def forwarded_def native_view_def)
  next
    case (Some hl)
    obtain h l where hl: "hl = (h, l)" by (cases hl)
    with Some have mem: "(h, l, snd (?ps ! i)) \<in> set ?ds"
      by (simp add: wrapping_mem)
    from view [OF mem] obtain k c where
      k: "k < length ?ps" "snd (?ps ! k) = snd (?ps ! i)" "marshal h (ovals ! k) = Some c" by auto
    from bound [OF k(1)] bound [OF i] k(2) have same: "ovals ! k = ovals ! i" by simp
    from k(3) same have mv: "marshal h (ovals ! i) = Some c" by simp
    from map_of_keys_distinct [OF d1 mem, of g]
    have "map_of locs l = Some (g (h, l, snd (?ps ! i)))"
      by (simp add: locs_def)
    moreover have "g (h, l, snd (?ps ! i)) = c"
      using mv bound [OF i] by (simp add: g_def)
    ultimately have ml: "map_of locs l = Some c" by simp
    have "forwarded e (?ps ! i) = l"
      using Some hl by (simp add: forwarded_def)
    moreover have "native_view e (?ps ! i) (ovals ! i) = Some c"
      using Some hl mv by (simp add: native_view_def)
    ultimately show ?thesis
      using ml by (simp add: argument_def)
  qed
  define cs where "cs = map (\<lambda>i. the (native_view e (?ps ! i) (ovals ! i))) [0..<length ?ps]"
  have m2: "map2 (native_view e) ?ps ovals = map (\<lambda>i. native_view e (?ps ! i) (ovals ! i)) [0..<length ?ps]"
    by (rule nth_equalityI) (simp_all add: len)
  have na: "native_arguments e ovals = Some cs"
    unfolding native_arguments_def m2 cs_def
    by (rule those_map_Some) (use arg in auto)
  have "map (argument pars locs) (map (forwarded e) ?ps) = map2 (native_view e) ?ps ovals"
    by (rule nth_equalityI) (simp_all add: len arg)
  with na have "those (map (argument pars locs) (map (forwarded e) ?ps)) = Some cs"
    by (simp add: native_arguments_def)
  with locs na show ?thesis by blast
qed


lemma invoke_refines:
  assumes wf: "well_formed e" and ty: "well_typed e vals"
  shows "\<exists>out. direct_native_call P e vals w = Some out \<and>
           invoke P e vals w = Some (JNI_TRY_CATCH (returned P (form e)) out)"
proof -
  from wf have dist: "distinct (map snd (signature e) @ map (fst \<circ> snd) (locals e))"
    and acc: "list_all (\<lambda>(h, l, j). case map_of (map (\<lambda>(t, p). (p, t)) (params e)) j of
                  Some t \<Rightarrow> accepts h t | None \<Rightarrow> False) (locals e)"
    and sc: "list_all (\<lambda>(t, p). scalar t \<or> map_of (wrapping e) p \<noteq> None) (params e)"
    and args: "arguments (call e) = map (forwarded e) (params e)"
    and shape: "(case call e of
         Linked f xs \<Rightarrow> macro e \<noteq> JNI_GL_DECLARE2
       | Through_pointer pfn h xs \<Rightarrow> macro e = JNI_GL_DECLARE2 \<and> h = ''pfunc'')"
    by (simp_all add: well_formed_def)
  from ty have len: "length vals = length (signature e)"
    by (auto simp: well_typed_def dest: list_all2_lengthD)
  define pars where "pars = zip (map snd (signature e)) vals"
  from dist have d1: "distinct (map (fst \<circ> snd) (locals e))" by simp
  show ?thesis
  proof (cases "call e")
    case (Linked f xs)
    with shape have m: "macro e \<noteq> JNI_GL_DECLARE2" by simp
    then have sig: "signature e = params e"
      by (cases "macro e") (simp_all add: signature_def)
    from m have ow: "own e vals = vals"
      by (cases "macro e") (simp_all add: own_def)
    from dist sig have dn: "distinct (map snd (params e))"
      and d2: "set (map snd (params e)) \<inter> set (map (fst \<circ> snd) (locals e)) = {}" by auto
    have bound: "map_of pars (snd (params e ! i)) = Some (vals ! i)" if "i < length (params e)" for i
      using that dn len sig unfolding pars_def
      by (metis length_map map_of_zip_nth nth_map)
    from ty sig have typed: "list_all2 has_type vals (map fst (params e))"
      by (simp add: well_typed_def)
    from forwarding_core [OF _ bound typed d1 d2 acc sc] len sig
    obtain locs cs where c: "those (map (construct pars) (locals e)) = Some locs"
      "native_arguments e vals = Some cs"
      "those (map (argument pars locs) (map (forwarded e) (params e))) = Some cs"
      by auto
    from Linked args have xs: "xs = map (forwarded e) (params e)" by simp
    have "direct_native_call P e vals w = Some (native P (Symbol f) cs w)"
      using Linked c(2) ow by (simp add: direct_native_call_def destination_def)
    moreover have "invoke P e vals w =
        Some (JNI_TRY_CATCH (returned P (form e)) (native P (Symbol f) cs w))"
      using len c Linked xs unfolding invoke_def pars_def [symmetric] by simp
    ultimately show ?thesis by simp
  next
    case (Through_pointer pfn h xs)
    with shape have m: "macro e = JNI_GL_DECLARE2" and h: "h = ''pfunc''" by simp_all
    then have sig: "signature e = (jlong, ''pfunc'') # params e"
      by (simp add: signature_def)
    from m have ow: "own e vals = tl vals" by (simp add: own_def)
    from len sig obtain v rest where vals: "vals = v # rest"
      by (cases vals) auto
    with ty sig have "has_type v jlong" and typed: "list_all2 has_type rest (map fst (params e))"
      by (simp_all add: well_typed_def)
    then obtain a where v: "v = J_long a" by (cases v) auto
    from len sig vals have len': "length rest = length (params e)" by simp
    from dist sig have dn: "distinct (map snd (params e))"
      and np: "''pfunc'' \<notin> set (map snd (params e))"
      and d2: "set (map snd (params e)) \<inter> set (map (fst \<circ> snd) (locals e)) = {}" by auto
    have pars: "pars = (''pfunc'', J_long a) # zip (map snd (params e)) rest"
      by (simp add: pars_def sig vals v)
    have bound: "map_of pars (snd (params e ! i)) = Some (rest ! i)" if "i < length (params e)" for i
    proof -
      from that np have "snd (params e ! i) \<noteq> ''pfunc''"
        by (metis length_map nth_map nth_mem)
      moreover have "map_of (zip (map snd (params e)) rest) (snd (params e ! i)) = Some (rest ! i)"
        using that dn len' by (metis length_map map_of_zip_nth nth_map)
      ultimately show ?thesis by (simp add: pars)
    qed
    from forwarding_core [OF len' bound typed d1 d2 acc sc]
    obtain locs cs where c: "those (map (construct pars) (locals e)) = Some locs"
      "native_arguments e rest = Some cs"
      "those (map (argument pars locs) (map (forwarded e) (params e))) = Some cs"
      by auto
    from Through_pointer args have xs: "xs = map (forwarded e) (params e)" by simp
    have hd: "map_of pars ''pfunc'' = Some (J_long a)" by (simp add: pars)
    have "direct_native_call P e vals w = Some (native P (Address (toPointer a) pfn) cs w)"
      using Through_pointer c(2) ow vals v by (simp add: direct_native_call_def destination_def)
    moreover have "invoke P e vals w =
        Some (JNI_TRY_CATCH (returned P (form e)) (native P (Address (toPointer a) pfn) cs w))"
      using len c Through_pointer xs h hd unfolding invoke_def pars_def [symmetric] by simp
    ultimately show ?thesis by simp
  qed
qed

lemma all_well_formed: "list_all well_formed entry_points"
  unfolding entry_points_def list_all_append
  by (intro conjI; code_simp)

lemma entry_point_refines:
  assumes "e \<in> set entry_points" and "well_typed e vals"
  shows "\<exists>out. direct_native_call P e vals w = Some out \<and>
           invoke P e vals w = Some (JNI_TRY_CATCH (returned P (form e)) out)"
proof -
  from all_well_formed assms(1) have "well_formed e"
    by (simp add: list_all_iff)
  then show ?thesis
    using assms(2) by (rule invoke_refines)
qed

lemma returned_proper:
  assumes "proper P f r"
  shows "rel_option same (returned P f r) r"
proof (cases f)
  case Plain
  with assms show ?thesis by (simp add: proper_def)
next
  case Return
  with assms obtain i where "r = Some (C_32 i)"
    by (cases r; cases "the r") (simp_all add: proper_def)
  with Return show ?thesis by (simp add: same_def)
next
  case Return_boolean
  with assms have "r = Some (C_8 GL_TRUE) \<or> r = Some (C_8 GL_FALSE)"
    by (simp add: proper_def)
  with Return_boolean show ?thesis
    by (auto simp: same_def GL_TRUE_def GL_FALSE_def JNI_TRUE_def JNI_FALSE_def)
next
  case Return_NewStringUTF
  with assms obtain s where "r = Some (P_chars (Some s))" "NewStringUTF P (Some s) = J_string s"
    by (cases r; cases "the r"; cases "case the r of P_chars p \<Rightarrow> p | _ \<Rightarrow> None")
       (simp_all add: proper_def)
  with Return_NewStringUTF show ?thesis by (simp add: same_def)
qed


lemma logged_final:
  "snd (final_state (JNI_TRY_CATCH k (native (logged P) t cs (w, log)))) = log @ [(t, cs)]"
  by (cases "native P t cs w") (simp_all add: logged_def)

lemma direct_native_callD:
  assumes "direct_native_call P e vals w = Some out"
  shows "\<exists>t cs. destination e vals = Some t \<and> native_arguments e (own e vals) = Some cs \<and>
           out = native P t cs w"
proof -
  from assms obtain t where t: "destination e vals = Some t"
    by (cases "destination e vals") (simp_all add: direct_native_call_def)
  with assms obtain cs where "native_arguments e (own e vals) = Some cs" "out = native P t cs w"
    by (cases "native_arguments e (own e vals)") (auto simp: direct_native_call_def)
  with t show ?thesis by simp
qed


lemma value_returning:
  "map (\<lambda>e. (name e, macro e, form e)) (filter (\<lambda>e. form e \<noteq> Plain) entry_points) =
     [(''glAreTexturesResident'', JNI_GL_DECLARE_RETURN1 jboolean, Return_boolean),
      (''glGenLists'', JNI_GL_DECLARE_RETURN1 jint, Return),
      (''glGetError'', JNI_GL_DECLARE_RETURN0 jint, Return),
      (''glGetString'', JNI_GL_DECLARE_RETURN1 jstring, Return_NewStringUTF),
      (''glIsEnabled'', JNI_GL_DECLARE_RETURN1 jboolean, Return_boolean),
      (''glIsList'', JNI_GL_DECLARE_RETURN1 jboolean, Return_boolean),
      (''glIsTexture'', JNI_GL_DECLARE_RETURN1 jboolean, Return_boolean),
      (''glRenderMode'', JNI_GL_DECLARE_RETURN1 jint, Return)]"
  by code_simp


lemma those_SomeD:
  "those xs = Some ys \<Longrightarrow> length ys = length xs \<and> (\<forall>i<length xs. xs ! i = Some (ys ! i))"
proof (induction xs arbitrary: ys)
  case Nil
  then show ?case by simp
next
  case (Cons x xs)
  from Cons.prems obtain y ys' where x: "x = Some y" and r: "those xs = Some ys'" and ys: "ys = y # ys'"
    by (auto split: option.splits)
  from Cons.IH [OF r] have "length ys' = length xs" "\<forall>i<length xs. xs ! i = Some (ys' ! i)"
    by simp_all
  with x ys show ?case
    by (auto simp: nth_Cons split: nat.splits)
qed

lemma marshal_managed: "marshal h v = Some c \<Longrightarrow> managed c = v"
  by (cases h; cases v) (auto split: if_splits)

lemma pass_managed: "pass v = Some c \<Longrightarrow> scalar t \<Longrightarrow> has_type v t \<Longrightarrow> managed c = v"
  by (cases v) (auto simp: scalar_def)

lemma callee_names:
  "list_all (\<lambda>e. case call e of
       Linked f xs \<Rightarrow> f = base (name e)
     | Through_pointer pfn h xs \<Rightarrow> pfn = ''PFN'' @ map upper (base (name e)) @ ''PROC'') entry_points"
  unfolding entry_points_def list_all_append
  by (intro conjI; code_simp)

lemma native_arguments_views:
  assumes wf: "well_formed e"
    and typed: "list_all2 has_type ovals (map fst (params e))"
    and na: "native_arguments e ovals = Some cs"
  shows "length cs = length ovals \<and>
    (\<forall>i<length ovals. native_view e (params e ! i) (ovals ! i) = Some (cs ! i) \<and>
       managed (cs ! i) = ovals ! i)"
proof -
  from typed have len: "length ovals = length (params e)"
    by (auto dest: list_all2_lengthD)
  from wf have sc: "list_all (\<lambda>(t, p). scalar t \<or> map_of (wrapping e) p \<noteq> None) (params e)"
    by (simp add: well_formed_def)
  from na have th: "those (map2 (native_view e) (params e) ovals) = Some cs"
    by (simp add: native_arguments_def)
  from those_SomeD [OF th] len
  have l: "length cs = length ovals"
    and n: "\<And>i. i < length ovals \<Longrightarrow> native_view e (params e ! i) (ovals ! i) = Some (cs ! i)"
    by simp_all
  have "managed (cs ! i) = ovals ! i" if i: "i < length ovals" for i
  proof (cases "map_of (wrapping e) (snd (params e ! i))")
    case None
    obtain t p where tp: "params e ! i = (t, p)" by (cases "params e ! i")
    with i len have "(t, p) \<in> set (params e)" by (metis nth_mem)
    with sc have "scalar t \<or> map_of (wrapping e) p \<noteq> None"
      by (auto simp: list_all_iff)
    with None tp have s: "scalar t" by simp
    from typed i len tp have ht: "has_type (ovals ! i) t"
      by (auto simp: list_all2_conv_all_nth)
    from n [OF i] None have "pass (ovals ! i) = Some (cs ! i)"
      by (simp add: native_view_def)
    then show ?thesis using s ht by (rule pass_managed)
  next
    case (Some hl)
    obtain h l where "hl = (h, l)" by (cases hl)
    with n [OF i] Some have "marshal h (ovals ! i) = Some (cs ! i)"
      by (simp add: native_view_def)
    then show ?thesis by (rule marshal_managed)
  qed
  with l n show ?thesis by simp
qed

lemma native_view_cases:
  "native_view e p v = Some c \<Longrightarrow> pass v = Some c \<or> (\<exists>h. marshal h v = Some c)"
  by (auto simp: native_view_def split: option.splits)

lemma logged_call:
  assumes "e \<in> set entry_points" and "well_typed e vals"
  shows "\<exists>t cs. destination e vals = Some t \<and> native_arguments e (own e vals) = Some cs \<and>
     invoke (logged P) e vals (w, log) =
       Some (JNI_TRY_CATCH (returned (logged P) (form e)) (native (logged P) t cs (w, log))) \<and>
     snd (final_state (JNI_TRY_CATCH (returned (logged P) (form e)) (native (logged P) t cs (w, log)))) =
       log @ [(t, cs)]"
proof -
  from entry_point_refines [OF assms] obtain lout where
    lboth: "direct_native_call (logged P) e vals (w, log) = Some lout \<and>
      invoke (logged P) e vals (w, log) = Some (JNI_TRY_CATCH (returned (logged P) (form e)) lout)" ..
  from lboth direct_native_callD obtain t cs where
    "destination e vals = Some t" "native_arguments e (own e vals) = Some cs"
    "lout = native (logged P) t cs (w, log)"
    by metis
  with lboth show ?thesis
    by (simp add: logged_final)
qed


lemma extension_functions:
  "map name (filter (\<lambda>e. macro e = JNI_GL_DECLARE2) entry_points) =
     [''glBlendColor'', ''glBlendEquation'', ''glDrawRangeElements__IIIII_3B'',
      ''glDrawRangeElements__IIIII_3I'', ''glDrawRangeElements__IIIII_3S'']"
  by code_simp

lemma logged_call_at:
  assumes "e \<in> set entry_points" and "well_typed e vals"
    and "destination e vals = Some t" and "native_arguments e (own e vals) = Some cs"
  shows "\<exists>res. invoke (logged P) e vals (w, []) = Some res \<and> snd (final_state res) = [(t, cs)]"
proof -
  from logged_call [OF assms(1,2), of P w "[]"] obtain t' cs' where
    l: "destination e vals = Some t'" "native_arguments e (own e vals) = Some cs'"
      "invoke (logged P) e vals (w, []) =
         Some (JNI_TRY_CATCH (returned (logged P) (form e)) (native (logged P) t' cs' (w, [])))"
      "snd (final_state (JNI_TRY_CATCH (returned (logged P) (form e)) (native (logged P) t' cs' (w, [])))) =
         [] @ [(t', cs')]"
    by metis
  from l(1,2) assms(3,4) have "t' = t" "cs' = cs" by simp_all
  with l(3,4) show ?thesis by simp
qed


































lemma unsigned_01:
  "unsigned_declarations entry_points_01 =
   [(''glAreTexturesResident'', JuintArray, ''jtextures''),
    (''glAreTexturesResident'', JubyteArray, ''jresidences''),
    (''glBitmap'', JubyteArray, ''jbitmap'')]"
  unfolding unsigned_declarations_def by code_simp

lemma unsigned_02:
  "unsigned_declarations entry_points_02 =
   []"
  unfolding unsigned_declarations_def by code_simp

lemma unsigned_03:
  "unsigned_declarations entry_points_03 =
   [(''glDeleteTextures'', JuintArray, ''jtextures'')]"
  unfolding unsigned_declarations_def by code_simp

lemma unsigned_04:
  "unsigned_declarations entry_points_04 =
   [(''glEdgeFlagv'', JubyteArray, ''jflag'')]"
  unfolding unsigned_declarations_def by code_simp

lemma unsigned_05:
  "unsigned_declarations entry_points_05 =
   [(''glGenTextures'', JuintArray, ''jtextures''),
    (''glGetBooleanv'', JubyteArray, ''jparams'')]"
  unfolding unsigned_declarations_def by code_simp

lemma unsigned_06:
  "unsigned_declarations entry_points_06 =
   [(''glGetPixelMapuiv'', JuintArray, ''jvalues''),
    (''glGetPixelMapusv'', JushortArray, ''jvalues''),
    (''glGetPolygonStipple'', JubyteArray, ''jmask'')]"
  unfolding unsigned_declarations_def by code_simp

lemma unsigned_07:
  "unsigned_declarations entry_points_07 =
   [(''glIndexubv'', JubyteArray, ''jc'')]"
  unfolding unsigned_declarations_def by code_simp

lemma unsigned_08:
  "unsigned_declarations entry_points_08 =
   []"
  unfolding unsigned_declarations_def by code_simp

lemma unsigned_09:
  "unsigned_declarations entry_points_09 =
   []"
  unfolding unsigned_declarations_def by code_simp

lemma unsigned_10:
  "unsigned_declarations entry_points_10 =
   [(''glPixelMapuiv'', JuintArray, ''jvalues''),
    (''glPixelMapusv'', JushortArray, ''jvalues''),
    (''glPolygonStipple'', JubyteArray, ''jmask'')]"
  unfolding unsigned_declarations_def by code_simp

lemma unsigned_11:
  "unsigned_declarations entry_points_11 =
   [(''glPrioritizeTextures'', JuintArray, ''jtextures'')]"
  unfolding unsigned_declarations_def by code_simp

lemma unsigned_12:
  "unsigned_declarations entry_points_12 =
   []"
  unfolding unsigned_declarations_def by code_simp

lemma unsigned_13:
  "unsigned_declarations entry_points_13 =
   []"
  unfolding unsigned_declarations_def by code_simp

lemma unsigned_14:
  "unsigned_declarations entry_points_14 =
   []"
  unfolding unsigned_declarations_def by code_simp

lemma unsigned_15:
  "unsigned_declarations entry_points_15 =
   []"
  unfolding unsigned_declarations_def by code_simp

lemma unsigned_16:
  "unsigned_declarations entry_points_16 =
   []"
  unfolding unsigned_declarations_def by code_simp

lemma unsigned_17:
  "unsigned_declarations entry_points_17 =
   []"
  unfolding unsigned_declarations_def by code_simp

lemma unsigned_18:
  "unsigned_declarations entry_points_18 =
   []"
  unfolding unsigned_declarations_def by code_simp

lemma unsigned_rows:
  "unsigned_declarations entry_points =
   [(''glAreTexturesResident'', JuintArray, ''jtextures''),
    (''glAreTexturesResident'', JubyteArray, ''jresidences''),
    (''glBitmap'', JubyteArray, ''jbitmap''),
    (''glDeleteTextures'', JuintArray, ''jtextures''),
    (''glEdgeFlagv'', JubyteArray, ''jflag''),
    (''glGenTextures'', JuintArray, ''jtextures''),
    (''glGetBooleanv'', JubyteArray, ''jparams''),
    (''glGetPixelMapuiv'', JuintArray, ''jvalues''),
    (''glGetPixelMapusv'', JushortArray, ''jvalues''),
    (''glGetPolygonStipple'', JubyteArray, ''jmask''),
    (''glIndexubv'', JubyteArray, ''jc''),
    (''glPixelMapuiv'', JuintArray, ''jvalues''),
    (''glPixelMapusv'', JushortArray, ''jvalues''),
    (''glPolygonStipple'', JubyteArray, ''jmask''),
    (''glPrioritizeTextures'', JuintArray, ''jtextures'')]"
proof -
  have "unsigned_declarations (xs @ ys) = unsigned_declarations xs @ unsigned_declarations ys" for xs ys
    by (simp add: unsigned_declarations_def)
  then show ?thesis
    unfolding entry_points_def
    by (simp only: unsigned_01 unsigned_02 unsigned_03 unsigned_04 unsigned_05 unsigned_06 unsigned_07 unsigned_08 unsigned_09 unsigned_10 unsigned_11 unsigned_12 unsigned_13 unsigned_14 unsigned_15 unsigned_16 unsigned_17 unsigned_18 append.simps)
qed

lemma uint_sint_mod: "uint (x :: 'a::len word) = sint x mod 2 ^ LENGTH('a)"
  by (simp add: uint_sint take_bit_eq_mod)

lemma marshal_unsigned:
  assumes "unsigned_width h = Some n" and "marshal h v = Some c"
  shows "native_elements c = map (\<lambda>x. x mod 2 ^ n) (managed_elements v)"
  using assms by (cases h; cases v) (auto simp: uint_sint_mod)

lemma own_typed:
  assumes "well_typed e vals"
  shows "list_all2 has_type (own e vals) (map fst (params e))"
proof (cases "macro e = JNI_GL_DECLARE2")
  case True
  with assms show ?thesis
    by (cases vals) (simp_all add: well_typed_def signature_def own_def)
next
  case False
  then have "signature e = params e" "own e vals = vals"
    by (cases "macro e"; simp add: signature_def own_def)+
  with assms show ?thesis by (simp add: well_typed_def)
qed

lemma bit_mod_power:
  "m < n \<Longrightarrow> bit ((x :: int) mod 2 ^ n) m = bit x m"
  by (simp add: take_bit_eq_mod [symmetric] bit_take_bit_iff)

subsection \<open>C1: an exported function is its native call\<close>

text \<open>
  Claim C1. For every exported entry point, a call with valid arguments is observably
  the direct native call with the same arguments: the same transformation of the native
  state is applied and the same return value is produced. Valid arguments are those on
  which the native function returns, with a result its prototype allows
  (\<^const>\<open>proper\<close>). The direct call is defined for every well-typed call; whenever it
  returns \<open>r\<close>, the storage \<open>bufs\<close> behind its pointer arguments and the state \<open>w'\<close>,
  the exported function returns a value that is the same as \<open>r\<close>, the caller's arrays
  hold \<open>bufs\<close>, and the native state is \<open>w'\<close>.
\<close>

theorem native_call_refinement:
  assumes "e \<in> set entry_points" and "well_typed e vals"
  shows "direct_native_call P e vals w \<noteq> None \<and>
    (\<forall>r bufs w'. direct_native_call P e vals w = Some (Returned r bufs w') \<and> proper P (form e) r \<longrightarrow>
       (\<exists>v. invoke P e vals w = Some (Returns v (map managed bufs) w') \<and> rel_option same v r))"
proof -
  from entry_point_refines [OF assms] obtain out where
    both: "direct_native_call P e vals w = Some out \<and>
      invoke P e vals w = Some (JNI_TRY_CATCH (returned P (form e)) out)" ..
  then have out: "direct_native_call P e vals w = Some out"
      "invoke P e vals w = Some (JNI_TRY_CATCH (returned P (form e)) out)"
    by simp_all
  show ?thesis
  proof (intro conjI allI impI)
    show "direct_native_call P e vals w \<noteq> None" using out(1) by simp
  next
    fix r bufs w'
    assume a: "direct_native_call P e vals w = Some (Returned r bufs w') \<and> proper P (form e) r"
    with out(1) have o: "out = Returned r bufs w'" by simp
    from a have "rel_option same (returned P (form e) r) r" by (simp add: returned_proper)
    moreover have "invoke P e vals w = Some (Returns (returned P (form e) r) (map managed bufs) w')"
      unfolding out(2) o by simp
    ultimately show "\<exists>v. invoke P e vals w = Some (Returns v (map managed bufs) w') \<and> rel_option same v r"
      by (rule_tac x = "returned P (form e) r" in exI) simp
  qed
qed

text \<open>
  The clear-colour scenario of the spec: \<^verbatim>\<open>glClearColor(1.0, 0.0, 0.0, 1.0)\<close> in the
  sample world.
\<close>

theorem native_call_refinement_witness:
  "Entry JNI_GL_DECLARE1 ''glClearColor''
      [(jfloat, ''red''), (jfloat, ''green''), (jfloat, ''blue''), (jfloat, ''alpha'')] []
      Plain (Linked ''glClearColor'' [''red'', ''green'', ''blue'', ''alpha'']) \<in> set entry_points \<and>
   well_typed (Entry JNI_GL_DECLARE1 ''glClearColor''
      [(jfloat, ''red''), (jfloat, ''green''), (jfloat, ''blue''), (jfloat, ''alpha'')] []
      Plain (Linked ''glClearColor'' [''red'', ''green'', ''blue'', ''alpha'']))
      [J_float 0x3F800000, J_float 0, J_float 0, J_float 0x3F800000] \<and>
   direct_native_call sample (Entry JNI_GL_DECLARE1 ''glClearColor''
      [(jfloat, ''red''), (jfloat, ''green''), (jfloat, ''blue''), (jfloat, ''alpha'')] []
      Plain (Linked ''glClearColor'' [''red'', ''green'', ''blue'', ''alpha'']))
      [J_float 0x3F800000, J_float 0, J_float 0, J_float 0x3F800000] black =
     Some (Returned None []
       (black\<lparr>clear_color := [C_f32 0x3F800000, C_f32 0, C_f32 0, C_f32 0x3F800000]\<rparr>)) \<and>
   proper sample Plain None \<and>
   invoke sample (Entry JNI_GL_DECLARE1 ''glClearColor''
      [(jfloat, ''red''), (jfloat, ''green''), (jfloat, ''blue''), (jfloat, ''alpha'')] []
      Plain (Linked ''glClearColor'' [''red'', ''green'', ''blue'', ''alpha'']))
      [J_float 0x3F800000, J_float 0, J_float 0, J_float 0x3F800000] black =
     Some (Returns None []
       (black\<lparr>clear_color := [C_f32 0x3F800000, C_f32 0, C_f32 0, C_f32 0x3F800000]\<rparr>))"
proof -
  define e where "e = Entry JNI_GL_DECLARE1 ''glClearColor''
      [(jfloat, ''red''), (jfloat, ''green''), (jfloat, ''blue''), (jfloat, ''alpha'')] []
      Plain (Linked ''glClearColor'' [''red'', ''green'', ''blue'', ''alpha''])"
  define vals where "vals = [J_float 0x3F800000, J_float 0, J_float 0, J_float 0x3F800000]"
  define w where "w = black\<lparr>clear_color := [C_f32 0x3F800000, C_f32 0, C_f32 0, C_f32 0x3F800000]\<rparr>"
  have mem: "e \<in> set entry_points"
    by (simp add: e_def entry_points_def entry_points_01_def)
  have ty: "well_typed e vals"
    by (simp add: e_def vals_def well_typed_def signature_def)
  have dir: "direct_native_call sample e vals black = Some (Returned None [] w)"
    by (simp add: e_def vals_def w_def direct_native_call_def destination_def native_arguments_def
          native_view_def wrapping_def own_def sample_def sample_native_def)
  have fm: "form e = Plain" by (simp add: e_def)
  have pr: "proper sample Plain None"
    by (simp add: proper_def)
  have "\<exists>v. invoke sample e vals black = Some (Returns v (map managed []) w) \<and> rel_option same v None"
    by (rule native_call_refinement [OF mem ty, of sample black, THEN conjunct2, rule_format])
       (simp add: dir pr fm)
  then have "invoke sample e vals black = Some (Returns None [] w)"
    by auto
  with mem ty dir pr show ?thesis
    unfolding e_def vals_def w_def by simp
qed

subsection \<open>C2: a native fault becomes one runtime fault\<close>

text \<open>
  Claim C2. For every entry point, a fault raised during the wrapped native call is
  caught at the call boundary and re-signaled as exactly one caller-visible runtime
  fault that carries the fault's description; it is translated at the call that raised
  it, never recovered or retried, and the native function is invoked at most once per
  call. In the model: when the native call faults with \<open>msg\<close>, the exported function
  throws \<^verbatim>\<open>RuntimeException\<close> with \<open>msg\<close>; it throws only then; and whatever the native
  call does, the log of native calls grows by exactly one call.
\<close>

theorem fault_translated_once:
  assumes "e \<in> set entry_points" and "well_typed e vals"
  shows "(\<forall>msg bufs w'. direct_native_call P e vals w = Some (Faulted msg bufs w') \<longrightarrow>
            invoke P e vals w = Some (Throws_RuntimeException msg (map managed bufs) w')) \<and>
         (\<forall>msg js w'. invoke P e vals w = Some (Throws_RuntimeException msg js w') \<longrightarrow>
            (\<exists>bufs. direct_native_call P e vals w = Some (Faulted msg bufs w'))) \<and>
         (\<exists>res t cs. invoke (logged P) e vals (w, log) = Some res \<and>
            snd (final_state res) = log @ [(t, cs)])"
proof (intro conjI allI impI)
  from entry_point_refines [OF assms] obtain out where
    both: "direct_native_call P e vals w = Some out \<and>
      invoke P e vals w = Some (JNI_TRY_CATCH (returned P (form e)) out)" ..
  then have out: "direct_native_call P e vals w = Some out"
      "invoke P e vals w = Some (JNI_TRY_CATCH (returned P (form e)) out)"
    by simp_all
  {
    fix msg bufs w'
    assume "direct_native_call P e vals w = Some (Faulted msg bufs w')"
    with out(1) have "out = Faulted msg bufs w'" by simp
    with out(2) show "invoke P e vals w = Some (Throws_RuntimeException msg (map managed bufs) w')"
      by simp
  next
    fix msg js w'
    assume "invoke P e vals w = Some (Throws_RuntimeException msg js w')"
    with out(2) have "JNI_TRY_CATCH (returned P (form e)) out = Throws_RuntimeException msg js w'"
      by simp
    then obtain bufs where "out = Faulted msg bufs w'"
      by (cases out) simp_all
    with out(1) show "\<exists>bufs. direct_native_call P e vals w = Some (Faulted msg bufs w')"
      by simp
  }
  from entry_point_refines [OF assms] obtain lout where
    lboth: "direct_native_call (logged P) e vals (w, log) = Some lout \<and>
      invoke (logged P) e vals (w, log) = Some (JNI_TRY_CATCH (returned (logged P) (form e)) lout)" ..
  from lboth direct_native_callD obtain t cs where "lout = native (logged P) t cs (w, log)"
    by metis
  with lboth have "invoke (logged P) e vals (w, log) =
      Some (JNI_TRY_CATCH (returned (logged P) (form e)) (native (logged P) t cs (w, log)))"
    by simp
  then have "invoke (logged P) e vals (w, log) =
      Some (JNI_TRY_CATCH (returned (logged P) (form e)) (native (logged P) t cs (w, log))) \<and>
    snd (final_state (JNI_TRY_CATCH (returned (logged P) (form e)) (native (logged P) t cs (w, log)))) =
      log @ [(t, cs)]"
    by (simp add: logged_final)
  then show "\<exists>res t cs. invoke (logged P) e vals (w, log) = Some res \<and>
            snd (final_state res) = log @ [(t, cs)]"
    by (intro exI)
qed

text \<open>
  The fault scenario of the spec: a pixel transfer into a buffer that is too small, in
  the sample world, where \<^verbatim>\<open>glReadPixels\<close> faults.
\<close>

theorem fault_translated_once_witness:
  "Entry JNI_GL_DECLARE1 ''glReadPixels__IIIIII_3B''
      [(jint, ''x''), (jint, ''y''), (jint, ''width''), (jint, ''height''), (jint, ''format''),
       (jint, ''type''), (jarray, ''jpixels'')]
      [(JvoidArray, ''pixels'', ''jpixels'')]
      Plain (Linked ''glReadPixels'' [''x'', ''y'', ''width'', ''height'', ''format'', ''type'', ''pixels'']) \<in> set entry_points \<and>
   well_typed (Entry JNI_GL_DECLARE1 ''glReadPixels__IIIIII_3B''
      [(jint, ''x''), (jint, ''y''), (jint, ''width''), (jint, ''height''), (jint, ''format''),
       (jint, ''type''), (jarray, ''jpixels'')]
      [(JvoidArray, ''pixels'', ''jpixels'')]
      Plain (Linked ''glReadPixels'' [''x'', ''y'', ''width'', ''height'', ''format'', ''type'', ''pixels'']))
      [J_int 0, J_int 0, J_int 2, J_int 2, J_int 0x1908, J_int 0x1401, J_byteArray [0]] \<and>
   direct_native_call sample (Entry JNI_GL_DECLARE1 ''glReadPixels__IIIIII_3B''
      [(jint, ''x''), (jint, ''y''), (jint, ''width''), (jint, ''height''), (jint, ''format''),
       (jint, ''type''), (jarray, ''jpixels'')]
      [(JvoidArray, ''pixels'', ''jpixels'')]
      Plain (Linked ''glReadPixels'' [''x'', ''y'', ''width'', ''height'', ''format'', ''type'', ''pixels'']))
      [J_int 0, J_int 0, J_int 2, J_int 2, J_int 0x1908, J_int 0x1401, J_byteArray [0]] black =
     Some (Faulted ''access violation'' [P_void (J_byteArray [0])] black) \<and>
   invoke sample (Entry JNI_GL_DECLARE1 ''glReadPixels__IIIIII_3B''
      [(jint, ''x''), (jint, ''y''), (jint, ''width''), (jint, ''height''), (jint, ''format''),
       (jint, ''type''), (jarray, ''jpixels'')]
      [(JvoidArray, ''pixels'', ''jpixels'')]
      Plain (Linked ''glReadPixels'' [''x'', ''y'', ''width'', ''height'', ''format'', ''type'', ''pixels'']))
      [J_int 0, J_int 0, J_int 2, J_int 2, J_int 0x1908, J_int 0x1401, J_byteArray [0]] black =
     Some (Throws_RuntimeException ''access violation'' [J_byteArray [0]] black)"
proof -
  define e where "e = Entry JNI_GL_DECLARE1 ''glReadPixels__IIIIII_3B''
      [(jint, ''x''), (jint, ''y''), (jint, ''width''), (jint, ''height''), (jint, ''format''),
       (jint, ''type''), (jarray, ''jpixels'')]
      [(JvoidArray, ''pixels'', ''jpixels'')]
      Plain (Linked ''glReadPixels'' [''x'', ''y'', ''width'', ''height'', ''format'', ''type'', ''pixels''])"
  define vals where "vals = [J_int 0, J_int 0, J_int 2, J_int 2, J_int 0x1908, J_int 0x1401, J_byteArray [0]]"
  have mem: "e \<in> set entry_points"
    by (simp add: e_def entry_points_def entry_points_12_def)
  have ty: "well_typed e vals"
    by (simp add: e_def vals_def well_typed_def signature_def)
  have dir: "direct_native_call sample e vals black =
      Some (Faulted ''access violation'' [P_void (J_byteArray [0])] black)"
    by (simp add: e_def vals_def direct_native_call_def destination_def native_arguments_def
          native_view_def wrapping_def own_def sample_def sample_native_def)
  have "invoke sample e vals black =
      Some (Throws_RuntimeException ''access violation'' (map managed [P_void (J_byteArray [0])]) black)"
    by (rule fault_translated_once [OF mem ty, of sample black, THEN conjunct1, rule_format])
       (rule dir)
  then have "invoke sample e vals black =
      Some (Throws_RuntimeException ''access violation'' [J_byteArray [0]] black)"
    by simp
  with mem ty dir show ?thesis
    unfolding e_def vals_def by simp
qed

subsection \<open>C3: how return values come back\<close>

text \<open>
  Claim C3. For every value-returning entry point: native integer and enum returns
  (\<^verbatim>\<open>glGenLists\<close>, \<^verbatim>\<open>glGetError\<close>, \<^verbatim>\<open>glRenderMode\<close>) pass through unchanged; native
  boolean returns (\<^verbatim>\<open>glAreTexturesResident\<close>, \<^verbatim>\<open>glIsEnabled\<close>, \<^verbatim>\<open>glIsList\<close>,
  \<^verbatim>\<open>glIsTexture\<close>) yield the caller's true exactly when the native call returns
  \<^verbatim>\<open>GL_TRUE\<close>, and false otherwise; the string that \<^verbatim>\<open>glGetString\<close> returns is copied
  into a new string value of the caller (the runtime's \<^verbatim>\<open>NewStringUTF\<close> making a Java
  string of a C string). The last conjunct lists the value-returning functions of the
  source with their declared return type and their return statement: there are no
  others.
\<close>

theorem return_value_mapping:
  assumes "e \<in> set entry_points" and "well_typed e vals"
    and "direct_native_call P e vals w = Some (Returned r bufs w')"
  shows "(form e = Return \<longrightarrow> (\<forall>i. r = Some (C_32 i) \<longrightarrow>
            invoke P e vals w = Some (Returns (Some (J_int i)) (map managed bufs) w'))) \<and>
         (form e = Return_boolean \<longrightarrow> (\<forall>b. r = Some (C_8 b) \<longrightarrow>
            invoke P e vals w =
              Some (Returns (Some (J_boolean (if b = GL_TRUE then JNI_TRUE else JNI_FALSE)))
                (map managed bufs) w'))) \<and>
         (form e = Return_NewStringUTF \<longrightarrow>
            (\<forall>s. r = Some (P_chars (Some s)) \<and> NewStringUTF P (Some s) = J_string s \<longrightarrow>
               invoke P e vals w = Some (Returns (Some (J_string s)) (map managed bufs) w'))) \<and>
         JNI_TRUE \<noteq> JNI_FALSE \<and>
         map (\<lambda>e. (name e, macro e, form e)) (filter (\<lambda>e. form e \<noteq> Plain) entry_points) =
           [(''glAreTexturesResident'', JNI_GL_DECLARE_RETURN1 jboolean, Return_boolean),
            (''glGenLists'', JNI_GL_DECLARE_RETURN1 jint, Return),
            (''glGetError'', JNI_GL_DECLARE_RETURN0 jint, Return),
            (''glGetString'', JNI_GL_DECLARE_RETURN1 jstring, Return_NewStringUTF),
            (''glIsEnabled'', JNI_GL_DECLARE_RETURN1 jboolean, Return_boolean),
            (''glIsList'', JNI_GL_DECLARE_RETURN1 jboolean, Return_boolean),
            (''glIsTexture'', JNI_GL_DECLARE_RETURN1 jboolean, Return_boolean),
            (''glRenderMode'', JNI_GL_DECLARE_RETURN1 jint, Return)]"
proof -
  from entry_point_refines [OF assms(1,2)] obtain out where
    both: "direct_native_call P e vals w = Some out \<and>
      invoke P e vals w = Some (JNI_TRY_CATCH (returned P (form e)) out)" ..
  with assms(3) have inv: "invoke P e vals w =
      Some (Returns (returned P (form e) r) (map managed bufs) w')"
    by simp
  have 1: "form e = Return \<longrightarrow> (\<forall>i. r = Some (C_32 i) \<longrightarrow>
            invoke P e vals w = Some (Returns (Some (J_int i)) (map managed bufs) w'))"
    by (simp add: inv)
  have 2: "form e = Return_boolean \<longrightarrow> (\<forall>b. r = Some (C_8 b) \<longrightarrow>
            invoke P e vals w =
              Some (Returns (Some (J_boolean (if b = GL_TRUE then JNI_TRUE else JNI_FALSE)))
                (map managed bufs) w'))"
    by (simp add: inv)
  have 3: "form e = Return_NewStringUTF \<longrightarrow>
            (\<forall>s. r = Some (P_chars (Some s)) \<and> NewStringUTF P (Some s) = J_string s \<longrightarrow>
               invoke P e vals w = Some (Returns (Some (J_string s)) (map managed bufs) w'))"
    by (simp add: inv)
  have 4: "JNI_TRUE \<noteq> JNI_FALSE"
    by (simp add: JNI_TRUE_def JNI_FALSE_def)
  from 1 2 3 4 value_returning show ?thesis
    by (intro conjI)
qed

text \<open>\<^verbatim>\<open>glIsEnabled(GL_DEPTH_TEST)\<close> in the sample world, where it is enabled.\<close>

theorem return_value_mapping_witness:
  "Entry (JNI_GL_DECLARE_RETURN1 jboolean) ''glIsEnabled'' [(jint, ''cap'')] []
      Return_boolean (Linked ''glIsEnabled'' [''cap'']) \<in> set entry_points \<and>
   well_typed (Entry (JNI_GL_DECLARE_RETURN1 jboolean) ''glIsEnabled'' [(jint, ''cap'')] []
      Return_boolean (Linked ''glIsEnabled'' [''cap''])) [J_int 0x0B71] \<and>
   direct_native_call sample (Entry (JNI_GL_DECLARE_RETURN1 jboolean) ''glIsEnabled'' [(jint, ''cap'')] []
      Return_boolean (Linked ''glIsEnabled'' [''cap''])) [J_int 0x0B71] black =
     Some (Returned (Some (C_8 GL_TRUE)) [] black) \<and>
   invoke sample (Entry (JNI_GL_DECLARE_RETURN1 jboolean) ''glIsEnabled'' [(jint, ''cap'')] []
      Return_boolean (Linked ''glIsEnabled'' [''cap''])) [J_int 0x0B71] black =
     Some (Returns (Some (J_boolean JNI_TRUE)) [] black)"
proof -
  define e where "e = Entry (JNI_GL_DECLARE_RETURN1 jboolean) ''glIsEnabled'' [(jint, ''cap'')] []
      Return_boolean (Linked ''glIsEnabled'' [''cap''])"
  have mem: "e \<in> set entry_points"
    by (simp add: e_def entry_points_def entry_points_07_def)
  have ty: "well_typed e [J_int 0x0B71]"
    by (simp add: e_def well_typed_def signature_def)
  have dir: "direct_native_call sample e [J_int 0x0B71] black =
      Some (Returned (Some (C_8 GL_TRUE)) [] black)"
    by (simp add: e_def direct_native_call_def destination_def native_arguments_def
          native_view_def wrapping_def own_def sample_def sample_native_def)
  have fm: "form e = Return_boolean" by (simp add: e_def)
  have "invoke sample e [J_int 0x0B71] black =
      Some (Returns (Some (J_boolean (if GL_TRUE = GL_TRUE then JNI_TRUE else JNI_FALSE)))
        (map managed []) black)"
    by (rule return_value_mapping [OF mem ty dir, THEN conjunct2, THEN conjunct1, rule_format])
       (simp_all add: fm)
  then have "invoke sample e [J_int 0x0B71] black = Some (Returns (Some (J_boolean JNI_TRUE)) [] black)"
    by simp
  with mem ty dir show ?thesis
    unfolding e_def by simp
qed

subsection \<open>C4: arguments are forwarded in order, as they are\<close>

text \<open>
  Claim C4. For every direct entry point, the received arguments are forwarded to the
  corresponding native function positionally, in the same order, with no additional
  validation, range check or value transformation by the binding before dispatch; array
  and buffer parameters are replaced by their marshaled raw views. In the model: for
  every direct entry point and every well-typed list of values, exactly one native call
  is logged; it goes to the function the entry point is named after, and its \<open>i\<close>-th
  argument is the \<open>i\<close>-th value, passed by value or as the view a helper gives of it,
  and reads back as that value. No value is rejected: the call is made for all of them.
\<close>

theorem arguments_forwarded_in_order:
  assumes "e \<in> set entry_points" and "macro e \<noteq> JNI_GL_DECLARE2" and "well_typed e vals"
  shows "\<exists>cs res. native_arguments e vals = Some cs \<and> length cs = length vals \<and>
     (\<forall>i<length vals.
        (pass (vals ! i) = Some (cs ! i) \<or> (\<exists>h. marshal h (vals ! i) = Some (cs ! i))) \<and>
        managed (cs ! i) = vals ! i) \<and>
     invoke (logged P) e vals (w, []) = Some res \<and>
     snd (final_state res) = [(Symbol (base (name e)), cs)]"
proof -
  from all_well_formed assms(1) have wf: "well_formed e"
    by (simp add: list_all_iff)
  from assms(2) have sig: "signature e = params e" and ow: "own e vals = vals"
    by (cases "macro e"; simp add: signature_def own_def)+
  from wf assms(2) obtain f xs where c: "call e = Linked f xs"
    by (cases "call e") (simp_all add: well_formed_def)
  from callee_names assms(1) c have f: "f = base (name e)"
    by (auto simp: list_all_iff)
  from logged_call [OF assms(1,3), of P w "[]"] obtain t cs where
    l: "destination e vals = Some t" "native_arguments e (own e vals) = Some cs"
      "invoke (logged P) e vals (w, []) =
         Some (JNI_TRY_CATCH (returned (logged P) (form e)) (native (logged P) t cs (w, [])))"
      "snd (final_state (JNI_TRY_CATCH (returned (logged P) (form e)) (native (logged P) t cs (w, [])))) =
         [] @ [(t, cs)]"
    by metis
  from l(1) c f have t: "t = Symbol (base (name e))"
    by (simp add: destination_def)
  from l(2) ow have na: "native_arguments e vals = Some cs" by simp
  from assms(3) sig have typed: "list_all2 has_type vals (map fst (params e))"
    by (simp add: well_typed_def)
  from native_arguments_views [OF wf typed na]
  have v: "length cs = length vals"
    "\<And>i. i < length vals \<Longrightarrow> native_view e (params e ! i) (vals ! i) = Some (cs ! i)"
    "\<And>i. i < length vals \<Longrightarrow> managed (cs ! i) = vals ! i"
    by simp_all
  have "\<forall>i<length vals.
        (pass (vals ! i) = Some (cs ! i) \<or> (\<exists>h. marshal h (vals ! i) = Some (cs ! i))) \<and>
        managed (cs ! i) = vals ! i"
    using v(2,3) native_view_cases by metis
  with na v(1) l(3,4) t show ?thesis
    by (intro exI [of _ cs] exI [of _ "JNI_TRY_CATCH (returned (logged P) (form e)) (native (logged P) t cs (w, []))"]) simp
qed

text \<open>\<^verbatim>\<open>glBitmap\<close> with an 8 by 1 bitmap, in the sample world.\<close>

theorem arguments_forwarded_in_order_witness:
  "Entry JNI_GL_DECLARE1 ''glBitmap''
      [(jint, ''width''), (jint, ''height''), (jfloat, ''xorig''), (jfloat, ''yorig''),
       (jfloat, ''xmove''), (jfloat, ''ymove''), (jbyteArray, ''jbitmap'')]
      [(JubyteArray, ''bitmap'', ''jbitmap'')]
      Plain (Linked ''glBitmap''
        [''width'', ''height'', ''xorig'', ''yorig'', ''xmove'', ''ymove'', ''bitmap'']) \<in> set entry_points \<and>
   macro (Entry JNI_GL_DECLARE1 ''glBitmap''
      [(jint, ''width''), (jint, ''height''), (jfloat, ''xorig''), (jfloat, ''yorig''),
       (jfloat, ''xmove''), (jfloat, ''ymove''), (jbyteArray, ''jbitmap'')]
      [(JubyteArray, ''bitmap'', ''jbitmap'')]
      Plain (Linked ''glBitmap''
        [''width'', ''height'', ''xorig'', ''yorig'', ''xmove'', ''ymove'', ''bitmap''])) \<noteq> JNI_GL_DECLARE2 \<and>
   well_typed (Entry JNI_GL_DECLARE1 ''glBitmap''
      [(jint, ''width''), (jint, ''height''), (jfloat, ''xorig''), (jfloat, ''yorig''),
       (jfloat, ''xmove''), (jfloat, ''ymove''), (jbyteArray, ''jbitmap'')]
      [(JubyteArray, ''bitmap'', ''jbitmap'')]
      Plain (Linked ''glBitmap''
        [''width'', ''height'', ''xorig'', ''yorig'', ''xmove'', ''ymove'', ''bitmap'']))
      [J_int 8, J_int 1, J_float 0, J_float 0, J_float 0x41000000, J_float 0, J_byteArray [0xFF]] \<and>
   (\<exists>res. invoke (logged sample) (Entry JNI_GL_DECLARE1 ''glBitmap''
      [(jint, ''width''), (jint, ''height''), (jfloat, ''xorig''), (jfloat, ''yorig''),
       (jfloat, ''xmove''), (jfloat, ''ymove''), (jbyteArray, ''jbitmap'')]
      [(JubyteArray, ''bitmap'', ''jbitmap'')]
      Plain (Linked ''glBitmap''
        [''width'', ''height'', ''xorig'', ''yorig'', ''xmove'', ''ymove'', ''bitmap'']))
      [J_int 8, J_int 1, J_float 0, J_float 0, J_float 0x41000000, J_float 0, J_byteArray [0xFF]] (black, []) = Some res \<and>
     snd (final_state res) =
       [(Symbol ''glBitmap'', [C_32 8, C_32 1, C_f32 0, C_f32 0, C_f32 0x41000000, C_f32 0, P_ubyte [0xFF]])])"
proof -
  define e where "e = Entry JNI_GL_DECLARE1 ''glBitmap''
      [(jint, ''width''), (jint, ''height''), (jfloat, ''xorig''), (jfloat, ''yorig''),
       (jfloat, ''xmove''), (jfloat, ''ymove''), (jbyteArray, ''jbitmap'')]
      [(JubyteArray, ''bitmap'', ''jbitmap'')]
      Plain (Linked ''glBitmap''
        [''width'', ''height'', ''xorig'', ''yorig'', ''xmove'', ''ymove'', ''bitmap''])"
  define vals where "vals = [J_int 8, J_int 1, J_float 0, J_float 0, J_float 0x41000000, J_float 0, J_byteArray [0xFF]]"
  have mem: "e \<in> set entry_points"
    by (simp add: e_def entry_points_def entry_points_01_def)
  have mac: "macro e \<noteq> JNI_GL_DECLARE2"
    by (simp add: e_def)
  have ty: "well_typed e vals"
    by (simp add: e_def vals_def well_typed_def signature_def)
  have na: "native_arguments e vals = Some [C_32 8, C_32 1, C_f32 0, C_f32 0, C_f32 0x41000000, C_f32 0, P_ubyte [0xFF]]"
    by (simp add: e_def vals_def native_arguments_def native_view_def wrapping_def)
  have nm: "base (name e) = ''glBitmap''"
    by (simp add: e_def)
  from arguments_forwarded_in_order [OF mem mac ty, of sample black] obtain cs res where
    r: "native_arguments e vals = Some cs"
      "invoke (logged sample) e vals (black, []) = Some res"
      "snd (final_state res) = [(Symbol (base (name e)), cs)]"
    by metis
  from r(1) na have "cs = [C_32 8, C_32 1, C_f32 0, C_f32 0, C_f32 0x41000000, C_f32 0, P_ubyte [0xFF]]" by simp
  with r(2,3) nm have "\<exists>res. invoke (logged sample) e vals (black, []) = Some res \<and>
     snd (final_state res) = [(Symbol ''glBitmap'', [C_32 8, C_32 1, C_f32 0, C_f32 0, C_f32 0x41000000, C_f32 0, P_ubyte [0xFF]])]"
    by simp
  with mem mac ty show ?thesis
    unfolding e_def vals_def by simp
qed

subsection \<open>C5: extension functions are called through the handle\<close>

text \<open>
  Claim C5. Every extension entry point takes the resolved function address as its first
  parameter, before the native function's own arguments; the binding reinterprets that
  integer-sized handle as a function pointer of the exact expected signature and invokes
  it, with no resolution, caching or validation of the handle. In the model: the
  signature of every \<^verbatim>\<open>JNI_GL_DECLARE2\<close> function starts with \<^verbatim>\<open>jlong pfunc\<close>; for every
  handle \<open>a\<close> and every well-typed list of own values, exactly one native call is logged:
  the call of the address \<open>a\<close> at the \<^verbatim>\<open>PFN...PROC\<close> signature of the function the entry
  point is named after, with the own values in order. The last conjunct lists the
  extension functions of the source.
\<close>

theorem extension_called_through_handle:
  assumes "e \<in> set entry_points" and "macro e = JNI_GL_DECLARE2" and "well_typed e vals"
  shows "signature e = (jlong, ''pfunc'') # params e \<and>
     (\<exists>a rest cs res. vals = J_long a # rest \<and> native_arguments e rest = Some cs \<and>
        invoke (logged P) e vals (w, []) = Some res \<and>
        snd (final_state res) =
          [(Address a (''PFN'' @ map upper (base (name e)) @ ''PROC''), cs)]) \<and>
     map name (filter (\<lambda>e. macro e = JNI_GL_DECLARE2) entry_points) =
       [''glBlendColor'', ''glBlendEquation'', ''glDrawRangeElements__IIIII_3B'',
        ''glDrawRangeElements__IIIII_3I'', ''glDrawRangeElements__IIIII_3S'']"
proof -
  from all_well_formed assms(1) have wf: "well_formed e"
    by (simp add: list_all_iff)
  from assms(2) have sig: "signature e = (jlong, ''pfunc'') # params e"
    and ow: "own e vals = tl vals"
    by (simp_all add: signature_def own_def)
  from wf assms(2) obtain pfn h xs where c: "call e = Through_pointer pfn h xs"
    by (cases "call e") (simp_all add: well_formed_def)
  from callee_names assms(1) c have pfn: "pfn = ''PFN'' @ map upper (base (name e)) @ ''PROC''"
    by (auto simp: list_all_iff)
  from assms(3) sig obtain v rest where vals: "vals = v # rest" and "has_type v jlong"
    by (cases vals) (simp_all add: well_typed_def)
  then obtain a where v: "v = J_long a" by (cases v) auto
  from logged_call [OF assms(1,3), of P w "[]"] obtain t cs where
    l: "destination e vals = Some t" "native_arguments e (own e vals) = Some cs"
      "invoke (logged P) e vals (w, []) =
         Some (JNI_TRY_CATCH (returned (logged P) (form e)) (native (logged P) t cs (w, [])))"
      "snd (final_state (JNI_TRY_CATCH (returned (logged P) (form e)) (native (logged P) t cs (w, [])))) =
         [] @ [(t, cs)]"
    by metis
  from l(1) c pfn vals v have t: "t = Address a (''PFN'' @ map upper (base (name e)) @ ''PROC'')"
    by (simp add: destination_def toPointer_def)
  from l(2) ow vals have na: "native_arguments e rest = Some cs" by simp
  have "\<exists>a rest cs res. vals = J_long a # rest \<and> native_arguments e rest = Some cs \<and>
        invoke (logged P) e vals (w, []) = Some res \<and>
        snd (final_state res) =
          [(Address a (''PFN'' @ map upper (base (name e)) @ ''PROC''), cs)]"
    using vals v na l(3,4) t
    by (intro exI [of _ a] exI [of _ rest] exI [of _ cs]
          exI [of _ "JNI_TRY_CATCH (returned (logged P) (form e)) (native (logged P) t cs (w, []))"])
       simp
  with sig extension_functions show ?thesis
    by (intro conjI)
qed

text \<open>\<^verbatim>\<open>nglBlendColor\<close> with a handle and half-transparent red, in the sample world.\<close>

theorem extension_called_through_handle_witness:
  "Entry JNI_GL_DECLARE2 ''glBlendColor''
      [(jfloat, ''red''), (jfloat, ''green''), (jfloat, ''blue''), (jfloat, ''alpha'')] []
      Plain (Through_pointer ''PFNGLBLENDCOLORPROC'' ''pfunc'' [''red'', ''green'', ''blue'', ''alpha'']) \<in> set entry_points \<and>
   macro (Entry JNI_GL_DECLARE2 ''glBlendColor''
      [(jfloat, ''red''), (jfloat, ''green''), (jfloat, ''blue''), (jfloat, ''alpha'')] []
      Plain (Through_pointer ''PFNGLBLENDCOLORPROC'' ''pfunc'' [''red'', ''green'', ''blue'', ''alpha''])) = JNI_GL_DECLARE2 \<and>
   well_typed (Entry JNI_GL_DECLARE2 ''glBlendColor''
      [(jfloat, ''red''), (jfloat, ''green''), (jfloat, ''blue''), (jfloat, ''alpha'')] []
      Plain (Through_pointer ''PFNGLBLENDCOLORPROC'' ''pfunc'' [''red'', ''green'', ''blue'', ''alpha'']))
      [J_long 0x7F0000001000, J_float 0x3F000000, J_float 0, J_float 0, J_float 0x3F800000] \<and>
   signature (Entry JNI_GL_DECLARE2 ''glBlendColor''
      [(jfloat, ''red''), (jfloat, ''green''), (jfloat, ''blue''), (jfloat, ''alpha'')] []
      Plain (Through_pointer ''PFNGLBLENDCOLORPROC'' ''pfunc'' [''red'', ''green'', ''blue'', ''alpha''])) =
     [(jlong, ''pfunc''), (jfloat, ''red''), (jfloat, ''green''), (jfloat, ''blue''), (jfloat, ''alpha'')] \<and>
   (\<exists>res. invoke (logged sample) (Entry JNI_GL_DECLARE2 ''glBlendColor''
      [(jfloat, ''red''), (jfloat, ''green''), (jfloat, ''blue''), (jfloat, ''alpha'')] []
      Plain (Through_pointer ''PFNGLBLENDCOLORPROC'' ''pfunc'' [''red'', ''green'', ''blue'', ''alpha'']))
      [J_long 0x7F0000001000, J_float 0x3F000000, J_float 0, J_float 0, J_float 0x3F800000] (black, []) = Some res \<and>
     snd (final_state res) =
       [(Address 0x7F0000001000 ''PFNGLBLENDCOLORPROC'', [C_f32 0x3F000000, C_f32 0, C_f32 0, C_f32 0x3F800000])])"
proof -
  define e where "e = Entry JNI_GL_DECLARE2 ''glBlendColor''
      [(jfloat, ''red''), (jfloat, ''green''), (jfloat, ''blue''), (jfloat, ''alpha'')] []
      Plain (Through_pointer ''PFNGLBLENDCOLORPROC'' ''pfunc'' [''red'', ''green'', ''blue'', ''alpha''])"
  define vals where "vals = [J_long 0x7F0000001000, J_float 0x3F000000, J_float 0, J_float 0, J_float 0x3F800000]"
  have mem: "e \<in> set entry_points"
    by (simp add: e_def entry_points_def entry_points_18_def)
  have mac: "macro e = JNI_GL_DECLARE2"
    by (simp add: e_def)
  have ty: "well_typed e vals"
    by (simp add: e_def vals_def well_typed_def signature_def)
  have na: "native_arguments e (tl vals) = Some [C_f32 0x3F000000, C_f32 0, C_f32 0, C_f32 0x3F800000]"
    by (simp add: e_def vals_def native_arguments_def native_view_def wrapping_def)
  have nm: "''PFN'' @ map upper (base (name e)) @ ''PROC'' = ''PFNGLBLENDCOLORPROC''"
    unfolding e_def by code_simp
  have pa: "params e = [(jfloat, ''red''), (jfloat, ''green''), (jfloat, ''blue''), (jfloat, ''alpha'')]"
    by (simp add: e_def)
  from extension_called_through_handle [OF mem mac ty, of sample black] obtain a rest cs res where
    r: "signature e = (jlong, ''pfunc'') # params e"
      "vals = J_long a # rest" "native_arguments e rest = Some cs"
      "invoke (logged sample) e vals (black, []) = Some res"
      "snd (final_state res) = [(Address a (''PFN'' @ map upper (base (name e)) @ ''PROC''), cs)]"
    by metis
  from r(2) have a: "a = 0x7F0000001000" and rest: "rest = tl vals"
    by (simp_all add: vals_def)
  from r(3) rest na have cs: "cs = [C_f32 0x3F000000, C_f32 0, C_f32 0, C_f32 0x3F800000]" by simp
  from r(4,5) a cs nm have "\<exists>res. invoke (logged sample) e vals (black, []) = Some res \<and>
     snd (final_state res) = [(Address 0x7F0000001000 ''PFNGLBLENDCOLORPROC'', [C_f32 0x3F000000, C_f32 0, C_f32 0, C_f32 0x3F800000])]"
    by simp
  moreover from r(1) pa have "signature e =
     [(jlong, ''pfunc''), (jfloat, ''red''), (jfloat, ''green''), (jfloat, ''blue''), (jfloat, ''alpha'')]"
    by simp
  ultimately show ?thesis
    using mem mac ty unfolding e_def vals_def by simp
qed

subsection \<open>C6: one exported symbol per overload\<close>



subsection \<open>C7: unsigned arrays are the same bits\<close>

text \<open>
  Claim C7. Where the native signature requires an unsigned array element type (the
  texture names of \<^verbatim>\<open>glGenTextures\<close>, \<^verbatim>\<open>glDeleteTextures\<close>, \<^verbatim>\<open>glAreTexturesResident\<close>
  and \<^verbatim>\<open>glPrioritizeTextures\<close>, the unsigned shorts of \<^verbatim>\<open>glPixelMapusv\<close>), the signed
  managed array is marshaled by bit-preserving reinterpretation at the matching width,
  not by numeric conversion. In the model: take any entry point, any well-typed call of
  it and any parameter \<open>i\<close> that the body declares with an unsigned helper \<open>h\<close> of width
  \<open>n\<close>. The call makes exactly one native call, and the \<open>i\<close>-th argument the library
  receives in it is the view \<open>h\<close> gives of the \<open>i\<close>-th value: each element the library
  reads is the managed element modulo \<open>2 ^ n\<close>, its bits below \<open>n\<close> are those of the
  managed element, and the view reads back as the managed array. The last conjunct
  lists every such declaration of the source.
\<close>

theorem unsigned_arrays_reinterpreted:
  assumes "e \<in> set entry_points" and "well_typed e vals"
    and "i < length (params e)"
    and "map_of (wrapping e) (snd (params e ! i)) = Some (h, l)"
    and "unsigned_width h = Some n"
  shows "(\<exists>t cs res. invoke (logged P) e vals (w, []) = Some res \<and>
           snd (final_state res) = [(t, cs)] \<and>
           marshal h (own e vals ! i) = Some (cs ! i) \<and>
           native_elements (cs ! i) = map (\<lambda>x. x mod 2 ^ n) (managed_elements (own e vals ! i)) \<and>
           list_all2 (\<lambda>y x. \<forall>m<n. bit y m = bit x m)
             (native_elements (cs ! i)) (managed_elements (own e vals ! i)) \<and>
           managed (cs ! i) = own e vals ! i) \<and>
         unsigned_declarations entry_points =
           [(''glAreTexturesResident'', JuintArray, ''jtextures''),
      (''glAreTexturesResident'', JubyteArray, ''jresidences''),
      (''glBitmap'', JubyteArray, ''jbitmap''),
      (''glDeleteTextures'', JuintArray, ''jtextures''),
      (''glEdgeFlagv'', JubyteArray, ''jflag''),
      (''glGenTextures'', JuintArray, ''jtextures''),
      (''glGetBooleanv'', JubyteArray, ''jparams''),
      (''glGetPixelMapuiv'', JuintArray, ''jvalues''),
      (''glGetPixelMapusv'', JushortArray, ''jvalues''),
      (''glGetPolygonStipple'', JubyteArray, ''jmask''),
      (''glIndexubv'', JubyteArray, ''jc''),
      (''glPixelMapuiv'', JuintArray, ''jvalues''),
      (''glPixelMapusv'', JushortArray, ''jvalues''),
      (''glPolygonStipple'', JubyteArray, ''jmask''),
      (''glPrioritizeTextures'', JuintArray, ''jtextures'')]"
proof -
  from all_well_formed assms(1) have wf: "well_formed e"
    by (simp add: list_all_iff)
  from logged_call [OF assms(1,2), of P w "[]"] obtain t cs where
    na: "native_arguments e (own e vals) = Some cs"
    and inv: "invoke (logged P) e vals (w, []) =
         Some (JNI_TRY_CATCH (returned (logged P) (form e)) (native (logged P) t cs (w, [])))"
    and lg: "snd (final_state (JNI_TRY_CATCH (returned (logged P) (form e))
         (native (logged P) t cs (w, [])))) = [] @ [(t, cs)]"
    by metis
  have typed: "list_all2 has_type (own e vals) (map fst (params e))"
    using assms(2) by (rule own_typed)
  then have len: "length (own e vals) = length (params e)"
    by (auto dest: list_all2_lengthD)
  from native_arguments_views [OF wf typed na] assms(3) len
  have v: "native_view e (params e ! i) (own e vals ! i) = Some (cs ! i)"
    and m: "managed (cs ! i) = own e vals ! i"
    by simp_all
  from v assms(4) have ms: "marshal h (own e vals ! i) = Some (cs ! i)"
    by (simp add: native_view_def)
  with assms(5) have el: "native_elements (cs ! i) =
      map (\<lambda>x. x mod 2 ^ n) (managed_elements (own e vals ! i))"
    by (rule marshal_unsigned)
  have "list_all2 (\<lambda>y x. \<forall>m<n. bit y m = bit x m)
          (map (\<lambda>x. x mod 2 ^ n) xs) xs" for xs :: "int list"
    by (simp add: list_all2_conv_all_nth bit_mod_power)
  with el have bits: "list_all2 (\<lambda>y x. \<forall>m<n. bit y m = bit x m)
             (native_elements (cs ! i)) (managed_elements (own e vals ! i))"
    by simp
  from lg have lg': "snd (final_state (JNI_TRY_CATCH (returned (logged P) (form e))
         (native (logged P) t cs (w, [])))) = [(t, cs)]"
    by simp
  from inv lg' ms el bits m
  have "\<exists>t cs res. invoke (logged P) e vals (w, []) = Some res \<and>
           snd (final_state res) = [(t, cs)] \<and>
           marshal h (own e vals ! i) = Some (cs ! i) \<and>
           native_elements (cs ! i) = map (\<lambda>x. x mod 2 ^ n) (managed_elements (own e vals ! i)) \<and>
           list_all2 (\<lambda>y x. \<forall>m<n. bit y m = bit x m)
             (native_elements (cs ! i)) (managed_elements (own e vals ! i)) \<and>
           managed (cs ! i) = own e vals ! i"
    by (intro exI [of _ t] exI [of _ cs]
          exI [of _ "JNI_TRY_CATCH (returned (logged P) (form e)) (native (logged P) t cs (w, []))"]
          conjI)
  with unsigned_rows show ?thesis
    by (intro conjI)
qed

text \<open>
  \<^verbatim>\<open>glDeleteTextures\<close> with the names \<open>-1\<close> and \<open>5\<close>, in the sample world: the library
  receives \<open>4294967295\<close> and \<open>5\<close>.
\<close>

theorem unsigned_arrays_reinterpreted_witness:
  "Entry JNI_GL_DECLARE1 ''glDeleteTextures''
      [(jint, ''n''), (jintArray, ''jtextures'')]
      [(JuintArray, ''textures'', ''jtextures'')]
      Plain (Linked ''glDeleteTextures'' [''n'', ''textures'']) \<in> set entry_points \<and>
   well_typed (Entry JNI_GL_DECLARE1 ''glDeleteTextures''
      [(jint, ''n''), (jintArray, ''jtextures'')]
      [(JuintArray, ''textures'', ''jtextures'')]
      Plain (Linked ''glDeleteTextures'' [''n'', ''textures''])) [J_int 2, J_intArray [0xFFFFFFFF, 5]] \<and>
   map_of (wrapping (Entry JNI_GL_DECLARE1 ''glDeleteTextures''
      [(jint, ''n''), (jintArray, ''jtextures'')]
      [(JuintArray, ''textures'', ''jtextures'')]
      Plain (Linked ''glDeleteTextures'' [''n'', ''textures'']))) ''jtextures'' = Some (JuintArray, ''textures'') \<and>
   unsigned_width JuintArray = Some 32 \<and>
   (\<exists>res. invoke (logged sample) (Entry JNI_GL_DECLARE1 ''glDeleteTextures''
      [(jint, ''n''), (jintArray, ''jtextures'')]
      [(JuintArray, ''textures'', ''jtextures'')]
      Plain (Linked ''glDeleteTextures'' [''n'', ''textures''])) [J_int 2, J_intArray [0xFFFFFFFF, 5]] (black, []) = Some res \<and>
      snd (final_state res) = [(Symbol ''glDeleteTextures'', [C_32 2, P_uint [0xFFFFFFFF, 5]])]) \<and>
   managed_elements (J_intArray [0xFFFFFFFF, 5]) = [- 1, 5] \<and>
   native_elements (P_uint [0xFFFFFFFF, 5]) = [4294967295, 5] \<and>
   native_elements (P_uint [0xFFFFFFFF, 5]) =
     map (\<lambda>x. x mod 2 ^ 32) (managed_elements (J_intArray [0xFFFFFFFF, 5]))"
proof -
  define e where "e = Entry JNI_GL_DECLARE1 ''glDeleteTextures''
      [(jint, ''n''), (jintArray, ''jtextures'')]
      [(JuintArray, ''textures'', ''jtextures'')]
      Plain (Linked ''glDeleteTextures'' [''n'', ''textures''])"
  define vals where "vals = [J_int 2, J_intArray [0xFFFFFFFF, 5]]"
  have mem: "e \<in> set entry_points"
    by (simp add: e_def entry_points_def entry_points_03_def)
  have ty: "well_typed e vals"
    by (simp add: e_def vals_def well_typed_def signature_def)
  have i: "1 < length (params e)" by (simp add: e_def)
  have w: "map_of (wrapping e) (snd (params e ! 1)) = Some (JuintArray, ''textures'')"
    by (simp add: e_def wrapping_def)
  have w': "map_of (wrapping e) ''jtextures'' = Some (JuintArray, ''textures'')"
    by (simp add: e_def wrapping_def)
  have u: "unsigned_width JuintArray = Some 32" by simp
  have ow: "own e vals ! 1 = J_intArray [0xFFFFFFFF, 5]"
    by (simp add: e_def vals_def own_def)
  have d: "destination e vals = Some (Symbol ''glDeleteTextures'')"
    by (simp add: e_def destination_def)
  have na: "native_arguments e (own e vals) = Some [C_32 2, P_uint [0xFFFFFFFF, 5]]"
    by (simp add: e_def vals_def own_def native_arguments_def native_view_def wrapping_def)
  from logged_call_at [OF mem ty d na, of sample black] obtain res' where
    r': "invoke (logged sample) e vals (black, []) = Some res'"
      "snd (final_state res') = [(Symbol ''glDeleteTextures'', [C_32 2, P_uint [0xFFFFFFFF, 5]])]"
    by metis
  from unsigned_arrays_reinterpreted [OF mem ty i w u, of sample black, THEN conjunct1]
  obtain t cs res where
    r: "invoke (logged sample) e vals (black, []) = Some res"
      "snd (final_state res) = [(t, cs)]"
      "native_elements (cs ! 1) = map (\<lambda>x. x mod 2 ^ 32) (managed_elements (own e vals ! 1))"
    by metis
  from r(1,2) r' have cs: "cs = [C_32 2, P_uint [0xFFFFFFFF, 5]]" by simp
  from r(3) have "native_elements (P_uint [0xFFFFFFFF, 5]) =
     map (\<lambda>x. x mod 2 ^ 32) (managed_elements (J_intArray [0xFFFFFFFF, 5]))"
    unfolding cs ow by simp
  moreover have "managed_elements (J_intArray [0xFFFFFFFF, 5]) = [- 1, 5]" by simp
  moreover have "native_elements (P_uint [0xFFFFFFFF, 5]) = [4294967295, 5]" by simp
  moreover from r' have "\<exists>res. invoke (logged sample) e vals (black, []) = Some res \<and>
      snd (final_state res) = [(Symbol ''glDeleteTextures'', [C_32 2, P_uint [0xFFFFFFFF, 5]])]"
    by (intro exI [of _ res'] conjI)
  ultimately show ?thesis
    using mem ty w' u unfolding e_def vals_def by simp
qed

subsection \<open>C9: what \<^verbatim>\<open>glGetString\<close> does with a null pointer\<close>

text \<open>
  Claim C9. In \<^verbatim>\<open>glGetString\<close> the pointer that the native call returns goes straight
  to the managed string constructor, with no null check; so a copied, caller-owned
  string is returned only when the native call returns a non-null string. In the model:
  whatever pointer \<open>p\<close> the native call returns, null or not, the entry point returns
  what the runtime's \<^verbatim>\<open>NewStringUTF\<close> makes of \<open>p\<close>. For a C string \<open>s\<close> and a runtime that
  copies it, that is the Java string \<open>s\<close>; for the null pointer it is whatever the
  runtime makes of null.
\<close>

theorem glGetString_null_unguarded:
  "Entry (JNI_GL_DECLARE_RETURN1 jstring) ''glGetString'' [(c_int, ''name'')] []
      Return_NewStringUTF (Linked ''glGetString'' [''name'']) \<in> set entry_points \<and>
   (native P (Symbol ''glGetString'') [C_32 i] w = Returned (Some (P_chars p)) bufs w' \<longrightarrow>
      invoke P (Entry (JNI_GL_DECLARE_RETURN1 jstring) ''glGetString'' [(c_int, ''name'')] []
      Return_NewStringUTF (Linked ''glGetString'' [''name''])) [J_int i] w =
        Some (Returns (Some (NewStringUTF P p)) (map managed bufs) w') \<and>
      (\<forall>s. p = Some s \<and> NewStringUTF P (Some s) = J_string s \<longrightarrow>
         invoke P (Entry (JNI_GL_DECLARE_RETURN1 jstring) ''glGetString'' [(c_int, ''name'')] []
      Return_NewStringUTF (Linked ''glGetString'' [''name''])) [J_int i] w =
           Some (Returns (Some (J_string s)) (map managed bufs) w')) \<and>
      (p = None \<longrightarrow>
         invoke P (Entry (JNI_GL_DECLARE_RETURN1 jstring) ''glGetString'' [(c_int, ''name'')] []
      Return_NewStringUTF (Linked ''glGetString'' [''name''])) [J_int i] w =
           Some (Returns (Some (NewStringUTF P None)) (map managed bufs) w')))"
proof -
  define e where "e = Entry (JNI_GL_DECLARE_RETURN1 jstring) ''glGetString'' [(c_int, ''name'')] []
      Return_NewStringUTF (Linked ''glGetString'' [''name''])"
  have mem: "e \<in> set entry_points"
    by (simp add: e_def entry_points_def entry_points_06_def)
  have inv: "invoke P e [J_int i] w = Some (Returns (Some (NewStringUTF P p)) (map managed bufs) w')"
    if n: "native P (Symbol ''glGetString'') [C_32 i] w = Returned (Some (P_chars p)) bufs w'"
  proof -
    have ty: "well_typed e [J_int i]"
      by (simp add: e_def well_typed_def signature_def)
    have dir: "direct_native_call P e [J_int i] w = Some (native P (Symbol ''glGetString'') [C_32 i] w)"
      by (simp add: e_def direct_native_call_def destination_def native_arguments_def
            native_view_def wrapping_def own_def)
    from entry_point_refines [OF mem ty, of P w] obtain out where
      o: "direct_native_call P e [J_int i] w = Some out \<and>
        invoke P e [J_int i] w = Some (JNI_TRY_CATCH (returned P (form e)) out)" ..
    with dir n have "out = Returned (Some (P_chars p)) bufs w'" by simp
    moreover have "form e = Return_NewStringUTF" by (simp add: e_def)
    ultimately show ?thesis using o by simp
  qed
  have "native P (Symbol ''glGetString'') [C_32 i] w = Returned (Some (P_chars p)) bufs w' \<longrightarrow>
      invoke P e [J_int i] w =
        Some (Returns (Some (NewStringUTF P p)) (map managed bufs) w') \<and>
      (\<forall>s. p = Some s \<and> NewStringUTF P (Some s) = J_string s \<longrightarrow>
         invoke P e [J_int i] w =
           Some (Returns (Some (J_string s)) (map managed bufs) w')) \<and>
      (p = None \<longrightarrow>
         invoke P e [J_int i] w =
           Some (Returns (Some (NewStringUTF P None)) (map managed bufs) w'))"
    using inv by auto
  with mem show ?thesis unfolding e_def by (intro conjI)
qed

text \<open>
  In the sample world \<^verbatim>\<open>glGetString\<close> knows \<^verbatim>\<open>GL_VENDOR\<close> (\<^verbatim>\<open>0x1F00\<close>) and returns null
  for every other name; the sample runtime makes the null reference of a null pointer.
\<close>

theorem glGetString_null_unguarded_witness:
  "native sample (Symbol ''glGetString'') [C_32 0] black = Returned (Some (P_chars None)) [] black \<and>
   invoke sample (Entry (JNI_GL_DECLARE_RETURN1 jstring) ''glGetString'' [(c_int, ''name'')] []
      Return_NewStringUTF (Linked ''glGetString'' [''name''])) [J_int 0] black =
     Some (Returns (Some J_null) [] black) \<and>
   native sample (Symbol ''glGetString'') [C_32 0x1F00] black =
     Returned (Some (P_chars (Some ''Sample''))) [] black \<and>
   invoke sample (Entry (JNI_GL_DECLARE_RETURN1 jstring) ''glGetString'' [(c_int, ''name'')] []
      Return_NewStringUTF (Linked ''glGetString'' [''name''])) [J_int 0x1F00] black =
     Some (Returns (Some (J_string ''Sample'')) [] black)"
proof -
  have n0: "native sample (Symbol ''glGetString'') [C_32 0] black =
      Returned (Some (P_chars None)) [] black"
    by (simp add: sample_def sample_native_def)
  have n1: "native sample (Symbol ''glGetString'') [C_32 0x1F00] black =
      Returned (Some (P_chars (Some ''Sample''))) [] black"
    by (simp add: sample_def sample_native_def)
  have s0: "NewStringUTF sample None = J_null"
    and s1: "NewStringUTF sample (Some ''Sample'') = J_string ''Sample''"
    by (simp_all add: sample_def sample_NewStringUTF_def)
  note r = glGetString_null_unguarded [where P = sample, THEN conjunct2, rule_format]
  from r [OF n0, THEN conjunct1] s0
  have "invoke sample (Entry (JNI_GL_DECLARE_RETURN1 jstring) ''glGetString'' [(c_int, ''name'')] []
      Return_NewStringUTF (Linked ''glGetString'' [''name''])) [J_int 0] black =
     Some (Returns (Some J_null) [] black)"
    by simp
  moreover from r [OF n1, THEN conjunct1] s1
  have "invoke sample (Entry (JNI_GL_DECLARE_RETURN1 jstring) ''glGetString'' [(c_int, ''name'')] []
      Return_NewStringUTF (Linked ''glGetString'' [''name''])) [J_int 0x1F00] black =
     Some (Returns (Some (J_string ''Sample'')) [] black)"
    by simp
  ultimately show ?thesis using n0 n1 by simp
qed

subsection \<open>C10: boolean parameters are bytes, forwarded as they are\<close>

text \<open>
  Claim C10. \<^verbatim>\<open>glColorMask\<close>, \<^verbatim>\<open>glDepthMask\<close> and \<^verbatim>\<open>glEdgeFlag\<close> take their boolean
  parameters as managed bytes and forward them numerically, without normalizing to a
  true/false sentinel; so every nonzero byte acts as native true and zero as native
  false. In the model: for every byte value the one native call receives that very
  byte; it is nonzero (true for the library) exactly when the managed byte is nonzero;
  and, for one, the byte 2 arrives as 2, which is true and is not \<^verbatim>\<open>GL_TRUE\<close>.
\<close>

theorem boolean_bytes_forwarded_unnormalized:
  "Entry JNI_GL_DECLARE1 ''glColorMask''
      [(jbyte, ''red''), (jbyte, ''green''), (jbyte, ''blue''), (jbyte, ''alpha'')] []
      Plain (Linked ''glColorMask'' [''red'', ''green'', ''blue'', ''alpha'']) \<in> set entry_points \<and>
   Entry JNI_GL_DECLARE1 ''glDepthMask'' [(jbyte, ''flag'')] []
      Plain (Linked ''glDepthMask'' [''flag'']) \<in> set entry_points \<and>
   Entry JNI_GL_DECLARE1 ''glEdgeFlag'' [(jbyte, ''flag'')] []
      Plain (Linked ''glEdgeFlag'' [''flag'']) \<in> set entry_points \<and>
   (\<exists>res. invoke (logged P) (Entry JNI_GL_DECLARE1 ''glColorMask''
      [(jbyte, ''red''), (jbyte, ''green''), (jbyte, ''blue''), (jbyte, ''alpha'')] []
      Plain (Linked ''glColorMask'' [''red'', ''green'', ''blue'', ''alpha'']))
        [J_byte r, J_byte g, J_byte b, J_byte a] (w, []) = Some res \<and>
      snd (final_state res) = [(Symbol ''glColorMask'', [C_8 r, C_8 g, C_8 b, C_8 a])]) \<and>
   (\<exists>res. invoke (logged P) (Entry JNI_GL_DECLARE1 ''glDepthMask'' [(jbyte, ''flag'')] []
      Plain (Linked ''glDepthMask'' [''flag''])) [J_byte f] (w, []) = Some res \<and>
      snd (final_state res) = [(Symbol ''glDepthMask'', [C_8 f])]) \<and>
   (\<exists>res. invoke (logged P) (Entry JNI_GL_DECLARE1 ''glEdgeFlag'' [(jbyte, ''flag'')] []
      Plain (Linked ''glEdgeFlag'' [''flag''])) [J_byte f] (w, []) = Some res \<and>
      snd (final_state res) = [(Symbol ''glEdgeFlag'', [C_8 f])]) \<and>
   native_true (C_8 f) = (sint f \<noteq> 0) \<and>
   native_true (C_8 2) \<and> C_8 2 \<noteq> C_8 GL_TRUE"
proof -
  define e1 where "e1 = Entry JNI_GL_DECLARE1 ''glColorMask''
      [(jbyte, ''red''), (jbyte, ''green''), (jbyte, ''blue''), (jbyte, ''alpha'')] []
      Plain (Linked ''glColorMask'' [''red'', ''green'', ''blue'', ''alpha''])"
  define e2 where "e2 = Entry JNI_GL_DECLARE1 ''glDepthMask'' [(jbyte, ''flag'')] []
      Plain (Linked ''glDepthMask'' [''flag''])"
  define e3 where "e3 = Entry JNI_GL_DECLARE1 ''glEdgeFlag'' [(jbyte, ''flag'')] []
      Plain (Linked ''glEdgeFlag'' [''flag''])"
  have m1: "e1 \<in> set entry_points"
    by (simp add: e1_def entry_points_def entry_points_02_def)
  have m2: "e2 \<in> set entry_points"
    by (simp add: e2_def entry_points_def entry_points_03_def)
  have m3: "e3 \<in> set entry_points"
    by (simp add: e3_def entry_points_def entry_points_04_def)
  have 1: "\<exists>res. invoke (logged P) e1 [J_byte r, J_byte g, J_byte b, J_byte a] (w, []) = Some res \<and>
      snd (final_state res) = [(Symbol ''glColorMask'', [C_8 r, C_8 g, C_8 b, C_8 a])]"
    by (rule logged_call_at [OF m1])
       (simp_all add: e1_def well_typed_def signature_def destination_def native_arguments_def
          native_view_def wrapping_def own_def)
  have 2: "\<exists>res. invoke (logged P) e2 [J_byte f] (w, []) = Some res \<and>
      snd (final_state res) = [(Symbol ''glDepthMask'', [C_8 f])]"
    by (rule logged_call_at [OF m2])
       (simp_all add: e2_def well_typed_def signature_def destination_def native_arguments_def
          native_view_def wrapping_def own_def)
  have 3: "\<exists>res. invoke (logged P) e3 [J_byte f] (w, []) = Some res \<and>
      snd (final_state res) = [(Symbol ''glEdgeFlag'', [C_8 f])]"
    by (rule logged_call_at [OF m3])
       (simp_all add: e3_def well_typed_def signature_def destination_def native_arguments_def
          native_view_def wrapping_def own_def)
  have 4: "native_true (C_8 f) = (sint f \<noteq> 0)"
    by (simp add: native_true_def signed_eq_0_iff)
  have 5: "native_true (C_8 2)" "C_8 2 \<noteq> C_8 GL_TRUE"
    by (simp_all add: native_true_def GL_TRUE_def)
  from m1 m2 m3 1 2 3 4 5 show ?thesis
    unfolding e1_def e2_def e3_def by (intro conjI)
qed

text \<open>\<^verbatim>\<open>glColorMask(2, 0, -1, 1)\<close> in the sample world.\<close>

theorem boolean_bytes_forwarded_unnormalized_witness:
  "(\<exists>res. invoke (logged sample) (Entry JNI_GL_DECLARE1 ''glColorMask''
      [(jbyte, ''red''), (jbyte, ''green''), (jbyte, ''blue''), (jbyte, ''alpha'')] []
      Plain (Linked ''glColorMask'' [''red'', ''green'', ''blue'', ''alpha'']))
        [J_byte 2, J_byte 0, J_byte 0xFF, J_byte 1] (black, []) = Some res \<and>
      snd (final_state res) = [(Symbol ''glColorMask'', [C_8 2, C_8 0, C_8 0xFF, C_8 1])]) \<and>
   native_true (C_8 0xFF) \<and> sint (0xFF :: 8 word) = - 1 \<and> \<not> native_true (C_8 0)"
proof -
  note t = boolean_bytes_forwarded_unnormalized [where P = sample and w = black]
  from t [of 2 0 "0xFF" 1 "0xFF"]
  have "\<exists>res. invoke (logged sample) (Entry JNI_GL_DECLARE1 ''glColorMask''
      [(jbyte, ''red''), (jbyte, ''green''), (jbyte, ''blue''), (jbyte, ''alpha'')] []
      Plain (Linked ''glColorMask'' [''red'', ''green'', ''blue'', ''alpha'']))
        [J_byte 2, J_byte 0, J_byte 0xFF, J_byte 1] (black, []) = Some res \<and>
      snd (final_state res) = [(Symbol ''glColorMask'', [C_8 2, C_8 0, C_8 0xFF, C_8 1])]"
    and "native_true (C_8 0xFF) = (sint (0xFF :: 8 word) \<noteq> 0)"
    by simp_all
  moreover from t [of 0 0 0 0 0] have "native_true (C_8 0) = (sint (0 :: 8 word) \<noteq> 0)"
    by simp
  moreover have "sint (0xFF :: 8 word) = - 1" by simp
  ultimately show ?thesis by simp
qed

end
